theory Spec2Isabelle
  imports Complex_Main "HOL-Library.Word" "HOL-Library.Monad_Syntax"
begin

section \<open>GLM vectors and matrices\<close>

text \<open>
  The engine computes with GLM's \<^verbatim>\<open>glm::vec3\<close>, \<^verbatim>\<open>glm::vec4\<close> and \<^verbatim>\<open>glm::mat4\<close> over
  \<^verbatim>\<open>float\<close>. A \<^verbatim>\<open>float\<close> (and the \<^verbatim>\<open>double\<close> of the cursor position) is modelled by a
  \<^typ>\<open>real\<close>. Arithmetic is exact, with two exceptions: the light positions of the scene
  are computed in single precision, with the rounding of each literal and each operation
  (section Single precision), and a matrix that GLM computes with NaN entries is \<open>None\<close>
  (\<open>glm_rotate\<close>). Infinities are outside the model. A \<^verbatim>\<open>mat4\<close> is stored by columns, as GLM
  stores it: \<^verbatim>\<open>m[i]\<close> is column \<^verbatim>\<open>i\<close>, and the sixteen-argument constructor fills column 0
  first.

  GLM is a library the engine links against; the functions below follow its reference
  (non-SIMD) implementation, right-handed with depth range \<open>[-1, 1]\<close>, the defaults the
  engine is built with.
\<close>

datatype vec3 = Vec3 (v3x: real) (v3y: real) (v3z: real)

datatype vec4 = Vec4 (v4x: real) (v4y: real) (v4z: real) (v4w: real)

datatype mat4 = Mat4 (col0: vec4) (col1: vec4) (col2: vec4) (col3: vec4)

fun vec3_add :: "vec3 \<Rightarrow> vec3 \<Rightarrow> vec3" where
  "vec3_add (Vec3 a b c) (Vec3 d e f) = Vec3 (a + d) (b + e) (c + f)"

fun vec3_sub :: "vec3 \<Rightarrow> vec3 \<Rightarrow> vec3" where
  "vec3_sub (Vec3 a b c) (Vec3 d e f) = Vec3 (a - d) (b - e) (c - f)"

fun vec3_scale :: "vec3 \<Rightarrow> real \<Rightarrow> vec3" where
  "vec3_scale (Vec3 a b c) s = Vec3 (a * s) (b * s) (c * s)"

fun glm_dot :: "vec3 \<Rightarrow> vec3 \<Rightarrow> real" where
  "glm_dot (Vec3 a b c) (Vec3 d e f) = a * d + b * e + c * f"

fun glm_cross :: "vec3 \<Rightarrow> vec3 \<Rightarrow> vec3" where
  "glm_cross (Vec3 a b c) (Vec3 d e f) = Vec3 (b * f - e * c) (c * d - f * a) (a * e - d * b)"

definition glm_inversesqrt :: "real \<Rightarrow> real" where
  "glm_inversesqrt r = 1 / sqrt r"

text \<open>
  \<^verbatim>\<open>glm::normalize(v)\<close> is \<^verbatim>\<open>v * inversesqrt(dot(v, v))\<close>. For the zero vector GLM multiplies 0
  by \<^verbatim>\<open>1 / sqrt(0)\<close>, which is infinite, and every component of the result is NaN. The value
  of \<open>glm_normalize\<close> there means nothing; \<open>glm_rotate\<close>, which can be given any axis, tests
  for the zero vector before it normalises.
\<close>

definition glm_normalize :: "vec3 \<Rightarrow> vec3" where
  "glm_normalize v = vec3_scale v (glm_inversesqrt (glm_dot v v))"

definition glm_radians :: "real \<Rightarrow> real" where
  "glm_radians degrees = degrees * 0.01745329251994329576923690768489"

fun vec4_add :: "vec4 \<Rightarrow> vec4 \<Rightarrow> vec4" where
  "vec4_add (Vec4 a b c d) (Vec4 e f g h) = Vec4 (a + e) (b + f) (c + g) (d + h)"

fun vec4_scale :: "vec4 \<Rightarrow> real \<Rightarrow> vec4" where
  "vec4_scale (Vec4 a b c d) s = Vec4 (a * s) (b * s) (c * s) (d * s)"

text \<open>\<^verbatim>\<open>glm::mat4(1.0f)\<close>: the identity.\<close>

definition mat4_identity :: mat4 where
  "mat4_identity = Mat4 (Vec4 1 0 0 0) (Vec4 0 1 0 0) (Vec4 0 0 1 0) (Vec4 0 0 0 1)"

text \<open>\<^verbatim>\<open>m * v\<close>: the columns of \<open>m\<close> weighted by the components of \<open>v\<close>.\<close>

fun mat4_mul_vec4 :: "mat4 \<Rightarrow> vec4 \<Rightarrow> vec4" where
  "mat4_mul_vec4 (Mat4 m0 m1 m2 m3) (Vec4 a b c d) =
     vec4_add (vec4_add (vec4_scale m0 a) (vec4_scale m1 b))
              (vec4_add (vec4_scale m2 c) (vec4_scale m3 d))"

text \<open>\<^verbatim>\<open>m1 * m2\<close>: column \<open>j\<close> of the product is \<open>m1\<close> applied to column \<open>j\<close> of \<open>m2\<close>.\<close>

fun mat4_mul :: "mat4 \<Rightarrow> mat4 \<Rightarrow> mat4" where
  "mat4_mul m1 (Mat4 b0 b1 b2 b3) =
     Mat4 (mat4_mul_vec4 m1 b0) (mat4_mul_vec4 m1 b1) (mat4_mul_vec4 m1 b2) (mat4_mul_vec4 m1 b3)"

text \<open>
  \<^verbatim>\<open>glm::translate(m, v)\<close>: \<^verbatim>\<open>Result[3] = m[0] * v[0] + m[1] * v[1] + m[2] * v[2] + m[3]\<close>.
\<close>

fun glm_translate :: "mat4 \<Rightarrow> vec3 \<Rightarrow> mat4" where
  "glm_translate (Mat4 m0 m1 m2 m3) (Vec3 a b c) =
     Mat4 m0 m1 m2
       (vec4_add (vec4_add (vec4_add (vec4_scale m0 a) (vec4_scale m1 b)) (vec4_scale m2 c)) m3)"

text \<open>
  \<^verbatim>\<open>glm::rotate(m, angle, v)\<close>: the rotation about the normalised axis, built entry by
  entry (\<^verbatim>\<open>Rotate[i][j]\<close> is row \<open>j\<close> of column \<open>i\<close>), then applied to the first three
  columns of \<open>m\<close>; the fourth column is kept. \<open>glm_rotate_value\<close> is this arithmetic. For the
  zero vector the axis is NaN, and so is every entry of the three columns, whatever the
  angle: \<open>glm_rotate\<close> is \<open>None\<close> there, and the value of the arithmetic elsewhere.
\<close>

definition glm_rotate_value :: "mat4 \<Rightarrow> real \<Rightarrow> vec3 \<Rightarrow> mat4" where
  "glm_rotate_value m angle v =
     (let c = cos angle;
          s = sin angle;
          axis = glm_normalize v;
          temp = vec3_scale axis (1 - c);
          r00 = c + v3x temp * v3x axis;
          r01 = v3x temp * v3y axis + s * v3z axis;
          r02 = v3x temp * v3z axis - s * v3y axis;
          r10 = v3y temp * v3x axis - s * v3z axis;
          r11 = c + v3y temp * v3y axis;
          r12 = v3y temp * v3z axis + s * v3x axis;
          r20 = v3z temp * v3x axis + s * v3y axis;
          r21 = v3z temp * v3y axis - s * v3x axis;
          r22 = c + v3z temp * v3z axis
      in Mat4
          (vec4_add (vec4_add (vec4_scale (col0 m) r00) (vec4_scale (col1 m) r01))
             (vec4_scale (col2 m) r02))
          (vec4_add (vec4_add (vec4_scale (col0 m) r10) (vec4_scale (col1 m) r11))
             (vec4_scale (col2 m) r12))
          (vec4_add (vec4_add (vec4_scale (col0 m) r20) (vec4_scale (col1 m) r21))
             (vec4_scale (col2 m) r22))
          (col3 m))"

definition glm_rotate :: "mat4 \<Rightarrow> real \<Rightarrow> vec3 \<Rightarrow> mat4 option" where
  "glm_rotate m angle v =
     (if glm_dot v v = 0 then None else Some (glm_rotate_value m angle v))"

text \<open>\<^verbatim>\<open>glm::scale(m, v)\<close>: the first three columns scaled, the fourth kept.\<close>

fun glm_scale :: "mat4 \<Rightarrow> vec3 \<Rightarrow> mat4" where
  "glm_scale (Mat4 m0 m1 m2 m3) (Vec3 a b c) =
     Mat4 (vec4_scale m0 a) (vec4_scale m1 b) (vec4_scale m2 c) m3"

text \<open>
  \<^verbatim>\<open>glm::lookAt(eye, center, up)\<close>, right-handed. The engine calls it with a view direction
  \<open>center - eye\<close> of length 1 and an \<open>up\<close> that is not parallel to it (for a light,
  \<open>(0, -1, 0)\<close> and \<open>(0, 0, -1)\<close>), so neither vector it normalises is zero.
\<close>

definition glm_lookAt :: "vec3 \<Rightarrow> vec3 \<Rightarrow> vec3 \<Rightarrow> mat4" where
  "glm_lookAt eye center up =
     (let f = glm_normalize (vec3_sub center eye);
          s = glm_normalize (glm_cross f up);
          u = glm_cross s f
      in Mat4 (Vec4 (v3x s) (v3x u) (- v3x f) 0)
              (Vec4 (v3y s) (v3y u) (- v3y f) 0)
              (Vec4 (v3z s) (v3z u) (- v3z f) 0)
              (Vec4 (- glm_dot s eye) (- glm_dot u eye) (glm_dot f eye) 1))"

text \<open>\<^verbatim>\<open>glm::perspective(fovy, aspect, zNear, zFar)\<close>, right-handed, depth in \<open>[-1, 1]\<close>.\<close>

definition glm_perspective :: "real \<Rightarrow> real \<Rightarrow> real \<Rightarrow> real \<Rightarrow> mat4" where
  "glm_perspective fovy aspect zNear zFar =
     (let tanHalfFovy = tan (fovy / 2)
      in Mat4 (Vec4 (1 / (aspect * tanHalfFovy)) 0 0 0)
              (Vec4 0 (1 / tanHalfFovy) 0 0)
              (Vec4 0 0 (- (zFar + zNear) / (zFar - zNear)) (- 1))
              (Vec4 0 0 (- (2 * zFar * zNear) / (zFar - zNear)) 0))"

section \<open>The bias matrix of the shadow pass\<close>

text \<open>
  \<^verbatim>\<open>glm::mat4 biasMatrix(0.5, 0.0, 0.0, 0.0, 0.0, 0.5, 0.0, 0.0, 0.0, 0.0, 0.5, 0.0,
  0.5, 0.5, 0.5, 1.0)\<close> in \<^verbatim>\<open>MainLoop\<close>: the arguments are read column by column.
\<close>

definition biasMatrix :: mat4 where
  "biasMatrix =
     Mat4 (Vec4 0.5 0.0 0.0 0.0) (Vec4 0.0 0.5 0.0 0.0) (Vec4 0.0 0.0 0.5 0.0)
          (Vec4 0.5 0.5 0.5 1.0)"

text \<open>
  A point of the clip-space cube is a homogeneous point with \<open>w = 1\<close> whose coordinates
  lie in \<open>[-1, 1]\<close>; a point of the texture-space cube has them in \<open>[0, 1]\<close>.
\<close>

fun in_clip_cube :: "vec4 \<Rightarrow> bool" where
  "in_clip_cube (Vec4 a b c d) =
     (- 1 \<le> a \<and> a \<le> 1 \<and> - 1 \<le> b \<and> b \<le> 1 \<and> - 1 \<le> c \<and> c \<le> 1 \<and> d = 1)"

fun in_texture_cube :: "vec4 \<Rightarrow> bool" where
  "in_texture_cube (Vec4 a b c d) =
     (0 \<le> a \<and> a \<le> 1 \<and> 0 \<le> b \<and> b \<le> 1 \<and> 0 \<le> c \<and> c \<le> 1 \<and> d = 1)"

section \<open>Single precision\<close>

text \<open>
  The value of a \<^verbatim>\<open>float\<close> literal and of a \<^verbatim>\<open>float\<close> operation is the exact value rounded to
  binary32: 24 significant bits, ties to the even significand. \<open>f32_exponent x\<close> is the
  exponent \<open>e\<close> with \<open>2^e \<le> |x| < 2^(e+1)\<close>, searched upwards from 0 for \<open>|x| \<ge> 1\<close> and
  downwards otherwise and kept within \<open>[-126, 127]\<close>, so that numbers below \<open>2^-126\<close> are
  spaced as the subnormal numbers are; the spacing at \<open>x\<close> is \<open>2^(e-23)\<close>. A value beyond
  the largest finite number would be infinite, which the model does not have; none of the
  numbers rounded in the scene comes near it.
\<close>

fun f32_exp_up :: "nat \<Rightarrow> int \<Rightarrow> real \<Rightarrow> int" where
  "f32_exp_up 0 e a = e"
| "f32_exp_up (Suc n) e a = (if 2 powi (e + 1) \<le> a then f32_exp_up n (e + 1) a else e)"

fun f32_exp_down :: "nat \<Rightarrow> int \<Rightarrow> real \<Rightarrow> int" where
  "f32_exp_down 0 e a = e"
| "f32_exp_down (Suc n) e a = (if a < 2 powi e then f32_exp_down n (e - 1) a else e)"

definition f32_exponent :: "real \<Rightarrow> int" where
  "f32_exponent x =
     (if 1 \<le> \<bar>x\<bar> then f32_exp_up 127 0 \<bar>x\<bar> else f32_exp_down 126 0 \<bar>x\<bar>)"

definition round_half_even :: "real \<Rightarrow> int" where
  "round_half_even y =
     (let n = \<lfloor>y\<rfloor>; d = y - of_int n
      in if d < 1 / 2 then n else if 1 / 2 < d then n + 1 else if even n then n else n + 1)"

definition f32 :: "real \<Rightarrow> real" where
  "f32 x = (let ulp = 2 powi (f32_exponent x - 23) in of_int (round_half_even (x / ulp)) * ulp)"

section \<open>The OpenGL context\<close>

text \<open>
  \<^verbatim>\<open>GLuint\<close> and \<^verbatim>\<open>unsigned int\<close> are 32-bit words. Of the OpenGL context the model keeps
  what the engine's draw order and clean-up depend on: the program in use, the blend and
  depth-write switches, the uniforms the engine sets (each under its name in the shader),
  the buffer objects and the texture objects that have been deleted, and the trace of the
  calls that draw, release or present. Texture-unit and vertex-attribute bindings, render
  targets, viewports and clears are not traced.

  The \<^verbatim>\<open>glGen*\<close> calls and the loaders return names that are not in use and never 0; the
  model hands out 1, 2, 3, ... from a counter for each kind of object. Every
  \<^verbatim>\<open>glGenBuffers\<close> and \<^verbatim>\<open>glGenTextures\<close> of the program is followed by the bind that creates
  the object of that name, and the model takes the two as one step: a name is that of a
  buffer object (\<^verbatim>\<open>glIsBuffer\<close>) when it has been handed out and not deleted since, and
  likewise for a texture object; \<open>gl_buffers\<close> and \<open>gl_textures\<close> are the objects that exist. \<^verbatim>\<open>glDeleteBuffers\<close> and
  \<^verbatim>\<open>glDeleteTextures\<close> delete the object of a name; they ignore 0 and a name of which no
  object exists.
\<close>

type_synonym GLuint = "32 word"

datatype mesh_ref =
    Bench | Door | SwitchObj | Exhaust | Clock | Pipe | Projector | Screen
  | FloorMesh | Fan | Greenboard | Podium | Table | LightPanel | Grid
  | WindowMesh | WallFan | Glass
  | Wall | Ceiling

text \<open>
  One \<^verbatim>\<open>glDrawElements\<close> call, with the state it runs under: the program, the mesh whose
  buffers are bound and its index count, the matrix uniforms, the material flags, and the
  blend and depth-write switches.
\<close>

record draw_call =
  d_program :: GLuint
  d_mesh :: mesh_ref
  d_elementBuffer :: GLuint
  d_indexCount :: "32 word"
  d_depthMVP :: mat4
  d_MVP :: mat4
  d_M :: mat4
  d_bIsUnlit :: int
  d_bIsGlass :: int
  d_bUseNormalMap :: int
  d_bUseSpecularMap :: int
  d_fragmentAlpha :: real
  d_uShadingModel :: int
  d_blend :: bool
  d_depthMask :: bool

datatype gl_call =
    DrawElements draw_call
  | DeleteBuffers GLuint
  | DeleteTextures GLuint
  | DeleteFramebuffers GLuint
  | DeleteVertexArrays GLuint
  | DeleteProgram GLuint
  | SwapBuffers

record gl_context =
  gl_program :: GLuint
  gl_blend :: bool
  gl_depthMask :: bool
  u_depthMVP :: mat4
  u_MVP :: mat4
  u_M :: mat4
  u_bIsUnlit :: int
  u_bIsGlass :: int
  u_bUseNormalMap :: int
  u_bUseSpecularMap :: int
  u_fragmentAlpha :: real
  u_uShadingModel :: int
  u_DepthBiasMVPs :: "mat4 list"
  u_ClassroomLightPositions_cameraspace :: "vec3 list"
  gl_genBuffers :: GLuint
  gl_genTextures :: GLuint
  gl_genVertexArrays :: GLuint
  gl_genFramebuffers :: GLuint
  gl_genPrograms :: GLuint
  gl_deletedBuffers :: "GLuint set"
  gl_deletedTextures :: "GLuint set"
  gl_trace :: "gl_call list"

text \<open>
  A fresh context: blending is off and depth writes are on (the OpenGL defaults, which
  \<^verbatim>\<open>InitSystem\<close> leaves alone), every uniform is 0, and no name has been handed out.
\<close>

definition mat4_zero :: mat4 where
  "mat4_zero = Mat4 (Vec4 0 0 0 0) (Vec4 0 0 0 0) (Vec4 0 0 0 0) (Vec4 0 0 0 0)"

definition gl_initial :: gl_context where
  "gl_initial =
     \<lparr>gl_program = 0, gl_blend = False, gl_depthMask = True,
      u_depthMVP = mat4_zero, u_MVP = mat4_zero, u_M = mat4_zero,
      u_bIsUnlit = 0, u_bIsGlass = 0, u_bUseNormalMap = 0, u_bUseSpecularMap = 0,
      u_fragmentAlpha = 0, u_uShadingModel = 0,
      u_DepthBiasMVPs = [], u_ClassroomLightPositions_cameraspace = [],
      gl_genBuffers = 0, gl_genTextures = 0, gl_genVertexArrays = 0,
      gl_genFramebuffers = 0, gl_genPrograms = 0,
      gl_deletedBuffers = {}, gl_deletedTextures = {}, gl_trace = []\<rparr>"

definition gl_emit :: "gl_call \<Rightarrow> gl_context \<Rightarrow> gl_context" where
  "gl_emit c g = g\<lparr>gl_trace := gl_trace g @ [c]\<rparr>"

definition glGenBuffers :: "gl_context \<Rightarrow> GLuint \<times> gl_context" where
  "glGenBuffers g = (gl_genBuffers g + 1, g\<lparr>gl_genBuffers := gl_genBuffers g + 1\<rparr>)"

definition glGenTextures :: "gl_context \<Rightarrow> GLuint \<times> gl_context" where
  "glGenTextures g = (gl_genTextures g + 1, g\<lparr>gl_genTextures := gl_genTextures g + 1\<rparr>)"

definition glGenVertexArrays :: "gl_context \<Rightarrow> GLuint \<times> gl_context" where
  "glGenVertexArrays g =
     (gl_genVertexArrays g + 1, g\<lparr>gl_genVertexArrays := gl_genVertexArrays g + 1\<rparr>)"

definition glGenFramebuffers :: "gl_context \<Rightarrow> GLuint \<times> gl_context" where
  "glGenFramebuffers g =
     (gl_genFramebuffers g + 1, g\<lparr>gl_genFramebuffers := gl_genFramebuffers g + 1\<rparr>)"

definition glIsBuffer :: "gl_context \<Rightarrow> GLuint \<Rightarrow> bool" where
  "glIsBuffer g b = (0 < b \<and> b \<le> gl_genBuffers g \<and> b \<notin> gl_deletedBuffers g)"

definition glIsTexture :: "gl_context \<Rightarrow> GLuint \<Rightarrow> bool" where
  "glIsTexture g t = (0 < t \<and> t \<le> gl_genTextures g \<and> t \<notin> gl_deletedTextures g)"

definition gl_buffers :: "gl_context \<Rightarrow> GLuint set" where
  "gl_buffers g = {b. glIsBuffer g b}"

definition gl_textures :: "gl_context \<Rightarrow> GLuint set" where
  "gl_textures g = {t. glIsTexture g t}"

definition glDeleteBuffers :: "GLuint \<Rightarrow> gl_context \<Rightarrow> gl_context" where
  "glDeleteBuffers b g =
     gl_emit (DeleteBuffers b)
       (if glIsBuffer g b then g\<lparr>gl_deletedBuffers := insert b (gl_deletedBuffers g)\<rparr>
        else g)"

definition glDeleteTextures :: "GLuint \<Rightarrow> gl_context \<Rightarrow> gl_context" where
  "glDeleteTextures t g =
     gl_emit (DeleteTextures t)
       (if glIsTexture g t then g\<lparr>gl_deletedTextures := insert t (gl_deletedTextures g)\<rparr>
        else g)"

text \<open>
  Modelled from the spec: \<^verbatim>\<open>loadDDS\<close> and \<^verbatim>\<open>loadBMP_custom\<close> (common/texture.cpp) are not
  among the sources. The spec's image loader is \<^verbatim>\<open>loadTexture(path) -> textureHandle\<close>, and
  a file that cannot be loaded aborts start-up; the model is the successful load, which
  returns the name of a new texture.
\<close>

definition loadTexture :: "string \<Rightarrow> gl_context \<Rightarrow> GLuint \<times> gl_context" where
  "loadTexture path g = glGenTextures g"

text \<open>
  Modelled from the spec: \<^verbatim>\<open>LoadShaders\<close> (common/shader.cpp) is not among the sources. The
  spec's shader compiler is \<^verbatim>\<open>compile(vertexSource, fragmentSource) -> programHandle\<close>, and a
  shader that does not compile aborts start-up; the model is the successful compilation,
  which returns the name of a new program.
\<close>

definition LoadShaders :: "string \<Rightarrow> string \<Rightarrow> gl_context \<Rightarrow> GLuint \<times> gl_context" where
  "LoadShaders vertex_file_path fragment_file_path g =
     (gl_genPrograms g + 1, g\<lparr>gl_genPrograms := gl_genPrograms g + 1\<rparr>)"

section \<open>Geometry batches\<close>

text \<open>\<^verbatim>\<open>struct Mesh\<close>, with the defaults of its member initialisers.\<close>

record Mesh =
  vertexBuffer :: GLuint
  uvBuffer :: GLuint
  normalBuffer :: GLuint
  elementBuffer :: GLuint
  tangentBuffer :: GLuint
  bitangentBuffer :: GLuint
  textureID :: GLuint
  normalTextureID :: GLuint
  specularTextureID :: GLuint
  indexCount :: "32 word"
  hasNormalMap :: bool
  modelMatrices :: "mat4 list"

definition Mesh_default :: Mesh where
  "Mesh_default =
     \<lparr>vertexBuffer = 0, uvBuffer = 0, normalBuffer = 0, elementBuffer = 0,
      tangentBuffer = 0, bitangentBuffer = 0,
      textureID = 0, normalTextureID = 0, specularTextureID = 0,
      indexCount = 0, hasNormalMap = False, modelMatrices = []\<rparr>"

definition addInstance :: "mat4 \<Rightarrow> Mesh \<Rightarrow> Mesh" where
  "addInstance matrix mesh = mesh\<lparr>modelMatrices := modelMatrices mesh @ [matrix]\<rparr>"

text \<open>
  \<^verbatim>\<open>Mesh::Dispose\<close>. Each of the first five handles is released when it is not 0; with a
  normal map the remaining four are released without a test. No field of the mesh is
  assigned, so the mesh is the same after the call.
\<close>

definition Dispose :: "Mesh \<Rightarrow> gl_context \<Rightarrow> gl_context" where
  "Dispose mesh g =
     (let g = (if vertexBuffer mesh \<noteq> 0 then glDeleteBuffers (vertexBuffer mesh) g else g);
          g = (if uvBuffer mesh \<noteq> 0 then glDeleteBuffers (uvBuffer mesh) g else g);
          g = (if normalBuffer mesh \<noteq> 0 then glDeleteBuffers (normalBuffer mesh) g else g);
          g = (if elementBuffer mesh \<noteq> 0 then glDeleteBuffers (elementBuffer mesh) g else g);
          g = (if textureID mesh \<noteq> 0 then glDeleteTextures (textureID mesh) g else g)
      in if hasNormalMap mesh
         then (let g = glDeleteBuffers (tangentBuffer mesh) g;
                   g = glDeleteBuffers (bitangentBuffer mesh) g;
                   g = glDeleteTextures (normalTextureID mesh) g;
                   g = glDeleteTextures (specularTextureID mesh) g
               in g)
         else g)"

section \<open>The engine\<close>

text \<open>
  The members of \<^verbatim>\<open>class ClassroomSimulator\<close>. The twenty \<^verbatim>\<open>Mesh\<close> members are a store from
  \<^typ>\<open>mesh_ref\<close> to \<^typ>\<open>Mesh\<close>, and a \<^verbatim>\<open>Mesh*\<close> of a render list is the \<^typ>\<open>mesh_ref\<close> of the
  member it points to. \<^verbatim>\<open>classroomLightPositions_worldspace\<close> is an array of \<^verbatim>\<open>NUM_LIGHTS\<close>
  vectors.
\<close>

definition NUM_LIGHTS :: nat where
  "NUM_LIGHTS = 9"

record ClassroomSimulator =
  VertexArrayID :: GLuint
  FramebufferName :: GLuint
  depthTextureArray :: GLuint
  programID :: GLuint
  depthProgramID :: GLuint
  meshes :: "mesh_ref \<Rightarrow> Mesh"
  opaqueMeshes :: "mesh_ref list"
  normalMapMeshes :: "mesh_ref list"
  transparentMeshes :: "mesh_ref list"
  classroomLightPositions_worldspace :: "vec3 list"

text \<open>
  The object the constructor leaves: handles 0, default meshes, empty render lists. The
  light array is not initialised; \<open>uninit\<close> gives its contents.
\<close>

definition ClassroomSimulator_new :: "(nat \<Rightarrow> vec3) \<Rightarrow> ClassroomSimulator" where
  "ClassroomSimulator_new uninit =
     \<lparr>VertexArrayID = 0, FramebufferName = 0, depthTextureArray = 0,
      programID = 0, depthProgramID = 0,
      meshes = (\<lambda>r. Mesh_default),
      opaqueMeshes = [], normalMapMeshes = [], transparentMeshes = [],
      classroomLightPositions_worldspace = map uninit [0..<NUM_LIGHTS]\<rparr>"

text \<open>
  The engine and the context, threaded through start-up. \<^verbatim>\<open>for (int i = 0; i < n; i++)\<close> is
  a fold over \<open>0, ..., n - 1\<close>; the nested grid loops of \<^verbatim>\<open>LoadScene\<close>, with the \<^verbatim>\<open>continue\<close> of
  the cells left out, are \<open>for_grid\<close>.
\<close>

definition for_loop :: "nat \<Rightarrow> (nat \<Rightarrow> 's \<Rightarrow> 's) \<Rightarrow> 's \<Rightarrow> 's" where
  "for_loop n body = fold body [0..<n]"

definition for_grid :: "nat \<Rightarrow> nat \<Rightarrow> (nat \<Rightarrow> nat \<Rightarrow> bool) \<Rightarrow> (nat \<Rightarrow> nat \<Rightarrow> 's \<Rightarrow> 's) \<Rightarrow> 's \<Rightarrow> 's" where
  "for_grid n m skip body =
     for_loop n (\<lambda>i. for_loop m (\<lambda>j s. if skip i j then s else body i j s))"

text \<open>
  A loop whose body can end with a matrix that is not of numbers: the model follows the
  loop as long as the body returns \<open>Some\<close>.
\<close>

definition for_loop_opt :: "nat \<Rightarrow> (nat \<Rightarrow> 's \<Rightarrow> 's option) \<Rightarrow> 's \<Rightarrow> 's option" where
  "for_loop_opt n body s = fold (\<lambda>i r. Option.bind r (body i)) [0..<n] (Some s)"

definition for_grid_opt ::
  "nat \<Rightarrow> nat \<Rightarrow> (nat \<Rightarrow> nat \<Rightarrow> bool) \<Rightarrow> (nat \<Rightarrow> nat \<Rightarrow> 's \<Rightarrow> 's option) \<Rightarrow> 's \<Rightarrow> 's option" where
  "for_grid_opt n m skip body =
     for_loop_opt n (\<lambda>i. for_loop_opt m (\<lambda>j s. if skip i j then Some s else body i j s))"

text \<open>
  \<^verbatim>\<open>mesh.addInstance(model)\<close> on a member of the engine, and \<^verbatim>\<open>AddObject\<close>: the model matrix
  starts as the identity and is translated; it is rotated only when \<^verbatim>\<open>rotDeg != 0.0f\<close> and
  scaled only when \<^verbatim>\<open>scale != glm::vec3(1.0f)\<close>. \<open>AddObject_model\<close> is the matrix \<^verbatim>\<open>model\<close>
  that is added, \<open>None\<close> when it has NaN entries; the instance lists of the model hold
  matrices of numbers, and \<open>AddObject\<close> is \<open>None\<close> when the matrix it would add is not one.
\<close>

definition addInstance_of :: "mesh_ref \<Rightarrow> mat4 \<Rightarrow> ClassroomSimulator \<Rightarrow> ClassroomSimulator" where
  "addInstance_of mesh matrix sim =
     sim\<lparr>meshes := (meshes sim)(mesh := addInstance matrix (meshes sim mesh))\<rparr>"

definition AddObject_model :: "vec3 \<Rightarrow> real \<Rightarrow> vec3 \<Rightarrow> vec3 \<Rightarrow> mat4 option" where
  "AddObject_model pos rotDeg rotAxis scale =
     do {
       let model = mat4_identity;
       let model = glm_translate model pos;
       model \<leftarrow> (if rotDeg \<noteq> 0 then glm_rotate model (glm_radians rotDeg) rotAxis
                 else Some model);
       let model = (if scale \<noteq> Vec3 1 1 1 then glm_scale model scale else model);
       Some model
     }"

definition AddObject ::
  "mesh_ref \<Rightarrow> vec3 \<Rightarrow> real \<Rightarrow> vec3 \<Rightarrow> vec3 \<Rightarrow> ClassroomSimulator \<Rightarrow> ClassroomSimulator option" where
  "AddObject mesh pos rotDeg rotAxis scale sim =
     do {
       model \<leftarrow> AddObject_model pos rotDeg rotAxis scale;
       Some (addInstance_of mesh model sim)
     }"

section \<open>Loading a mesh\<close>

text \<open>
  \<^verbatim>\<open>loadOBJ\<close>, \<^verbatim>\<open>indexVBO\<close>, \<^verbatim>\<open>indexVBO_TBN\<close> and \<^verbatim>\<open>computeTangentBasis\<close> are not among the
  sources. Of their result the engine keeps \<^verbatim>\<open>indices.size()\<close>; \<open>assets\<close> gives it for each
  model file. The buffers are generated in the order of the source.
\<close>

definition LoadStandardMesh ::
  "(string \<Rightarrow> nat) \<Rightarrow> string \<Rightarrow> string \<Rightarrow> gl_context \<Rightarrow> Mesh \<times> gl_context" where
  "LoadStandardMesh assets objPath ddsPath g =
     (let mesh = Mesh_default;
          (t, g) = loadTexture ddsPath g;
          mesh = mesh\<lparr>textureID := t\<rparr>;
          mesh = mesh\<lparr>indexCount := of_nat (assets objPath)\<rparr>;
          mesh = mesh\<lparr>hasNormalMap := False\<rparr>;
          (b, g) = glGenBuffers g;
          mesh = mesh\<lparr>vertexBuffer := b\<rparr>;
          (b, g) = glGenBuffers g;
          mesh = mesh\<lparr>uvBuffer := b\<rparr>;
          (b, g) = glGenBuffers g;
          mesh = mesh\<lparr>normalBuffer := b\<rparr>;
          (b, g) = glGenBuffers g;
          mesh = mesh\<lparr>elementBuffer := b\<rparr>
      in (mesh, g))"

definition LoadNormalMapMesh ::
  "(string \<Rightarrow> nat) \<Rightarrow> string \<Rightarrow> string \<Rightarrow> string \<Rightarrow> string \<Rightarrow> gl_context \<Rightarrow> Mesh \<times> gl_context" where
  "LoadNormalMapMesh assets objPath diffPath normPath specPath g =
     (let mesh = Mesh_default;
          (t, g) = loadTexture diffPath g;
          mesh = mesh\<lparr>textureID := t\<rparr>;
          (t, g) = loadTexture normPath g;
          mesh = mesh\<lparr>normalTextureID := t\<rparr>;
          (t, g) = loadTexture specPath g;
          mesh = mesh\<lparr>specularTextureID := t\<rparr>;
          mesh = mesh\<lparr>hasNormalMap := True\<rparr>;
          mesh = mesh\<lparr>indexCount := of_nat (assets objPath)\<rparr>;
          (b, g) = glGenBuffers g;
          mesh = mesh\<lparr>vertexBuffer := b\<rparr>;
          (b, g) = glGenBuffers g;
          mesh = mesh\<lparr>uvBuffer := b\<rparr>;
          (b, g) = glGenBuffers g;
          mesh = mesh\<lparr>normalBuffer := b\<rparr>;
          (b, g) = glGenBuffers g;
          mesh = mesh\<lparr>tangentBuffer := b\<rparr>;
          (b, g) = glGenBuffers g;
          mesh = mesh\<lparr>bitangentBuffer := b\<rparr>;
          (b, g) = glGenBuffers g;
          mesh = mesh\<lparr>elementBuffer := b\<rparr>
      in (mesh, g))"

section \<open>Scene composition\<close>

text \<open>
  \<^verbatim>\<open>LoadScene\<close>, in the five steps of the source. A member assignment
  \<^verbatim>\<open>bench = LoadStandardMesh(...)\<close> replaces the whole mesh, its instance list included.
\<close>

definition Mod :: "string \<Rightarrow> string" where
  "Mod name = ''assets/models/'' @ name"

definition Tex :: "string \<Rightarrow> string" where
  "Tex name = ''assets/textures/'' @ name"

definition assign_mesh ::
  "mesh_ref \<Rightarrow> (gl_context \<Rightarrow> Mesh \<times> gl_context) \<Rightarrow>
   ClassroomSimulator \<times> gl_context \<Rightarrow> ClassroomSimulator \<times> gl_context" where
  "assign_mesh r load = (\<lambda>(sim, g).
     (let (mesh, g) = load g in (sim\<lparr>meshes := (meshes sim)(r := mesh)\<rparr>, g)))"

definition load_opaque_meshes ::
  "(string \<Rightarrow> nat) \<Rightarrow> ClassroomSimulator \<times> gl_context \<Rightarrow> ClassroomSimulator \<times> gl_context" where
  "load_opaque_meshes assets st =
     (let st = assign_mesh Bench (LoadStandardMesh assets (Mod ''bench.obj'') (Tex ''bench.dds'')) st;
          st = assign_mesh Door (LoadStandardMesh assets (Mod ''door.obj'') (Tex ''door.dds'')) st;
          st = assign_mesh SwitchObj (LoadStandardMesh assets (Mod ''switch.obj'') (Tex ''switch.dds'')) st;
          st = assign_mesh Exhaust (LoadStandardMesh assets (Mod ''exhaust.obj'') (Tex ''projector.dds'')) st;
          st = assign_mesh Clock (LoadStandardMesh assets (Mod ''clock.obj'') (Tex ''clock.dds'')) st;
          st = assign_mesh Pipe (LoadStandardMesh assets (Mod ''pipe.obj'') (Tex ''pipe.dds'')) st;
          st = assign_mesh Projector (LoadStandardMesh assets (Mod ''projector.obj'') (Tex ''projector.dds'')) st;
          st = assign_mesh Screen (LoadStandardMesh assets (Mod ''screen.obj'') (Tex ''screen.dds'')) st;
          st = assign_mesh FloorMesh (LoadStandardMesh assets (Mod ''floor.obj'') (Tex ''floor.dds'')) st;
          st = assign_mesh Fan (LoadStandardMesh assets (Mod ''fan.obj'') (Tex ''fan.dds'')) st;
          st = assign_mesh Greenboard (LoadStandardMesh assets (Mod ''greenboard.obj'') (Tex ''greenboard.dds'')) st;
          st = assign_mesh Podium (LoadStandardMesh assets (Mod ''podium.obj'') (Tex ''podium.dds'')) st;
          st = assign_mesh Table (LoadStandardMesh assets (Mod ''table.obj'') (Tex ''table.dds'')) st;
          st = assign_mesh LightPanel (LoadStandardMesh assets (Mod ''lightpanel.obj'') (Tex ''lightpanel.dds'')) st;
          st = assign_mesh Grid (LoadStandardMesh assets (Mod ''grid.obj'') (Tex ''grid.dds'')) st;
          st = assign_mesh WindowMesh (LoadStandardMesh assets (Mod ''window.obj'') (Tex ''window.dds'')) st;
          st = assign_mesh WallFan (LoadStandardMesh assets (Mod ''wallfan.obj'') (Tex ''wallfan.dds'')) st
      in st)"

definition load_transparent_meshes ::
  "(string \<Rightarrow> nat) \<Rightarrow> ClassroomSimulator \<times> gl_context \<Rightarrow> ClassroomSimulator \<times> gl_context" where
  "load_transparent_meshes assets st =
     assign_mesh Glass (LoadStandardMesh assets (Mod ''glass.obj'') (Tex ''glass.dds'')) st"

definition load_normal_mapped_meshes ::
  "(string \<Rightarrow> nat) \<Rightarrow> ClassroomSimulator \<times> gl_context \<Rightarrow> ClassroomSimulator \<times> gl_context" where
  "load_normal_mapped_meshes assets st =
     (let st = assign_mesh Wall (LoadNormalMapMesh assets (Mod ''walls.obj'') (Tex ''walls.dds'')
                  (Tex ''normal.bmp'') (Tex ''specular.dds'')) st;
          st = assign_mesh Ceiling (LoadNormalMapMesh assets (Mod ''ceiling.obj'') (Tex ''ceiling.dds'')
                  (Tex ''normal.bmp'') (Tex ''specular.dds'')) st
      in st)"

definition populate_render_buckets :: "ClassroomSimulator \<Rightarrow> ClassroomSimulator" where
  "populate_render_buckets sim =
     sim\<lparr>opaqueMeshes :=
           [Bench, Door, SwitchObj, Exhaust, Clock, Pipe, Projector,
            Screen, FloorMesh, Fan, Greenboard, Podium, Table, WindowMesh, WallFan],
         normalMapMeshes := [Wall, Ceiling, Grid],
         transparentMeshes := [Glass]\<rparr>"

text \<open>
  Scene composition. Every step is \<open>Some\<close> as long as the matrices it adds are matrices of
  numbers. Benches: a 5 by 5 grid, the cells \<open>(0, 3)\<close> and \<open>(0, 4)\<close> left out for the aisle.
\<close>

definition bench_skip :: "nat \<Rightarrow> nat \<Rightarrow> bool" where
  "bench_skip i j = (i = 0 \<and> (j = 3 \<or> j = 4))"

definition bench_pos :: "nat \<Rightarrow> nat \<Rightarrow> vec3" where
  "bench_pos i j = Vec3 (- 16.0 + real i * 9.50) 0.5 (- 40.0 + real j * 20.0)"

definition place_benches :: "ClassroomSimulator \<Rightarrow> ClassroomSimulator option" where
  "place_benches =
     for_grid_opt 5 5 bench_skip
       (\<lambda>i j. AddObject Bench (bench_pos i j) 90.0 (Vec3 0 1 0) (Vec3 1 1 1))"

text \<open>Ceiling fans: a 2 by 3 grid.\<close>

definition fanStart :: vec3 where
  "fanStart = Vec3 (- 32.2 + 19.32) 32.975 (- 48.3 + 22.54)"

definition fan_pos :: "nat \<Rightarrow> nat \<Rightarrow> vec3" where
  "fan_pos i j = vec3_add fanStart (Vec3 (real i * 25.76) 0.0 (real j * 25.76))"

definition place_fans :: "ClassroomSimulator \<Rightarrow> ClassroomSimulator option" where
  "place_fans =
     for_grid_opt 2 3 (\<lambda>i j. False)
       (\<lambda>i j. AddObject Fan (fan_pos i j) 0.0 (Vec3 0 1 0) (Vec3 1 1 1))"

definition place_static_geometry :: "ClassroomSimulator \<Rightarrow> ClassroomSimulator option" where
  "place_static_geometry sim =
     do {
       sim \<leftarrow> AddObject FloorMesh (Vec3 0.0 0.0 0.0) 0.0 (Vec3 0 1 0) (Vec3 1 1 1) sim;
       sim \<leftarrow> AddObject Ceiling (Vec3 0.0 38.1 0.0) 0.0 (Vec3 0 1 0) (Vec3 1 1 1) sim;
       sim \<leftarrow> AddObject Wall (Vec3 (- 32.7) 19.06 0.0) 0.0 (Vec3 0 1 0) (Vec3 1 1 1) sim;
       AddObject Door (Vec3 (- 31.7) 12.5 48.8) 0.0 (Vec3 0 1 0) (Vec3 1 1 1) sim
     }"

text \<open>The ceiling grid is placed by hand: translated, then rotated twice.\<close>

definition place_ceiling_grid :: "ClassroomSimulator \<Rightarrow> ClassroomSimulator option" where
  "place_ceiling_grid sim =
     do {
       let m = glm_translate mat4_identity (Vec3 0 38.8 0);
       m \<leftarrow> glm_rotate m (glm_radians 90.0) (Vec3 0 1 0);
       m \<leftarrow> glm_rotate m (glm_radians 180.0) (Vec3 1 0 0);
       Some (addInstance_of Grid m sim)
     }"

definition place_details :: "ClassroomSimulator \<Rightarrow> ClassroomSimulator option" where
  "place_details sim =
     do {
       sim \<leftarrow> for_loop_opt 2 (\<lambda>i sim.
         do {
           sim \<leftarrow> AddObject Greenboard (Vec3 (- 32.2) 18.6 (real i * 36 * 0.8 - 27.7 + 3.6))
                    0.0 (Vec3 0 1 0) (Vec3 1 1 0.8) sim;
           sim \<leftarrow> AddObject SwitchObj (Vec3 (- 10.2 + real i * 28.2) 14.6 48.3)
                    180.0 (Vec3 0 1 0) (Vec3 0.7 0.7 0.7) sim;
           AddObject Exhaust (Vec3 (14.23 - real i * 21.46) 34.1 48.8)
             0.0 (Vec3 0 1 0) (Vec3 0.857 0.857 0.857) sim
         }) sim;
       sim \<leftarrow> AddObject Podium (Vec3 (- 20.0) 0.5 28.0) 290.0 (Vec3 0 1 0) (Vec3 1 1 1) sim;
       sim \<leftarrow> AddObject Table (Vec3 (- 9.0) 0.5 13.20) 90.0 (Vec3 0 1 0) (Vec3 1 1 1) sim;
       sim \<leftarrow> AddObject Projector (Vec3 6.44 29.75 (- 3.22)) 180.0 (Vec3 0 1 0) (Vec3 1 1 1) sim;
       sim \<leftarrow> AddObject Screen (Vec3 (- 31.5) 30.0 (- 9.66)) 0.0 (Vec3 0 1 0) (Vec3 1 1.2 1.5) sim;
       sim \<leftarrow> AddObject Clock (Vec3 7.60 28.0 (- 48.0)) 90.0 (Vec3 1 0 0) (Vec3 1 1 1) sim;
       sim \<leftarrow> AddObject Pipe (Vec3 (- 32.2) 5.0 (- 9.0)) 90.0 (Vec3 0 1 0) (Vec3 1 1 1) sim;
       AddObject WallFan (Vec3 (- 14.0) 25.0 48.3) 180.0 (Vec3 0 1 0) (Vec3 0.5 0.5 0.5) sim
     }"

definition place_windows_and_glass :: "ClassroomSimulator \<Rightarrow> ClassroomSimulator option" where
  "place_windows_and_glass sim =
     do {
       sim \<leftarrow> for_loop_opt 8 (\<lambda>i sim.
         do {
           let pos = Vec3 32.70 34.1 (- 42.26 + 12.075 * real i);
           sim \<leftarrow> AddObject WindowMesh pos 90.0 (Vec3 0 1 0) (Vec3 1 1 1) sim;
           AddObject Glass pos 90.0 (Vec3 0 1 0) (Vec3 1.0 1.0 0.250) sim
         }) sim;
       for_loop_opt 6 (\<lambda>i sim.
         do {
           let pos = Vec3 (26.83 - 10.73 * real i) 34.1 48.8;
           sim \<leftarrow> AddObject WindowMesh pos 0.0 (Vec3 0 1 0) (Vec3 0.888 1.0 1.0) sim;
           AddObject Glass pos 0.0 (Vec3 0 1 0) (Vec3 1.0 1.0 0.25) sim
         }) sim
     }"

text \<open>
  Lights: a 3 by 3 grid. Each cell writes the entry \<^verbatim>\<open>lightIdx++\<close> of the light array and
  adds a light panel below it. The local \<^verbatim>\<open>lightIdx\<close> is carried beside the engine. The
  entries written are \<open>0, ..., 8\<close>, inside the array. \<^verbatim>\<open>float cx = -22.54f + i * 25.76f\<close> and
  \<^verbatim>\<open>cz\<close> are computed in single precision: the literals are rounded, \<^verbatim>\<open>i\<close> is converted
  exactly, and the product and the sum are rounded; so are the other literals of the
  cell.
\<close>

definition light_cx :: "nat \<Rightarrow> real" where
  "light_cx i = f32 (- f32 22.54 + f32 (real i * f32 25.76))"

definition light_cz :: "nat \<Rightarrow> real" where
  "light_cz j = f32 (- f32 25.76 + f32 (real j * f32 25.76))"

text \<open>The position written for the light of the cell \<open>(i, j)\<close>: \<^verbatim>\<open>glm::vec3(cx, 38.6f, cz)\<close>.\<close>

definition light_pos :: "nat \<Rightarrow> nat \<Rightarrow> vec3" where
  "light_pos i j = Vec3 (light_cx i) (f32 38.6) (light_cz j)"

definition place_light ::
  "nat \<Rightarrow> nat \<Rightarrow> nat \<times> ClassroomSimulator \<Rightarrow> (nat \<times> ClassroomSimulator) option" where
  "place_light i j = (\<lambda>(lightIdx, sim).
     do {
       let cx = light_cx i;
       let cz = light_cz j;
       let sim = sim\<lparr>classroomLightPositions_worldspace :=
                   (classroomLightPositions_worldspace sim)[lightIdx := Vec3 cx (f32 38.6) cz]\<rparr>;
       let lightIdx = lightIdx + 1;
       sim \<leftarrow> AddObject LightPanel (Vec3 cx (f32 37.675) cz) 0.0 (Vec3 0 1 0)
                (Vec3 (f32 6.44) (f32 0.2) (f32 6.44)) sim;
       Some (lightIdx, sim)
     })"

definition place_lights :: "ClassroomSimulator \<Rightarrow> ClassroomSimulator option" where
  "place_lights sim = map_option snd (for_grid_opt 3 3 (\<lambda>i j. False) place_light (0, sim))"

definition compose_scene :: "ClassroomSimulator \<Rightarrow> ClassroomSimulator option" where
  "compose_scene sim =
     do {
       sim \<leftarrow> place_benches sim;
       sim \<leftarrow> place_fans sim;
       sim \<leftarrow> place_static_geometry sim;
       sim \<leftarrow> place_ceiling_grid sim;
       sim \<leftarrow> place_details sim;
       sim \<leftarrow> place_windows_and_glass sim;
       place_lights sim
     }"

definition LoadScene ::
  "(string \<Rightarrow> nat) \<Rightarrow> ClassroomSimulator \<times> gl_context \<Rightarrow>
   (ClassroomSimulator \<times> gl_context) option" where
  "LoadScene assets st =
     (let st = load_opaque_meshes assets st;
          st = load_transparent_meshes assets st;
          st = load_normal_mapped_meshes assets st;
          (sim, g) = st;
          sim = populate_render_buckets sim
      in do {
           sim \<leftarrow> compose_scene sim;
           Some (sim, g)
         })"

section \<open>The scene on matrices of numbers\<close>

text \<open>
  The steps of the scene composition where every matrix added is a matrix of numbers, as
  total functions: \<open>AddObject_model_value\<close> is the arithmetic of \<^verbatim>\<open>AddObject\<close> with the
  arithmetic of \<^verbatim>\<open>glm::rotate\<close>, and each \<open>f_value\<close> is the step \<open>f\<close> with it. They are what the
  steps return when they return \<open>Some\<close>, which the steps of \<^verbatim>\<open>LoadScene\<close> do: its rotation
  axes are \<open>(0, 1, 0)\<close> and \<open>(1, 0, 0)\<close>.
\<close>

definition AddObject_model_value :: "vec3 \<Rightarrow> real \<Rightarrow> vec3 \<Rightarrow> vec3 \<Rightarrow> mat4" where
  "AddObject_model_value pos rotDeg rotAxis scale =
     (let model = mat4_identity;
          model = glm_translate model pos;
          model = (if rotDeg \<noteq> 0 then glm_rotate_value model (glm_radians rotDeg) rotAxis else model);
          model = (if scale \<noteq> Vec3 1 1 1 then glm_scale model scale else model)
      in model)"

definition AddObject_value ::
  "mesh_ref \<Rightarrow> vec3 \<Rightarrow> real \<Rightarrow> vec3 \<Rightarrow> vec3 \<Rightarrow> ClassroomSimulator \<Rightarrow> ClassroomSimulator" where
  "AddObject_value mesh pos rotDeg rotAxis scale sim =
     sim\<lparr>meshes := (meshes sim)
       (mesh := addInstance (AddObject_model_value pos rotDeg rotAxis scale) (meshes sim mesh))\<rparr>"

definition place_benches_value :: "ClassroomSimulator \<Rightarrow> ClassroomSimulator" where
  "place_benches_value =
     for_grid 5 5 bench_skip
       (\<lambda>i j. AddObject_value Bench (bench_pos i j) 90.0 (Vec3 0 1 0) (Vec3 1 1 1))"

definition place_fans_value :: "ClassroomSimulator \<Rightarrow> ClassroomSimulator" where
  "place_fans_value =
     for_grid 2 3 (\<lambda>i j. False)
       (\<lambda>i j. AddObject_value Fan (fan_pos i j) 0.0 (Vec3 0 1 0) (Vec3 1 1 1))"

definition place_static_geometry_value :: "ClassroomSimulator \<Rightarrow> ClassroomSimulator" where
  "place_static_geometry_value sim =
     (let sim = AddObject_value FloorMesh (Vec3 0.0 0.0 0.0) 0.0 (Vec3 0 1 0) (Vec3 1 1 1) sim;
          sim = AddObject_value Ceiling (Vec3 0.0 38.1 0.0) 0.0 (Vec3 0 1 0) (Vec3 1 1 1) sim;
          sim = AddObject_value Wall (Vec3 (- 32.7) 19.06 0.0) 0.0 (Vec3 0 1 0) (Vec3 1 1 1) sim;
          sim = AddObject_value Door (Vec3 (- 31.7) 12.5 48.8) 0.0 (Vec3 0 1 0) (Vec3 1 1 1) sim
      in sim)"

definition place_ceiling_grid_value :: "ClassroomSimulator \<Rightarrow> ClassroomSimulator" where
  "place_ceiling_grid_value sim =
     (let m = glm_translate mat4_identity (Vec3 0 38.8 0);
          m = glm_rotate_value m (glm_radians 90.0) (Vec3 0 1 0);
          m = glm_rotate_value m (glm_radians 180.0) (Vec3 1 0 0)
      in sim\<lparr>meshes := (meshes sim)(Grid := addInstance m (meshes sim Grid))\<rparr>)"

definition place_details_value :: "ClassroomSimulator \<Rightarrow> ClassroomSimulator" where
  "place_details_value sim =
     (let sim = for_loop 2 (\<lambda>i sim.
            (let sim = AddObject_value Greenboard (Vec3 (- 32.2) 18.6 (real i * 36 * 0.8 - 27.7 + 3.6))
                         0.0 (Vec3 0 1 0) (Vec3 1 1 0.8) sim;
                 sim = AddObject_value SwitchObj (Vec3 (- 10.2 + real i * 28.2) 14.6 48.3)
                         180.0 (Vec3 0 1 0) (Vec3 0.7 0.7 0.7) sim;
                 sim = AddObject_value Exhaust (Vec3 (14.23 - real i * 21.46) 34.1 48.8)
                         0.0 (Vec3 0 1 0) (Vec3 0.857 0.857 0.857) sim
             in sim)) sim;
          sim = AddObject_value Podium (Vec3 (- 20.0) 0.5 28.0) 290.0 (Vec3 0 1 0) (Vec3 1 1 1) sim;
          sim = AddObject_value Table (Vec3 (- 9.0) 0.5 13.20) 90.0 (Vec3 0 1 0) (Vec3 1 1 1) sim;
          sim = AddObject_value Projector (Vec3 6.44 29.75 (- 3.22)) 180.0 (Vec3 0 1 0) (Vec3 1 1 1) sim;
          sim = AddObject_value Screen (Vec3 (- 31.5) 30.0 (- 9.66)) 0.0 (Vec3 0 1 0) (Vec3 1 1.2 1.5) sim;
          sim = AddObject_value Clock (Vec3 7.60 28.0 (- 48.0)) 90.0 (Vec3 1 0 0) (Vec3 1 1 1) sim;
          sim = AddObject_value Pipe (Vec3 (- 32.2) 5.0 (- 9.0)) 90.0 (Vec3 0 1 0) (Vec3 1 1 1) sim;
          sim = AddObject_value WallFan (Vec3 (- 14.0) 25.0 48.3) 180.0 (Vec3 0 1 0) (Vec3 0.5 0.5 0.5) sim
      in sim)"

definition place_windows_and_glass_value :: "ClassroomSimulator \<Rightarrow> ClassroomSimulator" where
  "place_windows_and_glass_value sim =
     (let sim = for_loop 8 (\<lambda>i sim.
            (let pos = Vec3 32.70 34.1 (- 42.26 + 12.075 * real i);
                 sim = AddObject_value WindowMesh pos 90.0 (Vec3 0 1 0) (Vec3 1 1 1) sim;
                 sim = AddObject_value Glass pos 90.0 (Vec3 0 1 0) (Vec3 1.0 1.0 0.250) sim
             in sim)) sim;
          sim = for_loop 6 (\<lambda>i sim.
            (let pos = Vec3 (26.83 - 10.73 * real i) 34.1 48.8;
                 sim = AddObject_value WindowMesh pos 0.0 (Vec3 0 1 0) (Vec3 0.888 1.0 1.0) sim;
                 sim = AddObject_value Glass pos 0.0 (Vec3 0 1 0) (Vec3 1.0 1.0 0.25) sim
             in sim)) sim
      in sim)"

definition place_light_value ::
  "nat \<Rightarrow> nat \<Rightarrow> nat \<times> ClassroomSimulator \<Rightarrow> nat \<times> ClassroomSimulator" where
  "place_light_value i j = (\<lambda>(lightIdx, sim).
     (let cx = light_cx i;
          cz = light_cz j;
          sim = sim\<lparr>classroomLightPositions_worldspace :=
                  (classroomLightPositions_worldspace sim)[lightIdx := Vec3 cx (f32 38.6) cz]\<rparr>;
          lightIdx = lightIdx + 1;
          sim = AddObject_value LightPanel (Vec3 cx (f32 37.675) cz) 0.0 (Vec3 0 1 0)
                  (Vec3 (f32 6.44) (f32 0.2) (f32 6.44)) sim
      in (lightIdx, sim)))"

definition place_lights_value :: "ClassroomSimulator \<Rightarrow> ClassroomSimulator" where
  "place_lights_value sim = snd (for_grid 3 3 (\<lambda>i j. False) place_light_value (0, sim))"

definition compose_scene_value :: "ClassroomSimulator \<Rightarrow> ClassroomSimulator" where
  "compose_scene_value sim =
     (let sim = place_benches_value sim;
          sim = place_fans_value sim;
          sim = place_static_geometry_value sim;
          sim = place_ceiling_grid_value sim;
          sim = place_details_value sim;
          sim = place_windows_and_glass_value sim;
          sim = place_lights_value sim
      in sim)"

definition LoadScene_value ::
  "(string \<Rightarrow> nat) \<Rightarrow> ClassroomSimulator \<times> gl_context \<Rightarrow> ClassroomSimulator \<times> gl_context" where
  "LoadScene_value assets st =
     (let st = load_opaque_meshes assets st;
          st = load_transparent_meshes assets st;
          st = load_normal_mapped_meshes assets st;
          (sim, g) = st;
          sim = populate_render_buckets sim;
          sim = compose_scene_value sim
      in (sim, g))"

section \<open>The window and the camera controller\<close>

text \<open>
  Of the GLFW window the model keeps what the engine reads back: the cursor position, the
  key states \<^verbatim>\<open>glfwGetKey\<close> reports and the close flag. They change when
  \<^verbatim>\<open>glfwPollEvents\<close> delivers the events of the input, and when the engine sets the cursor.
\<close>

datatype glfw_key =
    KEY_G | KEY_ESCAPE | KEY_LEFT_SHIFT | KEY_UP | KEY_W | KEY_DOWN | KEY_S
  | KEY_RIGHT | KEY_D | KEY_LEFT | KEY_A | KEY_Q | KEY_E

record glfw_window =
  cursorX :: real
  cursorY :: real
  pressed :: "glfw_key \<Rightarrow> bool"
  shouldClose :: bool

record glfw_events =
  ev_dx :: real
  ev_dy :: real
  ev_pressed :: "glfw_key \<Rightarrow> bool"
  ev_close :: bool

definition glfwPollEvents :: "glfw_events \<Rightarrow> glfw_window \<Rightarrow> glfw_window" where
  "glfwPollEvents ev w =
     w\<lparr>cursorX := cursorX w + ev_dx ev, cursorY := cursorY w + ev_dy ev,
       pressed := ev_pressed ev, shouldClose := ev_close ev\<rparr>"

definition glfwSetCursorPos :: "real \<Rightarrow> real \<Rightarrow> glfw_window \<Rightarrow> glfw_window" where
  "glfwSetCursorPos xpos ypos w = w\<lparr>cursorX := xpos, cursorY := ypos\<rparr>"

definition WINDOW_WIDTH :: int where
  "WINDOW_WIDTH = 1536"

definition WINDOW_HEIGHT :: int where
  "WINDOW_HEIGHT = 1152"

text \<open>
  The globals of controls.cpp. \<^verbatim>\<open>lastTime\<close> is a static local, initialised by the first
  call; before it is \<open>None\<close>, and the two clock readings of the first call are taken as
  one.
\<close>

record controls =
  ViewMatrix :: mat4
  ProjectionMatrix :: mat4
  position :: vec3
  horizontalAngle :: real
  verticalAngle :: real
  initialFoV :: real
  speed :: real
  mouseSpeed :: real
  lastTime :: "real option"

definition controls_initial :: "mat4 \<Rightarrow> mat4 \<Rightarrow> controls" where
  "controls_initial view0 projection0 =
     \<lparr>ViewMatrix = view0, ProjectionMatrix = projection0,
      position = Vec3 (- 32) 30 (- 48),
      horizontalAngle = 0.59, verticalAngle = - 0.48, initialFoV = 45.0,
      speed = 10.0, mouseSpeed = 0.005, lastTime = None\<rparr>"

text \<open>
  \<^verbatim>\<open>computeMatricesFromInputs\<close>. \<open>now\<close> is the reading of \<^verbatim>\<open>glfwGetTime\<close>. The cursor is read,
  then set to \<^verbatim>\<open>(1024/2, 768/2)\<close>, and the angles move by the distance of the cursor from that
  point. \<^verbatim>\<open>1024/2\<close> and \<^verbatim>\<open>768/2\<close> are integer divisions.
\<close>

definition move_if :: "bool \<Rightarrow> vec3 \<Rightarrow> vec3 \<Rightarrow> vec3" where
  "move_if b d p = (if b then vec3_add p d else p)"

definition computeMatricesFromInputs ::
  "real \<Rightarrow> controls \<times> glfw_window \<Rightarrow> controls \<times> glfw_window" where
  "computeMatricesFromInputs now = (\<lambda>(c, w).
     (let last = (case lastTime c of None \<Rightarrow> now | Some t \<Rightarrow> t);
          currentTime = now;
          deltaTime = currentTime - last;
          xpos = cursorX w;
          ypos = cursorY w;
          w = glfwSetCursorPos (real_of_int (1024 div 2)) (real_of_int (768 div 2)) w;
          c = c\<lparr>horizontalAngle := horizontalAngle c + mouseSpeed c * (real_of_int (1024 div 2) - xpos)\<rparr>;
          c = c\<lparr>verticalAngle := verticalAngle c + mouseSpeed c * (real_of_int (768 div 2) - ypos)\<rparr>;
          direction = Vec3 (cos (verticalAngle c) * sin (horizontalAngle c))
                           (sin (verticalAngle c))
                           (cos (verticalAngle c) * cos (horizontalAngle c));
          right = Vec3 (sin (horizontalAngle c - 3.14 / 2.0)) 0
                       (cos (horizontalAngle c - 3.14 / 2.0));
          up = glm_cross right direction;
          currentSpeed = (if pressed w KEY_LEFT_SHIFT then speed c * 2.5 else speed c);
          step = deltaTime * currentSpeed;
          c = c\<lparr>position := move_if (pressed w KEY_UP \<or> pressed w KEY_W)
                  (vec3_scale direction step) (position c)\<rparr>;
          c = c\<lparr>position := move_if (pressed w KEY_DOWN \<or> pressed w KEY_S)
                  (vec3_scale direction (- step)) (position c)\<rparr>;
          c = c\<lparr>position := move_if (pressed w KEY_RIGHT \<or> pressed w KEY_D)
                  (vec3_scale right step) (position c)\<rparr>;
          c = c\<lparr>position := move_if (pressed w KEY_LEFT \<or> pressed w KEY_A)
                  (vec3_scale right (- step)) (position c)\<rparr>;
          c = c\<lparr>position := move_if (pressed w KEY_Q) (vec3_scale up step) (position c)\<rparr>;
          c = c\<lparr>position := move_if (pressed w KEY_E) (vec3_scale up (- step)) (position c)\<rparr>;
          FoV = initialFoV c;
          c = c\<lparr>ProjectionMatrix := glm_perspective (glm_radians FoV) (4.0 / 3.0) 0.1 200.0\<rparr>;
          c = c\<lparr>ViewMatrix := glm_lookAt (position c) (vec3_add (position c) direction) up\<rparr>;
          c = c\<lparr>lastTime := Some currentTime\<rparr>
      in (c, w)))"

section \<open>Start-up\<close>

text \<open>
  The world of the running program: the engine, the OpenGL context, the window and the
  controller's globals.
\<close>

record world =
  sim :: ClassroomSimulator
  gl :: gl_context
  win :: glfw_window
  ctl :: controls

text \<open>
  What the platform answers during start-up: whether GLFW and GLEW initialise, whether
  the window opens, whether the shadow framebuffer is complete, and the events pending at
  the first poll.
\<close>

record platform =
  glfwInit_ok :: bool
  glfwCreateWindow_ok :: bool
  glewInit_ok :: bool
  framebuffer_complete :: bool
  first_events :: glfw_events

text \<open>
  \<^verbatim>\<open>InitSystem\<close> returns \<^verbatim>\<open>false\<close> at the first failure. Otherwise it polls once, centres the
  cursor in the window and generates the vertex array.
\<close>

definition InitSystem :: "platform \<Rightarrow> world \<Rightarrow> bool \<times> world" where
  "InitSystem p s =
     (if \<not> glfwInit_ok p then (False, s)
      else if \<not> glfwCreateWindow_ok p then (False, s)
      else if \<not> glewInit_ok p then (False, s)
      else
        (let w = glfwPollEvents (first_events p) (win s);
             w = glfwSetCursorPos (real_of_int (WINDOW_WIDTH div 2))
                   (real_of_int (WINDOW_HEIGHT div 2)) w;
             (v, g) = glGenVertexArrays (gl s)
         in (True, s\<lparr>sim := (sim s)\<lparr>VertexArrayID := v\<rparr>, gl := g, win := w\<rparr>)))"

definition InitShaders :: "world \<Rightarrow> world" where
  "InitShaders s =
     (let (d, g) = LoadShaders ''shaders/DepthRTT.vertexshader''
                     ''shaders/DepthRTT.fragmentshader'' (gl s);
          (p, g) = LoadShaders ''shaders/ShadowMapping.vertexshader''
                     ''shaders/ShadowMapping.fragmentshader'' g
      in s\<lparr>sim := (sim s)\<lparr>depthProgramID := d, programID := p\<rparr>, gl := g\<rparr>)"

definition InitShadowFramebuffer :: "platform \<Rightarrow> world \<Rightarrow> bool \<times> world" where
  "InitShadowFramebuffer p s =
     (let (f, g) = glGenFramebuffers (gl s);
          (t, g) = glGenTextures g;
          s = s\<lparr>sim := (sim s)\<lparr>FramebufferName := f, depthTextureArray := t\<rparr>, gl := g\<rparr>
      in (framebuffer_complete p, s))"

section \<open>The render loop\<close>

text \<open>
  \<^verbatim>\<open>glDrawElements\<close> for a mesh: the call goes to the trace with the state it runs under,
  which \<open>draw_snapshot\<close> reads off the context.
\<close>

definition draw_snapshot :: "gl_context \<Rightarrow> mesh_ref \<Rightarrow> Mesh \<Rightarrow> draw_call" where
  "draw_snapshot g r mesh =
     \<lparr>d_program = gl_program g, d_mesh = r, d_elementBuffer = elementBuffer mesh,
      d_indexCount = indexCount mesh,
      d_depthMVP = u_depthMVP g, d_MVP = u_MVP g, d_M = u_M g,
      d_bIsUnlit = u_bIsUnlit g, d_bIsGlass = u_bIsGlass g,
      d_bUseNormalMap = u_bUseNormalMap g, d_bUseSpecularMap = u_bUseSpecularMap g,
      d_fragmentAlpha = u_fragmentAlpha g, d_uShadingModel = u_uShadingModel g,
      d_blend = gl_blend g, d_depthMask = gl_depthMask g\<rparr>"

definition glDrawElements :: "mesh_ref \<Rightarrow> Mesh \<Rightarrow> gl_context \<Rightarrow> gl_context" where
  "glDrawElements r mesh g = gl_emit (DrawElements (draw_snapshot g r mesh)) g"

text \<open>\<^verbatim>\<open>DrawMeshShadow\<close>: one draw for each instance, with \<^verbatim>\<open>depthMVP = dProj * dView * modelMatrix\<close>.\<close>

definition DrawMeshShadow ::
  "ClassroomSimulator \<Rightarrow> mat4 \<Rightarrow> mat4 \<Rightarrow> mesh_ref \<Rightarrow> gl_context \<Rightarrow> gl_context" where
  "DrawMeshShadow engine dProj dView r =
     fold (\<lambda>modelMatrix g.
             (let depthMVP = mat4_mul (mat4_mul dProj dView) modelMatrix;
                  g = g\<lparr>u_depthMVP := depthMVP\<rparr>
              in glDrawElements r (meshes engine r) g))
          (modelMatrices (meshes engine r))"

text \<open>
  \<^verbatim>\<open>DrawMesh\<close>: the normal-map and specular-map flags follow \<^verbatim>\<open>mesh.hasNormalMap\<close>, the alpha
  is set, and each instance is drawn with \<^verbatim>\<open>MVP = Projection * View * modelMatrix\<close>.
\<close>

definition DrawMesh ::
  "ClassroomSimulator \<Rightarrow> mat4 \<Rightarrow> mat4 \<Rightarrow> real \<Rightarrow> mesh_ref \<Rightarrow> gl_context \<Rightarrow> gl_context" where
  "DrawMesh engine View Projection alpha r g =
     (let mesh = meshes engine r;
          g = (if hasNormalMap mesh
               then g\<lparr>u_bUseNormalMap := 1, u_bUseSpecularMap := 1\<rparr>
               else g\<lparr>u_bUseNormalMap := 0, u_bUseSpecularMap := 0\<rparr>);
          g = g\<lparr>u_fragmentAlpha := alpha\<rparr>
      in fold (\<lambda>modelMatrix g.
                 (let MVP = mat4_mul (mat4_mul Projection View) modelMatrix;
                      g = g\<lparr>u_MVP := MVP\<rparr>;
                      g = g\<lparr>u_M := modelMatrix\<rparr>
                  in glDrawElements r mesh g))
              (modelMatrices mesh) g)"

text \<open>
  The locals of \<^verbatim>\<open>MainLoop\<close>, and the lines it prints.
\<close>

record MainLoop_locals =
  shadingMode :: int
  gKeyPressed :: bool
  allDepthBiasMVPs :: "mat4 list"
  lightIdx :: nat
  printed :: "string list"

definition MainLoop_locals_initial :: MainLoop_locals where
  "MainLoop_locals_initial =
     \<lparr>shadingMode = 0, gKeyPressed = False, allDepthBiasMVPs = [], lightIdx = 0,
      printed = [''Initialization Complete. Starting Loop...'']\<rparr>"

text \<open>
  Input handling. \<^verbatim>\<open>shadingMode = !shadingMode\<close> on an \<^verbatim>\<open>int\<close>: 0 becomes 1, anything else
  becomes 0. A line is printed at each flip.
\<close>

definition logical_not :: "int \<Rightarrow> int" where
  "logical_not v = (if v = 0 then 1 else 0)"

definition handle_input :: "glfw_window \<Rightarrow> MainLoop_locals \<Rightarrow> MainLoop_locals" where
  "handle_input w l =
     (if pressed w KEY_G
      then (if \<not> gKeyPressed l
            then (let l = l\<lparr>shadingMode := logical_not (shadingMode l)\<rparr>;
                      l = l\<lparr>gKeyPressed := True\<rparr>
                  in l\<lparr>printed := printed l @
                        [''Shading Mode: '' @ (if shadingMode l = 1 then ''Gouraud'' else ''Phong'')]\<rparr>)
            else l)
      else l\<lparr>gKeyPressed := False\<rparr>)"

text \<open>
  Pass 1, the shadow pass. For each cell of the 3 by 3 grid, in the order of the loops:
  the view and projection of light \<^verbatim>\<open>lightIdx\<close>, the shadow casters of the opaque and the
  normal-mapped list, and the depth-bias matrix of the light pushed on the list.
\<close>

definition depthView_of :: "vec3 \<Rightarrow> mat4" where
  "depthView_of lightPos =
     glm_lookAt lightPos (vec3_add lightPos (Vec3 0 (- 1) 0)) (Vec3 0 0 (- 1))"

definition depthProj :: mat4 where
  "depthProj = glm_perspective (glm_radians 120.0) 1.5 5.0 1000.0"

definition shadow_light ::
  "ClassroomSimulator \<Rightarrow> nat \<Rightarrow> nat \<Rightarrow> MainLoop_locals \<times> gl_context \<Rightarrow> MainLoop_locals \<times> gl_context" where
  "shadow_light engine i j = (\<lambda>(l, g).
     (let lightPos = classroomLightPositions_worldspace engine ! lightIdx l;
          depthView = depthView_of lightPos;
          g = fold (DrawMeshShadow engine depthProj depthView) (opaqueMeshes engine) g;
          g = fold (DrawMeshShadow engine depthProj depthView) (normalMapMeshes engine) g;
          l = l\<lparr>allDepthBiasMVPs := allDepthBiasMVPs l @
                 [mat4_mul (mat4_mul biasMatrix depthProj) depthView]\<rparr>;
          l = l\<lparr>lightIdx := lightIdx l + 1\<rparr>
      in (l, g)))"

definition ShadowPass ::
  "ClassroomSimulator \<Rightarrow> MainLoop_locals \<times> gl_context \<Rightarrow> MainLoop_locals \<times> gl_context" where
  "ShadowPass engine = (\<lambda>(l, g).
     (let g = g\<lparr>gl_program := depthProgramID engine\<rparr>;
          l = l\<lparr>allDepthBiasMVPs := []\<rparr>;
          l = l\<lparr>lightIdx := 0\<rparr>
      in for_grid 3 3 (\<lambda>i j. False) (shadow_light engine) (l, g)))"

text \<open>
  Pass 2, the lighting pass, after the camera matrices are known: the uniforms of the
  frame, then the opaque list, the normal-mapped list, the light panels unlit, and the
  transparent list with blending on and depth writes off; then the state is reset.
\<close>

definition vec3_of_vec4 :: "vec4 \<Rightarrow> vec3" where
  "vec3_of_vec4 v = Vec3 (v4x v) (v4y v) (v4z v)"

definition vec4_of_vec3 :: "vec3 \<Rightarrow> real \<Rightarrow> vec4" where
  "vec4_of_vec3 v d = Vec4 (v3x v) (v3y v) (v3z v) d"

definition LightingPass ::
  "ClassroomSimulator \<Rightarrow> MainLoop_locals \<Rightarrow> mat4 \<Rightarrow> mat4 \<Rightarrow> gl_context \<Rightarrow> gl_context" where
  "LightingPass engine l View Projection g =
     (let g = g\<lparr>u_ClassroomLightPositions_cameraspace :=
                 map (\<lambda>i. vec3_of_vec4 (mat4_mul_vec4 View
                        (vec4_of_vec3 (classroomLightPositions_worldspace engine ! i) 1.0)))
                     [0..<NUM_LIGHTS]\<rparr>;
          g = g\<lparr>u_DepthBiasMVPs := take NUM_LIGHTS (allDepthBiasMVPs l)\<rparr>;
          g = g\<lparr>u_bIsUnlit := 0\<rparr>;
          g = fold (DrawMesh engine View Projection 1.0) (opaqueMeshes engine) g;
          g = fold (DrawMesh engine View Projection 1.0) (normalMapMeshes engine) g;
          g = g\<lparr>u_bIsUnlit := 1\<rparr>;
          g = DrawMesh engine View Projection 1.0 LightPanel g;
          g = g\<lparr>u_bIsUnlit := 0\<rparr>;
          g = g\<lparr>gl_blend := True\<rparr>;
          g = g\<lparr>gl_depthMask := False\<rparr>;
          g = g\<lparr>u_bIsGlass := 1\<rparr>;
          g = fold (DrawMesh engine View Projection 0.25) (transparentMeshes engine) g;
          g = g\<lparr>u_bIsGlass := 0\<rparr>;
          g = g\<lparr>gl_depthMask := True\<rparr>;
          g = g\<lparr>gl_blend := False\<rparr>
      in g)"

text \<open>
  One iteration of the \<^verbatim>\<open>do ... while\<close>: input handling, the shadow pass, the lighting pass
  (which asks the controller for the camera), the buffer swap and the event poll. The
  input of a frame is the clock reading and the events its poll delivers.
\<close>

record frame_input =
  time_now :: real
  events :: glfw_events

definition MainLoop_frame ::
  "frame_input \<Rightarrow> MainLoop_locals \<times> world \<Rightarrow> MainLoop_locals \<times> world" where
  "MainLoop_frame inp = (\<lambda>(l, s).
     (let l = handle_input (win s) l;
          (l, g) = ShadowPass (sim s) (l, gl s);
          g = g\<lparr>gl_program := programID (sim s)\<rparr>;
          g = g\<lparr>u_uShadingModel := shadingMode l\<rparr>;
          (c, w) = computeMatricesFromInputs (time_now inp) (ctl s, win s);
          g = LightingPass (sim s) l (ViewMatrix c) (ProjectionMatrix c) g;
          g = gl_emit SwapBuffers g;
          w = glfwPollEvents (events inp) w
      in (l, s\<lparr>gl := g, win := w, ctl := c\<rparr>)))"

text \<open>
  \<^verbatim>\<open>MainLoop\<close> runs until the escape key is down or the window is closed. The frames
  it runs are those the input provides: each frame consumes one input, and the loop of the
  model stops with the input when the exit condition has not come.
\<close>

definition MainLoop_continues :: "world \<Rightarrow> bool" where
  "MainLoop_continues s = (\<not> pressed (win s) KEY_ESCAPE \<and> \<not> shouldClose (win s))"

fun MainLoop_frames ::
  "frame_input list \<Rightarrow> MainLoop_locals \<times> world \<Rightarrow> MainLoop_locals \<times> world" where
  "MainLoop_frames [] st = st"
| "MainLoop_frames (inp # inps) st =
     (let st = MainLoop_frame inp st
      in if MainLoop_continues (snd st) then MainLoop_frames inps st else st)"

definition MainLoop :: "frame_input list \<Rightarrow> world \<Rightarrow> world" where
  "MainLoop inps s = snd (MainLoop_frames inps (MainLoop_locals_initial, s))"

section \<open>Shutdown\<close>

text \<open>
  \<^verbatim>\<open>Cleanup\<close>: every mesh of the three render lists and the light panel is disposed, then
  the framebuffer, the depth texture array, the vertex array and the two programs are
  released when their handle is not 0.
\<close>

definition Cleanup :: "ClassroomSimulator \<Rightarrow> gl_context \<Rightarrow> gl_context" where
  "Cleanup engine g =
     (let allMeshes = opaqueMeshes engine @ normalMapMeshes engine @ transparentMeshes engine
                      @ [LightPanel];
          g = fold (\<lambda>m. Dispose (meshes engine m)) allMeshes g;
          g = (if FramebufferName engine \<noteq> 0
               then gl_emit (DeleteFramebuffers (FramebufferName engine)) g else g);
          g = (if depthTextureArray engine \<noteq> 0
               then glDeleteTextures (depthTextureArray engine) g else g);
          g = (if VertexArrayID engine \<noteq> 0
               then gl_emit (DeleteVertexArrays (VertexArrayID engine)) g else g);
          g = (if programID engine \<noteq> 0
               then gl_emit (DeleteProgram (programID engine)) g else g);
          g = (if depthProgramID engine \<noteq> 0
               then gl_emit (DeleteProgram (depthProgramID engine)) g else g)
      in g)"

section \<open>The program\<close>

text \<open>
  \<^verbatim>\<open>Run\<close>, and \<^verbatim>\<open>main\<close>: the engine is constructed, run and destroyed, and the destructor
  calls \<^verbatim>\<open>Cleanup\<close>. \<open>start_up\<close> is \<^verbatim>\<open>Run\<close> before it enters the loop; it is \<open>None\<close> when
  \<^verbatim>\<open>Run\<close> returns early, and when the scene is not one of matrices of numbers, where the
  model stops.
\<close>

definition world_initial :: "(nat \<Rightarrow> vec3) \<Rightarrow> glfw_window \<Rightarrow> controls \<Rightarrow> world" where
  "world_initial uninit w c =
     \<lparr>sim = ClassroomSimulator_new uninit, gl = gl_initial, win = w, ctl = c\<rparr>"

definition start_up :: "platform \<Rightarrow> (string \<Rightarrow> nat) \<Rightarrow> world \<Rightarrow> world option \<times> world" where
  "start_up p assets s =
     (let (ok, s) = InitSystem p s
      in if \<not> ok then (None, s)
         else
          (let s = InitShaders s;
               (ok, s) = InitShadowFramebuffer p s
           in if \<not> ok then (None, s)
              else
               (case LoadScene assets (sim s, gl s) of
                  None \<Rightarrow> (None, s)
                | Some (engine, g) \<Rightarrow>
                    (let s = s\<lparr>sim := engine, gl := g\<rparr> in (Some s, s)))))"

definition Run :: "platform \<Rightarrow> (string \<Rightarrow> nat) \<Rightarrow> frame_input list \<Rightarrow> world \<Rightarrow> world" where
  "Run p assets inps s =
     (case start_up p assets s of
        (None, s) \<Rightarrow> s
      | (Some s, _) \<Rightarrow> MainLoop inps s)"

definition main ::
  "platform \<Rightarrow> (string \<Rightarrow> nat) \<Rightarrow> frame_input list \<Rightarrow> world \<Rightarrow> world" where
  "main p assets inps s =
     (let s = Run p assets inps s
      in s\<lparr>gl := Cleanup (sim s) (gl s)\<rparr>)"

section \<open>Vocabulary of the statements\<close>

text \<open>
  The cells of an \<open>n\<close> by \<open>m\<close> grid in row-major order: the outer index first, the inner
  index running fastest.
\<close>

definition grid_cells :: "nat \<Rightarrow> nat \<Rightarrow> (nat \<times> nat) list" where
  "grid_cells n m = concat (map (\<lambda>i. map (\<lambda>j. (i, j)) [0..<m]) [0..<n])"


text \<open>
  The draws of the shadow pass. One instance of a mesh is drawn in context \<open>g\<close> with
  \<open>depthMVP = PV * modelMatrix\<close>; a mesh gives one draw for each instance, in the order of
  its instance list; a light gives the draws of the opaque list followed by those of the
  normal-mapped list, with \<open>PV = depthProj * depthView\<close> of the light. The depth-bias
  matrix of a light is \<open>biasMatrix * depthProj * depthView\<close>.
\<close>

definition shadow_draw ::
  "ClassroomSimulator \<Rightarrow> gl_context \<Rightarrow> mat4 \<Rightarrow> mesh_ref \<Rightarrow> mat4 \<Rightarrow> gl_call" where
  "shadow_draw e g PV r modelMatrix =
     DrawElements (draw_snapshot (g\<lparr>u_depthMVP := mat4_mul PV modelMatrix\<rparr>) r (meshes e r))"

definition mesh_shadow_draws ::
  "ClassroomSimulator \<Rightarrow> gl_context \<Rightarrow> mat4 \<Rightarrow> mesh_ref \<Rightarrow> gl_call list" where
  "mesh_shadow_draws e g PV r = map (shadow_draw e g PV r) (modelMatrices (meshes e r))"

definition light_shadow_draws :: "ClassroomSimulator \<Rightarrow> gl_context \<Rightarrow> vec3 \<Rightarrow> gl_call list" where
  "light_shadow_draws e g lightPos =
     concat (map (mesh_shadow_draws e g (mat4_mul depthProj (depthView_of lightPos)))
                 (opaqueMeshes e @ normalMapMeshes e))"

definition depthBiasMVP_of :: "vec3 \<Rightarrow> mat4" where
  "depthBiasMVP_of lightPos = mat4_mul (mat4_mul biasMatrix depthProj) (depthView_of lightPos)"

text \<open>The meshes of the draw calls of a trace, in order.\<close>

fun drawn_meshes :: "gl_call list \<Rightarrow> mesh_ref list" where
  "drawn_meshes [] = []"
| "drawn_meshes (DrawElements d # cs) = d_mesh d # drawn_meshes cs"
| "drawn_meshes (c # cs) = drawn_meshes cs"

text \<open>
  What a trace shows of its draws: the \<open>depthMVP\<close> of each, and the state each runs under
  (blending, depth writes, the glass flag, the unlit flag). \<open>batch_instances\<close> lists the
  batches of a render list, each as many times as it has instances; \<open>shadow_pass_draws\<close> are
  the draws of one shadow pass entered in context \<open>g\<close>.
\<close>

fun drawn_depthMVPs :: "gl_call list \<Rightarrow> mat4 list" where
  "drawn_depthMVPs [] = []"
| "drawn_depthMVPs (DrawElements d # cs) = d_depthMVP d # drawn_depthMVPs cs"
| "drawn_depthMVPs (c # cs) = drawn_depthMVPs cs"

fun draw_states :: "gl_call list \<Rightarrow> (bool \<times> bool \<times> int \<times> int) list" where
  "draw_states [] = []"
| "draw_states (DrawElements d # cs) =
     (d_blend d, d_depthMask d, d_bIsGlass d, d_bIsUnlit d) # draw_states cs"
| "draw_states (c # cs) = draw_states cs"

definition batch_instances :: "ClassroomSimulator \<Rightarrow> mesh_ref list \<Rightarrow> mesh_ref list" where
  "batch_instances e rs = concat (map (\<lambda>r. replicate (length (modelMatrices (meshes e r))) r) rs)"

definition shadow_pass_draws :: "ClassroomSimulator \<Rightarrow> gl_context \<Rightarrow> gl_call list" where
  "shadow_pass_draws e g =
     concat (map (light_shadow_draws e (g\<lparr>gl_program := depthProgramID e\<rparr>))
                 (classroomLightPositions_worldspace e))"

definition pass_state :: "gl_context \<Rightarrow> bool \<times> bool \<times> int" where
  "pass_state g = (gl_blend g, gl_depthMask g, u_bIsGlass g)"

text \<open>
  The draws of the lighting pass. One instance of a mesh is drawn in context \<open>g\<close> with the
  normal-map and specular-map flags of the mesh, the alpha of the call,
  \<open>MVP = PV * modelMatrix\<close> and \<open>M = modelMatrix\<close>; a mesh gives one draw for each instance
  and a bucket the draws of its meshes, in order.
\<close>

definition normal_map_flag :: "Mesh \<Rightarrow> int" where
  "normal_map_flag mesh = (if hasNormalMap mesh then 1 else 0)"

definition lit_draw ::
  "ClassroomSimulator \<Rightarrow> gl_context \<Rightarrow> mat4 \<Rightarrow> real \<Rightarrow> mesh_ref \<Rightarrow> mat4 \<Rightarrow> gl_call" where
  "lit_draw e g PV alpha r modelMatrix =
     DrawElements (draw_snapshot
       (g\<lparr>u_bUseNormalMap := normal_map_flag (meshes e r),
          u_bUseSpecularMap := normal_map_flag (meshes e r),
          u_fragmentAlpha := alpha,
          u_MVP := mat4_mul PV modelMatrix,
          u_M := modelMatrix\<rparr>) r (meshes e r))"

definition mesh_draws ::
  "ClassroomSimulator \<Rightarrow> gl_context \<Rightarrow> mat4 \<Rightarrow> real \<Rightarrow> mesh_ref \<Rightarrow> gl_call list" where
  "mesh_draws e g PV alpha r = map (lit_draw e g PV alpha r) (modelMatrices (meshes e r))"

definition bucket_draws ::
  "ClassroomSimulator \<Rightarrow> gl_context \<Rightarrow> mat4 \<Rightarrow> real \<Rightarrow> mesh_ref list \<Rightarrow> gl_call list" where
  "bucket_draws e g PV alpha rs = concat (map (mesh_draws e g PV alpha) rs)"

text \<open>
  What the poll of a frame reports about the shading-mode key: down or up, in both cases
  with no request to leave the loop.
\<close>

definition no_exit :: "frame_input \<Rightarrow> bool" where
  "no_exit inp = (\<not> ev_pressed (events inp) KEY_ESCAPE \<and> \<not> ev_close (events inp))"

definition holds_G :: "frame_input \<Rightarrow> bool" where
  "holds_G inp = (ev_pressed (events inp) KEY_G \<and> no_exit inp)"

definition releases_G :: "frame_input \<Rightarrow> bool" where
  "releases_G inp = (\<not> ev_pressed (events inp) KEY_G \<and> no_exit inp)"

definition shading_line :: "int \<Rightarrow> string" where
  "shading_line mode = ''Shading Mode: '' @ (if mode = 1 then ''Gouraud'' else ''Phong'')"

text \<open>The names released by the calls of a trace, in order.\<close>

fun released_buffers :: "gl_call list \<Rightarrow> GLuint list" where
  "released_buffers [] = []"
| "released_buffers (DeleteBuffers b # cs) = b # released_buffers cs"
| "released_buffers (c # cs) = released_buffers cs"

fun released_textures :: "gl_call list \<Rightarrow> GLuint list" where
  "released_textures [] = []"
| "released_textures (DeleteTextures t # cs) = t # released_textures cs"
| "released_textures (c # cs) = released_textures cs"

text \<open>
  Devices of the proofs. \<open>toggle_state\<close> is what the input handling works on. A draw of the
  shadow pass reads the context up to \<open>depthMVP\<close> and the trace, which \<open>shadow_core\<close>
  forgets; a draw of the lighting pass reads it up to the uniforms \<^verbatim>\<open>DrawMesh\<close> sets,
  which \<open>lit_core\<close> forgets. \<open>static_part\<close> is a mesh without its instances, and
  \<open>load_meshes\<close> the three loading steps of \<^verbatim>\<open>LoadScene\<close>.
\<close>

definition toggle_state :: "MainLoop_locals \<Rightarrow> int \<times> bool \<times> string list" where
  "toggle_state l = (shadingMode l, gKeyPressed l, printed l)"

definition shadow_core :: "gl_context \<Rightarrow> gl_context" where
  "shadow_core g = g\<lparr>u_depthMVP := mat4_zero, gl_trace := []\<rparr>"

definition lit_core :: "gl_context \<Rightarrow> gl_context" where
  "lit_core g = g\<lparr>u_bUseNormalMap := 0, u_bUseSpecularMap := 0, u_fragmentAlpha := 0,
                  u_MVP := mat4_zero, u_M := mat4_zero,
                  u_DepthBiasMVPs := [], u_ClassroomLightPositions_cameraspace := [],
                  gl_trace := []\<rparr>"

definition static_part :: "Mesh \<Rightarrow> Mesh" where
  "static_part mesh = mesh\<lparr>modelMatrices := []\<rparr>"

definition load_meshes ::
  "(string \<Rightarrow> nat) \<Rightarrow> ClassroomSimulator \<times> gl_context \<Rightarrow> ClassroomSimulator \<times> gl_context" where
  "load_meshes assets st =
     load_normal_mapped_meshes assets (load_transparent_meshes assets (load_opaque_meshes assets st))"

section \<open>A concrete run\<close>

text \<open>
  A platform on which start-up succeeds, a window with the cursor at the origin and no
  key down, model files of 36 indices each, and the world the program starts in; then the
  world when the render loop is entered. The examples below are stated on them.
\<close>

definition no_events :: glfw_events where
  "no_events = \<lparr>ev_dx = 0, ev_dy = 0, ev_pressed = (\<lambda>k. False), ev_close = False\<rparr>"

definition platform_ok :: platform where
  "platform_ok =
     \<lparr>glfwInit_ok = True, glfwCreateWindow_ok = True, glewInit_ok = True,
      framebuffer_complete = True, first_events = no_events\<rparr>"

definition window_idle :: glfw_window where
  "window_idle = \<lparr>cursorX = 0, cursorY = 0, pressed = (\<lambda>k. False), shouldClose = False\<rparr>"

definition cube_assets :: "string \<Rightarrow> nat" where
  "cube_assets path = 36"

definition world_at_launch :: world where
  "world_at_launch =
     world_initial (\<lambda>i. Vec3 0 0 0) window_idle (controls_initial mat4_zero mat4_zero)"

definition world_started :: world where
  "world_started = snd (start_up platform_ok cube_assets world_at_launch)"

definition G_down :: frame_input where
  "G_down = \<lparr>time_now = 0, events = no_events\<lparr>ev_pressed := (\<lambda>k. k = KEY_G)\<rparr>\<rparr>"

definition G_up :: frame_input where
  "G_up = \<lparr>time_now = 0, events = no_events\<rparr>"

text \<open>
  The engine and the context when \<^verbatim>\<open>LoadScene\<close> is entered in a run that starts from
  \<open>world_initial\<close>: the vertex array, the two programs, the shadow framebuffer and the depth
  texture array have been generated, each the first of its kind but the lighting program,
  which is the second program.
\<close>

definition engine_ready :: "(nat \<Rightarrow> vec3) \<Rightarrow> ClassroomSimulator" where
  "engine_ready uninit =
     (ClassroomSimulator_new uninit)
       \<lparr>VertexArrayID := 1, FramebufferName := 1, depthTextureArray := 1,
        programID := 2, depthProgramID := 1\<rparr>"

definition gl_ready :: gl_context where
  "gl_ready =
     gl_initial\<lparr>gl_genTextures := 1, gl_genVertexArrays := 1, gl_genFramebuffers := 1,
                gl_genPrograms := 2\<rparr>"

text \<open>
  The release calls of one \<^verbatim>\<open>Dispose\<close> and of one \<^verbatim>\<open>Cleanup\<close>, in the order they are
  made, and the buffers and the textures a batch owns: the four buffers and the texture of
  every batch, and the tangent and bitangent buffers and the normal and specular textures
  of a batch with a normal map. A handle that is 0 names nothing.
\<close>

definition Dispose_calls :: "Mesh \<Rightarrow> gl_call list" where
  "Dispose_calls mesh =
     (if vertexBuffer mesh \<noteq> 0 then [DeleteBuffers (vertexBuffer mesh)] else []) @
     (if uvBuffer mesh \<noteq> 0 then [DeleteBuffers (uvBuffer mesh)] else []) @
     (if normalBuffer mesh \<noteq> 0 then [DeleteBuffers (normalBuffer mesh)] else []) @
     (if elementBuffer mesh \<noteq> 0 then [DeleteBuffers (elementBuffer mesh)] else []) @
     (if textureID mesh \<noteq> 0 then [DeleteTextures (textureID mesh)] else []) @
     (if hasNormalMap mesh
      then [DeleteBuffers (tangentBuffer mesh), DeleteBuffers (bitangentBuffer mesh),
            DeleteTextures (normalTextureID mesh), DeleteTextures (specularTextureID mesh)]
      else [])"

definition owned_buffers :: "Mesh \<Rightarrow> GLuint set" where
  "owned_buffers mesh =
     ({vertexBuffer mesh, uvBuffer mesh, normalBuffer mesh, elementBuffer mesh} \<union>
      (if hasNormalMap mesh then {tangentBuffer mesh, bitangentBuffer mesh} else {})) - {0}"

definition owned_textures :: "Mesh \<Rightarrow> GLuint set" where
  "owned_textures mesh =
     ({textureID mesh} \<union>
      (if hasNormalMap mesh then {normalTextureID mesh, specularTextureID mesh} else {})) - {0}"

definition Cleanup_calls :: "ClassroomSimulator \<Rightarrow> gl_call list" where
  "Cleanup_calls e =
     concat (map (\<lambda>m. Dispose_calls (meshes e m))
               (opaqueMeshes e @ normalMapMeshes e @ transparentMeshes e @ [LightPanel])) @
     (if FramebufferName e \<noteq> 0 then [DeleteFramebuffers (FramebufferName e)] else []) @
     (if depthTextureArray e \<noteq> 0 then [DeleteTextures (depthTextureArray e)] else []) @
     (if VertexArrayID e \<noteq> 0 then [DeleteVertexArrays (VertexArrayID e)] else []) @
     (if programID e \<noteq> 0 then [DeleteProgram (programID e)] else []) @
     (if depthProgramID e \<noteq> 0 then [DeleteProgram (depthProgramID e)] else [])"

text \<open>The batches \<^verbatim>\<open>Cleanup\<close> disposes after \<^verbatim>\<open>LoadScene\<close>, in its order.\<close>

definition scene_batches :: "mesh_ref list" where
  "scene_batches =
     [Bench, Door, SwitchObj, Exhaust, Clock, Pipe, Projector, Screen, FloorMesh, Fan,
      Greenboard, Podium, Table, WindowMesh, WallFan, Wall, Ceiling, Grid, Glass, LightPanel]"

definition batch_releases :: "ClassroomSimulator \<Rightarrow> gl_call list" where
  "batch_releases e = concat (map (\<lambda>m. Dispose_calls (meshes e m)) scene_batches)"

section \<open>Properties of the bias matrix\<close>

lemma biasMatrix_apply:
  "mat4_mul_vec4 biasMatrix (Vec4 a b c d) =
     Vec4 (0.5 * a + 0.5 * d) (0.5 * b + 0.5 * d) (0.5 * c + 0.5 * d) d"
  by (simp add: biasMatrix_def)

text \<open>
  Claim C3. The bias matrix of the shadow pass takes every point of the clip-space cube
  \<open>[-1, 1]\<^sup>3\<close> into the texture-space cube \<open>[0, 1]\<^sup>3\<close>, and it takes \<open>(-1, -1, -1)\<close> to
  \<open>(0, 0, 0)\<close>, \<open>(1, 1, 1)\<close> to \<open>(1, 1, 1)\<close> and \<open>(0, 0, 0)\<close> to \<open>(0.5, 0.5, 0.5)\<close>.
\<close>

theorem biasMatrix_clip_to_texture:
  assumes "in_clip_cube p"
  shows "in_texture_cube (mat4_mul_vec4 biasMatrix p) \<and>
         mat4_mul_vec4 biasMatrix (Vec4 (- 1) (- 1) (- 1) 1) = Vec4 0 0 0 1 \<and>
         mat4_mul_vec4 biasMatrix (Vec4 1 1 1 1) = Vec4 1 1 1 1 \<and>
         mat4_mul_vec4 biasMatrix (Vec4 0 0 0 1) = Vec4 0.5 0.5 0.5 1"
proof -
  obtain a b c d where p: "p = Vec4 a b c d"
    by (cases p)
  with assms have "- 1 \<le> a" "a \<le> 1" "- 1 \<le> b" "b \<le> 1" "- 1 \<le> c" "c \<le> 1" "d = 1"
    by simp_all
  then have cube: "in_texture_cube (mat4_mul_vec4 biasMatrix p)"
    unfolding p biasMatrix_apply by simp
  have low: "mat4_mul_vec4 biasMatrix (Vec4 (- 1) (- 1) (- 1) 1) = Vec4 0 0 0 1"
    unfolding biasMatrix_apply by simp
  have high: "mat4_mul_vec4 biasMatrix (Vec4 1 1 1 1) = Vec4 1 1 1 1"
    unfolding biasMatrix_apply by simp
  have mid: "mat4_mul_vec4 biasMatrix (Vec4 0 0 0 1) = Vec4 0.5 0.5 0.5 1"
    unfolding biasMatrix_apply by simp
  from cube low high mid show ?thesis
    by blast
qed

theorem biasMatrix_clip_to_texture_witness:
  "in_clip_cube (Vec4 (1 / 2) (- 1) (3 / 4) 1) \<and>
   mat4_mul_vec4 biasMatrix (Vec4 (1 / 2) (- 1) (3 / 4) 1) = Vec4 (3 / 4) 0 (7 / 8) 1 \<and>
   in_texture_cube (mat4_mul_vec4 biasMatrix (Vec4 (1 / 2) (- 1) (3 / 4) 1))"
proof -
  have h: "in_clip_cube (Vec4 (1 / 2) (- 1) (3 / 4) 1)"
    by simp
  have v: "mat4_mul_vec4 biasMatrix (Vec4 (1 / 2) (- 1) (3 / 4) 1) = Vec4 (3 / 4) 0 (7 / 8) 1"
    unfolding biasMatrix_apply by simp
  from h v biasMatrix_clip_to_texture [OF h] show ?thesis
    by simp
qed

section \<open>Loops and lists\<close>

lemma upt_2: "[0..<2] = [0, 1]"
  by (simp add: upt_rec)

lemma upt_3: "[0..<3] = [0, 1, 2]"
  by (simp add: upt_rec)

lemma upt_5: "[0..<5] = [0, 1, 2, 3, 4]"
  by (simp add: upt_rec)

lemma fold_invariant:
  assumes "\<And>x s. P s \<Longrightarrow> P (f x s)" and "P s"
  shows "P (fold f xs s)"
  using assms(2) by (induction xs arbitrary: s) (simp_all add: assms(1))

lemma for_loop_unchanged:
  assumes "\<And>i s. obs (body i s) = obs s"
  shows "obs (for_loop n body s) = obs s"
  unfolding for_loop_def
  by (rule fold_invariant [where P = "\<lambda>s'. obs s' = obs s"]) (simp_all add: assms)

lemma for_grid_unchanged:
  assumes "\<And>i j s. obs (body i j s) = obs s"
  shows "obs (for_grid n m skip body s) = obs s"
  unfolding for_grid_def
  by (intro for_loop_unchanged) (simp add: assms)

lemma fold_over_concat: "fold f (concat xss) s = fold (\<lambda>xs. fold f xs) xss s"
  by (induction xss arbitrary: s) simp_all

text \<open>The nested loops visit the cells of the grid in row-major order.\<close>

lemma for_grid_as_fold:
  "for_grid n m skip body s =
     fold (\<lambda>(i, j) s. if skip i j then s else body i j s) (grid_cells n m) s"
  by (simp add: for_grid_def for_loop_def grid_cells_def fold_over_concat fold_map comp_def)

lemma length_grid_cells: "length (grid_cells n m) = n * m"
  by (simp add: grid_cells_def length_concat comp_def sum_list_triv)

lemma fold_skipping:
  "fold (\<lambda>c s. if P c then s else f c s) cs s = fold f (filter (\<lambda>c. \<not> P c) cs) s"
  by (induction cs arbitrary: s) simp_all

lemma length_filter_complement:
  "length (filter (\<lambda>c. \<not> P c) cs) = length cs - length (filter P cs)"
  using sum_length_filter_compl [of P cs] by simp

lemma map_nth_upt: "map (\<lambda>k. f (xs ! k)) [0..<length xs] = map f xs"
proof -
  have "map (\<lambda>k. f (xs ! k)) [0..<length xs] = map f (map ((!) xs) [0..<length xs])"
    by (simp add: comp_def)
  also have "\<dots> = map f xs"
    by (simp only: map_nth)
  finally show ?thesis .
qed

lemma list_of_nine:
  assumes "length xs = 9"
  shows "xs[0 := a0, 1 := a1, 2 := a2, 3 := a3, 4 := a4, 5 := a5, 6 := a6, 7 := a7, 8 := a8]
           = [a0, a1, a2, a3, a4, a5, a6, a7, a8]"
proof -
  from assms obtain x0 x1 x2 x3 x4 x5 x6 x7 x8 where "xs = [x0, x1, x2, x3, x4, x5, x6, x7, x8]"
    by (auto simp: length_Suc_conv eval_nat_numeral)
  then show ?thesis by simp
qed

text \<open>
  A step that leaves a part of the context alone and appends to the trace calls that
  depend on that part only: folded over a list, it appends the calls of each element in
  turn.
\<close>

lemma fold_writer:
  assumes "\<And>x g. core (op x g) = core g"
      and "\<And>x g. gl_trace (op x g) = gl_trace g @ W x (core g)"
  shows "core (fold op xs g) = core g \<and>
         gl_trace (fold op xs g) = gl_trace g @ concat (map (\<lambda>x. W x (core g)) xs)"
  by (induction xs arbitrary: g) (simp_all add: assms)

section \<open>Matrices\<close>










section \<open>Rotations that are matrices of numbers\<close>

lemma glm_dot_self_zero: "glm_dot v v = 0 \<longleftrightarrow> v = Vec3 0 0 0"
  by (cases v) (simp add: add_nonneg_eq_0_iff)

lemma glm_rotate_Some:
  "v \<noteq> Vec3 0 0 0 \<Longrightarrow> glm_rotate m a v = Some (glm_rotate_value m a v)"
  by (simp add: glm_rotate_def glm_dot_self_zero)


lemma AddObject_model_Some:
  "rotDeg = 0 \<or> rotAxis \<noteq> Vec3 0 0 0 \<Longrightarrow>
     AddObject_model pos rotDeg rotAxis scale = Some (AddObject_model_value pos rotDeg rotAxis scale)"
  by (auto simp add: AddObject_model_def AddObject_model_value_def Let_def glm_rotate_Some)

lemma AddObject_Some:
  "rotDeg = 0 \<or> rotAxis \<noteq> Vec3 0 0 0 \<Longrightarrow>
     AddObject mesh pos rotDeg rotAxis scale e = Some (AddObject_value mesh pos rotDeg rotAxis scale e)"
  by (simp add: AddObject_def AddObject_value_def addInstance_of_def AddObject_model_Some)

lemma fold_bind_Some:
  assumes "\<And>i s. body i s = Some (f i s)"
  shows "fold (\<lambda>i r. Option.bind r (body i)) xs (Some s) = Some (fold f xs s)"
  by (induction xs arbitrary: s) (simp_all add: assms)

lemma for_loop_opt_Some:
  assumes "\<And>i s. body i s = Some (f i s)"
  shows "for_loop_opt n body s = Some (for_loop n f s)"
  unfolding for_loop_opt_def for_loop_def
  by (rule fold_bind_Some) (rule assms)

lemma for_grid_opt_Some:
  assumes "\<And>i j s. body i j s = Some (f i j s)"
  shows "for_grid_opt n m skip body s = Some (for_grid n m skip f s)"
  unfolding for_grid_opt_def for_grid_def
  by (intro for_loop_opt_Some) (simp add: assms)

section \<open>Instance transforms\<close>




section \<open>Releasing GPU resources\<close>

lemma glDelete_trace:
  "gl_trace (glDeleteBuffers b g) = gl_trace g @ [DeleteBuffers b]"
  "gl_trace (glDeleteTextures t g) = gl_trace g @ [DeleteTextures t]"
  by (simp_all add: glDeleteBuffers_def glDeleteTextures_def gl_emit_def)

lemma Dispose_trace: "gl_trace (Dispose mesh g) = gl_trace g @ Dispose_calls mesh"
  by (simp add: Dispose_def Dispose_calls_def Let_def glDelete_trace)

lemma Dispose_calls_static: "Dispose_calls (static_part mesh) = Dispose_calls mesh"
  by (simp add: Dispose_calls_def static_part_def)

lemma owned_static:
  "owned_buffers (static_part mesh) = owned_buffers mesh"
  "owned_textures (static_part mesh) = owned_textures mesh"
  by (simp_all add: owned_buffers_def owned_textures_def static_part_def)

lemma glDelete_objects:
  "gl_buffers (glDeleteBuffers b g) = gl_buffers g - {b}"
  "gl_textures (glDeleteBuffers b g) = gl_textures g"
  "gl_buffers (glDeleteTextures t g) = gl_buffers g"
  "gl_textures (glDeleteTextures t g) = gl_textures g - {t}"
  by (auto simp add: glDeleteBuffers_def glDeleteTextures_def gl_emit_def gl_buffers_def
      gl_textures_def glIsBuffer_def glIsTexture_def)

lemma no_object_named_0: "0 \<notin> gl_buffers g" "0 \<notin> gl_textures g"
  by (simp_all add: gl_buffers_def gl_textures_def glIsBuffer_def glIsTexture_def)

lemma Dispose_buffers: "gl_buffers (Dispose mesh g) = gl_buffers g - owned_buffers mesh"
proof -
  have skip: "(if b \<noteq> 0 then S - {b} else S) = S - ({b} - {0})" for b :: GLuint and S
    by auto
  have "gl_buffers (Dispose mesh g) =
          gl_buffers g - ({vertexBuffer mesh} - {0}) - ({uvBuffer mesh} - {0})
            - ({normalBuffer mesh} - {0}) - ({elementBuffer mesh} - {0})
            - (if hasNormalMap mesh then {tangentBuffer mesh, bitangentBuffer mesh} else {})"
    by (simp add: Dispose_def Let_def glDelete_objects if_distrib [of gl_buffers] skip
        Diff_insert2 [symmetric] cong: if_cong)
  also have "\<dots> = gl_buffers g - owned_buffers mesh"
    using no_object_named_0(1) [of g] unfolding owned_buffers_def by (cases "hasNormalMap mesh") auto
  finally show ?thesis .
qed

lemma Dispose_textures: "gl_textures (Dispose mesh g) = gl_textures g - owned_textures mesh"
proof -
  have skip: "(if b \<noteq> 0 then S - {b} else S) = S - ({b} - {0})" for b :: GLuint and S
    by auto
  have "gl_textures (Dispose mesh g) =
          gl_textures g - ({textureID mesh} - {0})
            - (if hasNormalMap mesh then {normalTextureID mesh, specularTextureID mesh} else {})"
    by (simp add: Dispose_def Let_def glDelete_objects if_distrib [of gl_textures] skip
        Diff_insert2 [symmetric] cong: if_cong)
  also have "\<dots> = gl_textures g - owned_textures mesh"
    using no_object_named_0(2) [of g] unfolding owned_textures_def by (cases "hasNormalMap mesh") auto
  finally show ?thesis .
qed

lemma released_append:
  "released_buffers (xs @ ys) = released_buffers xs @ released_buffers ys"
  "released_textures (xs @ ys) = released_textures xs @ released_textures ys"
  by (induction xs rule: released_buffers.induct; simp)
     (induction xs rule: released_textures.induct; simp)

lemma Dispose_calls_name_owned:
  "set (released_buffers (Dispose_calls mesh)) - {0} = owned_buffers mesh"
  "set (released_textures (Dispose_calls mesh)) - {0} = owned_textures mesh"
  by (auto simp add: Dispose_calls_def owned_buffers_def owned_textures_def released_append)

section \<open>The scene is one of matrices of numbers\<close>

text \<open>
  Every rotation of \<^verbatim>\<open>LoadScene\<close> is about the axis \<open>(0, 1, 0)\<close> or \<open>(1, 0, 0)\<close>, so every step
  of the composition returns, and returns what the step gives on matrices of numbers.
\<close>

lemma for_loop_opt_total:
  "for_loop_opt n (\<lambda>i s. Some (f i s)) s = Some (for_loop n f s)"
  by (rule for_loop_opt_Some) simp

lemma place_benches_Some: "place_benches e = Some (place_benches_value e)"
  unfolding place_benches_def place_benches_value_def
  by (rule for_grid_opt_Some) (simp add: AddObject_Some)

lemma place_fans_Some: "place_fans e = Some (place_fans_value e)"
  unfolding place_fans_def place_fans_value_def
  by (rule for_grid_opt_Some) (simp add: AddObject_Some)

lemma place_static_geometry_Some:
  "place_static_geometry e = Some (place_static_geometry_value e)"
  by (simp add: place_static_geometry_def place_static_geometry_value_def AddObject_Some Let_def)

lemma place_ceiling_grid_Some: "place_ceiling_grid e = Some (place_ceiling_grid_value e)"
  by (simp add: place_ceiling_grid_def place_ceiling_grid_value_def glm_rotate_Some
      addInstance_of_def Let_def)

lemma place_details_Some: "place_details e = Some (place_details_value e)"
  by (simp add: place_details_def place_details_value_def AddObject_Some for_loop_opt_total
      Let_def)

lemma place_windows_and_glass_Some:
  "place_windows_and_glass e = Some (place_windows_and_glass_value e)"
  by (simp add: place_windows_and_glass_def place_windows_and_glass_value_def AddObject_Some
      for_loop_opt_total Let_def)

lemma place_light_Some: "place_light i j st = Some (place_light_value i j st)"
  by (cases st) (simp add: place_light_def place_light_value_def AddObject_Some Let_def)

lemma place_lights_Some: "place_lights e = Some (place_lights_value e)"
  by (simp add: place_lights_def place_lights_value_def for_grid_opt_Some [OF place_light_Some])

lemma compose_scene_Some: "compose_scene e = Some (compose_scene_value e)"
  by (simp add: compose_scene_def compose_scene_value_def Let_def place_benches_Some
      place_fans_Some place_static_geometry_Some place_ceiling_grid_Some place_details_Some
      place_windows_and_glass_Some place_lights_Some)

lemma LoadScene_Some: "LoadScene assets st = Some (LoadScene_value assets st)"
  by (simp add: LoadScene_def LoadScene_value_def Let_def split_def compose_scene_Some)

section \<open>Start-up\<close>

lemma start_up_unfold:
  assumes "fst (start_up p assets s0) = Some s"
  defines "s3 \<equiv> snd (InitShadowFramebuffer p (InitShaders (snd (InitSystem p s0))))"
  shows "fst (InitSystem p s0)"
    and "s = s3\<lparr>sim := fst (LoadScene_value assets (sim s3, gl s3)),
                 gl := snd (LoadScene_value assets (sim s3, gl s3))\<rparr>"
    and "snd (start_up p assets s0) = s"
proof -
  show i: "fst (InitSystem p s0)"
    using assms(1) by (cases "fst (InitSystem p s0)") (simp_all add: start_up_def split_def)
  have f: "fst (InitShadowFramebuffer p (InitShaders (snd (InitSystem p s0))))"
    using assms(1) i
    by (cases "fst (InitShadowFramebuffer p (InitShaders (snd (InitSystem p s0))))")
       (simp_all add: start_up_def split_def Let_def)
  from assms(1) i f
  show "s = s3\<lparr>sim := fst (LoadScene_value assets (sim s3, gl s3)),
                 gl := snd (LoadScene_value assets (sim s3, gl s3))\<rparr>"
    by (simp add: start_up_def split_def Let_def s3_def LoadScene_Some)
  from assms(1) i f show "snd (start_up p assets s0) = s"
    by (simp add: start_up_def split_def Let_def LoadScene_Some)
qed

lemma InitSystem_ok:
  assumes "fst (InitSystem p s0)"
  shows "snd (InitSystem p s0) =
           s0\<lparr>sim := (sim s0)\<lparr>VertexArrayID := gl_genVertexArrays (gl s0) + 1\<rparr>,
              gl := (gl s0)\<lparr>gl_genVertexArrays := gl_genVertexArrays (gl s0) + 1\<rparr>,
              win := glfwSetCursorPos 768 576 (glfwPollEvents (first_events p) (win s0))\<rparr>"
  using assms
  by (simp add: InitSystem_def Let_def split_def glGenVertexArrays_def WINDOW_WIDTH_def
      WINDOW_HEIGHT_def split: if_splits)

lemma start_up_Some:
  assumes "fst (start_up p assets s0) = Some s"
  shows "win s = glfwSetCursorPos 768 576 (glfwPollEvents (first_events p) (win s0))"
    and "ctl s = ctl s0"
  using start_up_unfold(1,2) [OF assms]
  by (simp_all add: InitSystem_ok InitShaders_def InitShadowFramebuffer_def Let_def split_def)

lemma start_up_scene:
  assumes "fst (start_up p assets (world_initial uninit w c)) = Some s"
  shows "sim s = fst (LoadScene_value assets (engine_ready uninit, gl_ready))"
    and "gl s = snd (LoadScene_value assets (engine_ready uninit, gl_ready))"
proof -
  let ?s3 = "snd (InitShadowFramebuffer p (InitShaders (snd (InitSystem p (world_initial uninit w c)))))"
  note u = start_up_unfold(1,2) [OF assms]
  have e: "sim ?s3 = engine_ready uninit" and g: "gl ?s3 = gl_ready"
    using u(1)
    by (simp_all add: InitSystem_ok InitShaders_def InitShadowFramebuffer_def Let_def split_def
        world_initial_def engine_ready_def gl_ready_def gl_initial_def ClassroomSimulator_new_def
        glGenFramebuffers_def glGenTextures_def LoadShaders_def)
  from u(2) show "sim s = fst (LoadScene_value assets (engine_ready uninit, gl_ready))"
    and "gl s = snd (LoadScene_value assets (engine_ready uninit, gl_ready))"
    by (simp_all add: e g)
qed

lemma start_up_on_good_platform:
  "fst (start_up platform_ok assets s0) = Some (snd (start_up platform_ok assets s0))"
  by (simp add: start_up_def InitSystem_def InitShadowFramebuffer_def Let_def split_def
      platform_ok_def LoadScene_Some)

section \<open>Scene composition\<close>

text \<open>
  What each step of the composition leaves alone. \<^verbatim>\<open>AddObject\<close> changes the instance list of
  its mesh and nothing else.
\<close>

lemmas lights_for_loop = for_loop_unchanged [where obs = classroomLightPositions_worldspace]
lemmas lights_for_grid = for_grid_unchanged [where obs = classroomLightPositions_worldspace]
lemmas mesh_for_loop = for_loop_unchanged [where obs = "\<lambda>e. meshes e r" for r]
lemmas mesh_for_grid = for_grid_unchanged [where obs = "\<lambda>e. meshes e r" for r]
lemmas static_for_loop = for_loop_unchanged [where obs = "\<lambda>e. static_part (meshes e r)" for r]
lemmas static_for_grid = for_grid_unchanged [where obs = "\<lambda>e. static_part (meshes e r)" for r]
lemmas opaque_for_loop = for_loop_unchanged [where obs = opaqueMeshes]
lemmas opaque_for_grid = for_grid_unchanged [where obs = opaqueMeshes]
lemmas normal_for_loop = for_loop_unchanged [where obs = normalMapMeshes]
lemmas normal_for_grid = for_grid_unchanged [where obs = normalMapMeshes]
lemmas transparent_for_loop = for_loop_unchanged [where obs = transparentMeshes]
lemmas transparent_for_grid = for_grid_unchanged [where obs = transparentMeshes]
lemmas handles_for_loop = for_loop_unchanged [where obs = "\<lambda>e. (VertexArrayID e, FramebufferName e,
  depthTextureArray e, programID e, depthProgramID e)"]
lemmas handles_for_grid = for_grid_unchanged [where obs = "\<lambda>e. (VertexArrayID e, FramebufferName e,
  depthTextureArray e, programID e, depthProgramID e)"]

lemma AddObject_frame:
  "classroomLightPositions_worldspace (AddObject_value r pos rotDeg rotAxis scl e)
     = classroomLightPositions_worldspace e"
  "opaqueMeshes (AddObject_value r pos rotDeg rotAxis scl e) = opaqueMeshes e"
  "normalMapMeshes (AddObject_value r pos rotDeg rotAxis scl e) = normalMapMeshes e"
  "transparentMeshes (AddObject_value r pos rotDeg rotAxis scl e) = transparentMeshes e"
  "VertexArrayID (AddObject_value r pos rotDeg rotAxis scl e) = VertexArrayID e"
  "FramebufferName (AddObject_value r pos rotDeg rotAxis scl e) = FramebufferName e"
  "depthTextureArray (AddObject_value r pos rotDeg rotAxis scl e) = depthTextureArray e"
  "programID (AddObject_value r pos rotDeg rotAxis scl e) = programID e"
  "depthProgramID (AddObject_value r pos rotDeg rotAxis scl e) = depthProgramID e"
  "static_part (meshes (AddObject_value r pos rotDeg rotAxis scl e) r') = static_part (meshes e r')"
  "r' \<noteq> r \<Longrightarrow> meshes (AddObject_value r pos rotDeg rotAxis scl e) r' = meshes e r'"
  by (simp_all add: AddObject_value_def addInstance_def static_part_def)

lemma place_ceiling_grid_frame:
  "classroomLightPositions_worldspace (place_ceiling_grid_value e) = classroomLightPositions_worldspace e"
  "opaqueMeshes (place_ceiling_grid_value e) = opaqueMeshes e"
  "normalMapMeshes (place_ceiling_grid_value e) = normalMapMeshes e"
  "transparentMeshes (place_ceiling_grid_value e) = transparentMeshes e"
  "VertexArrayID (place_ceiling_grid_value e) = VertexArrayID e"
  "FramebufferName (place_ceiling_grid_value e) = FramebufferName e"
  "depthTextureArray (place_ceiling_grid_value e) = depthTextureArray e"
  "programID (place_ceiling_grid_value e) = programID e"
  "depthProgramID (place_ceiling_grid_value e) = depthProgramID e"
  "static_part (meshes (place_ceiling_grid_value e) r') = static_part (meshes e r')"
  "r' \<noteq> Grid \<Longrightarrow> meshes (place_ceiling_grid_value e) r' = meshes e r'"
  by (simp_all add: place_ceiling_grid_value_def Let_def addInstance_def static_part_def)

lemma place_light_frame:
  "opaqueMeshes (snd (place_light_value i j st)) = opaqueMeshes (snd st)"
  "normalMapMeshes (snd (place_light_value i j st)) = normalMapMeshes (snd st)"
  "transparentMeshes (snd (place_light_value i j st)) = transparentMeshes (snd st)"
  "VertexArrayID (snd (place_light_value i j st)) = VertexArrayID (snd st)"
  "FramebufferName (snd (place_light_value i j st)) = FramebufferName (snd st)"
  "depthTextureArray (snd (place_light_value i j st)) = depthTextureArray (snd st)"
  "programID (snd (place_light_value i j st)) = programID (snd st)"
  "depthProgramID (snd (place_light_value i j st)) = depthProgramID (snd st)"
  "static_part (meshes (snd (place_light_value i j st)) r') = static_part (meshes (snd st) r')"
  "r' \<noteq> LightPanel \<Longrightarrow> meshes (snd (place_light_value i j st)) r' = meshes (snd st) r'"
  by (cases st; simp add: place_light_value_def Let_def AddObject_frame)+

lemmas place_lights_opaque = for_grid_unchanged [where obs = "\<lambda>st. opaqueMeshes (snd st)"]
lemmas place_lights_normal = for_grid_unchanged [where obs = "\<lambda>st. normalMapMeshes (snd st)"]
lemmas place_lights_transparent = for_grid_unchanged [where obs = "\<lambda>st. transparentMeshes (snd st)"]
lemmas place_lights_static = for_grid_unchanged [where obs = "\<lambda>st. static_part (meshes (snd st) r)" for r]
lemmas place_lights_mesh = for_grid_unchanged [where obs = "\<lambda>st. meshes (snd st) r" for r]
lemmas place_lights_handles = for_grid_unchanged [where obs = "\<lambda>st. (VertexArrayID (snd st),
  FramebufferName (snd st), depthTextureArray (snd st), programID (snd st), depthProgramID (snd st))"]

lemmas frame_rules = lights_for_loop lights_for_grid mesh_for_loop mesh_for_grid static_for_loop
  static_for_grid opaque_for_loop opaque_for_grid normal_for_loop normal_for_grid
  transparent_for_loop transparent_for_grid AddObject_frame place_ceiling_grid_frame
  place_light_frame place_lights_opaque place_lights_normal place_lights_transparent
  place_lights_static place_lights_mesh

lemmas compose_defs = compose_scene_value_def place_benches_value_def place_fans_value_def place_static_geometry_value_def
  place_details_value_def place_windows_and_glass_value_def place_lights_value_def Let_def

lemma compose_scene_buckets:
  "opaqueMeshes (compose_scene_value e) = opaqueMeshes e"
  "normalMapMeshes (compose_scene_value e) = normalMapMeshes e"
  "transparentMeshes (compose_scene_value e) = transparentMeshes e"
  by (simp_all add: compose_defs frame_rules)

lemma compose_scene_static:
  "static_part (meshes (compose_scene_value e) r) = static_part (meshes e r)"
  by (simp add: compose_defs frame_rules)

lemma compose_scene_Bench:
  "meshes (compose_scene_value e) Bench = meshes (place_benches_value e) Bench"
  by (simp add: compose_defs frame_rules)

lemma place_lights_lights:
  "classroomLightPositions_worldspace (place_lights_value e) =
     (classroomLightPositions_worldspace e)
       [0 := light_pos 0 0, 1 := light_pos 0 1, 2 := light_pos 0 2,
        3 := light_pos 1 0, 4 := light_pos 1 1, 5 := light_pos 1 2,
        6 := light_pos 2 0, 7 := light_pos 2 1, 8 := light_pos 2 2]"
  by (simp add: place_lights_value_def for_grid_def for_loop_def upt_3 place_light_value_def Let_def
      AddObject_frame light_pos_def eval_nat_numeral)

lemma compose_scene_lights:
  "classroomLightPositions_worldspace (compose_scene_value e) =
     (classroomLightPositions_worldspace e)
       [0 := light_pos 0 0, 1 := light_pos 0 1, 2 := light_pos 0 2,
        3 := light_pos 1 0, 4 := light_pos 1 1, 5 := light_pos 1 2,
        6 := light_pos 2 0, 7 := light_pos 2 1, 8 := light_pos 2 2]"
proof -
  have "compose_scene_value e = place_lights_value (place_windows_and_glass_value (place_details_value (place_ceiling_grid_value
          (place_static_geometry_value (place_fans_value (place_benches_value e))))))"
    by (simp add: compose_scene_value_def Let_def)
  moreover have "classroomLightPositions_worldspace (place_windows_and_glass_value (place_details_value
          (place_ceiling_grid_value (place_static_geometry_value (place_fans_value (place_benches_value e))))))
        = classroomLightPositions_worldspace e"
    by (simp add: compose_defs frame_rules)
  ultimately show ?thesis
    by (simp only: place_lights_lights)
qed

text \<open>The loading steps replace the meshes and leave the lights alone.\<close>

lemma LoadScene_split:
  "LoadScene_value assets st =
     (compose_scene_value (populate_render_buckets (fst (load_meshes assets st))),
      snd (load_meshes assets st))"
  by (simp add: LoadScene_value_def Let_def load_meshes_def split_def)

lemma assign_mesh_lights:
  "classroomLightPositions_worldspace (fst (assign_mesh r load st))
     = classroomLightPositions_worldspace (fst st)"
  by (cases st) (simp add: assign_mesh_def split_def Let_def)

lemma load_meshes_lights:
  "classroomLightPositions_worldspace (fst (load_meshes assets st))
     = classroomLightPositions_worldspace (fst st)"
  by (simp add: load_meshes_def load_opaque_meshes_def load_transparent_meshes_def
      load_normal_mapped_meshes_def Let_def assign_mesh_lights)

lemmas load_defs = load_meshes_def load_opaque_meshes_def load_transparent_meshes_def
  load_normal_mapped_meshes_def assign_mesh_def LoadStandardMesh_def LoadNormalMapMesh_def
  loadTexture_def glGenTextures_def glGenBuffers_def Mesh_default_def Let_def split_def

lemma LoadScene_buckets:
  "opaqueMeshes (fst (LoadScene_value assets st)) =
     [Bench, Door, SwitchObj, Exhaust, Clock, Pipe, Projector,
      Screen, FloorMesh, Fan, Greenboard, Podium, Table, WindowMesh, WallFan]"
  "normalMapMeshes (fst (LoadScene_value assets st)) = [Wall, Ceiling, Grid]"
  "transparentMeshes (fst (LoadScene_value assets st)) = [Glass]"
  by (simp_all add: LoadScene_split compose_scene_buckets populate_render_buckets_def)

lemma LoadScene_static:
  "static_part (meshes (fst (LoadScene_value assets st)) r)
     = static_part (meshes (fst (load_meshes assets st)) r)"
  by (simp add: LoadScene_split compose_scene_static) (simp add: populate_render_buckets_def)

lemma LoadScene_lights:
  assumes "length (classroomLightPositions_worldspace e) = NUM_LIGHTS"
  shows "classroomLightPositions_worldspace (fst (LoadScene_value assets (e, g))) =
           [light_pos 0 0, light_pos 0 1, light_pos 0 2,
            light_pos 1 0, light_pos 1 1, light_pos 1 2,
            light_pos 2 0, light_pos 2 1, light_pos 2 2]"
proof -
  have same: "classroomLightPositions_worldspace
                (populate_render_buckets (fst (load_meshes assets (e, g))))
              = classroomLightPositions_worldspace e"
    by (simp add: populate_render_buckets_def load_meshes_lights)
  from assms have len: "length (classroomLightPositions_worldspace e) = 9"
    by (simp add: NUM_LIGHTS_def)
  show ?thesis
    by (simp only: LoadScene_split fst_conv compose_scene_lights same list_of_nine [OF len])
qed

section \<open>Instance grids\<close>

lemma fold_AddObject_instances:
  "modelMatrices (meshes (fold (\<lambda>c. AddObject_value r (pos c) rotDeg rotAxis scl) cs e) r)
     = modelMatrices (meshes e r) @ map (\<lambda>c. AddObject_model_value (pos c) rotDeg rotAxis scl) cs"
  by (induction cs arbitrary: e) (simp_all add: AddObject_value_def addInstance_def)

lemma for_grid_AddObject_instances:
  "modelMatrices (meshes (for_grid n m skip (\<lambda>i j. AddObject_value r (pos i j) rotDeg rotAxis scl) e) r)
     = modelMatrices (meshes e r) @
       map (\<lambda>(i, j). AddObject_model_value (pos i j) rotDeg rotAxis scl)
           (filter (\<lambda>(i, j). \<not> skip i j) (grid_cells n m))"
proof -
  have "for_grid n m skip (\<lambda>i j. AddObject_value r (pos i j) rotDeg rotAxis scl) e
          = fold (\<lambda>c s. if skip (fst c) (snd c) then s
                         else AddObject_value r (pos (fst c) (snd c)) rotDeg rotAxis scl s)
                 (grid_cells n m) e"
    by (simp add: for_grid_as_fold split_def)
  also have "\<dots> = fold (\<lambda>c. AddObject_value r (pos (fst c) (snd c)) rotDeg rotAxis scl)
                      (filter (\<lambda>c. \<not> skip (fst c) (snd c)) (grid_cells n m)) e"
    by (rule fold_skipping)
  finally show ?thesis
    by (simp add: fold_AddObject_instances [where pos = "\<lambda>c. pos (fst c) (snd c)"] split_def)
qed

lemma bench_cells:
  "filter (\<lambda>(i, j). \<not> bench_skip i j) (grid_cells 5 5) =
     [(0, 0), (0, 1), (0, 2),
      (1, 0), (1, 1), (1, 2), (1, 3), (1, 4),
      (2, 0), (2, 1), (2, 2), (2, 3), (2, 4),
      (3, 0), (3, 1), (3, 2), (3, 3), (3, 4),
      (4, 0), (4, 1), (4, 2), (4, 3), (4, 4)]"
  "filter (\<lambda>(i, j). bench_skip i j) (grid_cells 5 5) = [(0, 3), (0, 4)]"
  by (simp_all add: grid_cells_def upt_5 bench_skip_def)

lemma loaded_grid_instances:
  "modelMatrices (meshes (fst (load_meshes assets st)) Bench) = []"
  "modelMatrices (meshes (fst (load_meshes assets st)) Fan) = []"
  "modelMatrices (meshes (fst (load_meshes assets st)) LightPanel) = []"
  by (cases st; simp add: load_defs)+

lemma loaded_Bench_instances:
  "modelMatrices (meshes (fst (load_meshes assets st)) Bench) = []"
  by (rule loaded_grid_instances)

lemma LoadScene_Bench_instances:
  "modelMatrices (meshes (fst (LoadScene_value assets st)) Bench) =
     map (\<lambda>(i, j). AddObject_model_value (bench_pos i j) 90 (Vec3 0 1 0) (Vec3 1 1 1))
         (filter (\<lambda>(i, j). \<not> bench_skip i j) (grid_cells 5 5))"
proof -
  have "modelMatrices (meshes (populate_render_buckets (fst (load_meshes assets st))) Bench) = []"
    by (simp add: populate_render_buckets_def loaded_Bench_instances)
  then show ?thesis
    by (simp add: LoadScene_split compose_scene_Bench place_benches_value_def
        for_grid_AddObject_instances)
qed

lemma compose_scene_Fan:
  "meshes (compose_scene_value e) Fan = meshes (place_fans_value (place_benches_value e)) Fan"
  by (simp add: compose_defs frame_rules)

lemma place_benches_Fan: "meshes (place_benches_value e) Fan = meshes e Fan"
  by (simp add: place_benches_value_def frame_rules)

lemma LoadScene_Fan_instances:
  "modelMatrices (meshes (fst (LoadScene_value assets st)) Fan) =
     map (\<lambda>(i, j). AddObject_model_value (fan_pos i j) 0 (Vec3 0 1 0) (Vec3 1 1 1)) (grid_cells 2 3)"
proof -
  have "modelMatrices (meshes (populate_render_buckets (fst (load_meshes assets st))) Fan) = []"
    by (simp add: populate_render_buckets_def loaded_grid_instances)
  then show ?thesis
    by (simp add: LoadScene_split compose_scene_Fan place_fans_value_def
        for_grid_AddObject_instances place_benches_Fan)
qed

text \<open>The light panels: each cell of the light grid adds one, below its light.\<close>

lemma fold_place_light_panels:
  "modelMatrices (meshes (snd (fold (\<lambda>c. place_light_value (fst c) (snd c)) cs st)) LightPanel)
     = modelMatrices (meshes (snd st) LightPanel) @
       map (\<lambda>c. AddObject_model_value (Vec3 (light_cx (fst c)) (f32 37.675) (light_cz (snd c))) 0
                  (Vec3 0 1 0) (Vec3 (f32 6.44) (f32 0.2) (f32 6.44))) cs"
  by (induction cs arbitrary: st)
     (simp_all add: place_light_value_def Let_def split_def AddObject_value_def addInstance_def)

lemma place_lights_panels:
  "modelMatrices (meshes (place_lights_value e) LightPanel)
     = modelMatrices (meshes e LightPanel) @
       map (\<lambda>(i, j). AddObject_model_value (Vec3 (light_cx i) (f32 37.675) (light_cz j)) 0
                  (Vec3 0 1 0) (Vec3 (f32 6.44) (f32 0.2) (f32 6.44))) (grid_cells 3 3)"
proof -
  have "for_grid 3 3 (\<lambda>i j. False) place_light_value (0, e)
          = fold (\<lambda>c. place_light_value (fst c) (snd c)) (grid_cells 3 3) (0, e)"
    by (simp add: for_grid_as_fold split_def)
  then show ?thesis
    by (simp add: place_lights_value_def fold_place_light_panels split_def)
qed

lemma compose_scene_LightPanel:
  "modelMatrices (meshes (compose_scene_value e) LightPanel)
     = modelMatrices (meshes e LightPanel) @
       map (\<lambda>(i, j). AddObject_model_value (Vec3 (light_cx i) (f32 37.675) (light_cz j)) 0
                  (Vec3 0 1 0) (Vec3 (f32 6.44) (f32 0.2) (f32 6.44))) (grid_cells 3 3)"
proof -
  have "compose_scene_value e = place_lights_value (place_windows_and_glass_value (place_details_value
          (place_ceiling_grid_value (place_static_geometry_value (place_fans_value (place_benches_value e))))))"
    by (simp add: compose_scene_value_def Let_def)
  moreover have "meshes (place_windows_and_glass_value (place_details_value
          (place_ceiling_grid_value (place_static_geometry_value (place_fans_value (place_benches_value e))))))
          LightPanel = meshes e LightPanel"
    by (simp add: compose_defs frame_rules)
  ultimately show ?thesis
    by (simp only: place_lights_panels)
qed

lemma LoadScene_LightPanel_instances:
  "modelMatrices (meshes (fst (LoadScene_value assets st)) LightPanel) =
     map (\<lambda>(i, j). AddObject_model_value (Vec3 (light_cx i) (f32 37.675) (light_cz j)) 0
                (Vec3 0 1 0) (Vec3 (f32 6.44) (f32 0.2) (f32 6.44))) (grid_cells 3 3)"
proof -
  have "modelMatrices (meshes (populate_render_buckets (fst (load_meshes assets st))) LightPanel) = []"
    by (simp add: populate_render_buckets_def loaded_grid_instances)
  then show ?thesis
    by (simp only: LoadScene_split fst_conv compose_scene_LightPanel append_Nil)
qed

text \<open>The nested loops of \<^verbatim>\<open>LoadScene\<close>, where a step may fail.\<close>

lemma fold_bind_None: "fold (\<lambda>c q. Option.bind q (F c)) cs None = None"
  by (induction cs) simp_all

lemma bind_for_loop_opt:
  "Option.bind q (for_loop_opt m b) = fold (\<lambda>j q. Option.bind q (b j)) [0..<m] q"
  by (cases q) (simp_all add: for_loop_opt_def fold_bind_None)

lemma for_grid_opt_as_fold:
  "for_grid_opt n m skip body s =
     fold (\<lambda>(i, j) q. Option.bind q (\<lambda>s. if skip i j then Some s else body i j s))
          (grid_cells n m) (Some s)"
proof -
  have "for_grid_opt n m skip body s
          = fold (\<lambda>i q. Option.bind q
                    (for_loop_opt m (\<lambda>j s. if skip i j then Some s else body i j s)))
                 [0..<n] (Some s)"
    by (simp add: for_grid_opt_def for_loop_opt_def)
  also have "\<dots> = fold (\<lambda>i q. fold (\<lambda>j q. Option.bind q
                              (\<lambda>s. if skip i j then Some s else body i j s)) [0..<m] q)
                      [0..<n] (Some s)"
    by (simp only: bind_for_loop_opt)
  also have "\<dots> = fold (\<lambda>(i, j) q. Option.bind q (\<lambda>s. if skip i j then Some s else body i j s))
                      (grid_cells n m) (Some s)"
    by (simp add: grid_cells_def fold_over_concat fold_map comp_def)
  finally show ?thesis .
qed

lemma fold_AddObject_opt:
  "map_option (\<lambda>e'. modelMatrices (meshes e' r))
       (fold (\<lambda>c q. Option.bind q
                (\<lambda>s. if P c then Some s else AddObject r (pos c) rotDeg rotAxis scl s))
             cs (Some e))
     = map_option (\<lambda>ms. modelMatrices (meshes e r) @ ms)
         (those (map (\<lambda>c. AddObject_model (pos c) rotDeg rotAxis scl) (filter (\<lambda>c. \<not> P c) cs)))"
proof (induction cs arbitrary: e)
  case Nil
  show ?case by simp
next
  case (Cons c cs)
  show ?case
  proof (cases "P c")
    case True
    then show ?thesis
      using Cons.IH [of e] by simp
  next
    case False
    show ?thesis
    proof (cases "AddObject_model (pos c) rotDeg rotAxis scl")
      case None
      then show ?thesis
        using False by (simp add: AddObject_def fold_bind_None)
    next
      case (Some m)
      have old: "modelMatrices (meshes (addInstance_of r m e) r) = modelMatrices (meshes e r) @ [m]"
        by (simp add: addInstance_of_def addInstance_def)
      show ?thesis
        using False Some Cons.IH [of "addInstance_of r m e"]
        by (simp add: AddObject_def old option.map_comp comp_def)
    qed
  qed
qed

lemma for_grid_opt_AddObject_instances:
  "map_option (\<lambda>e'. modelMatrices (meshes e' r))
       (for_grid_opt n m skip (\<lambda>i j. AddObject r (pos i j) rotDeg rotAxis scl) e)
     = map_option (\<lambda>ms. modelMatrices (meshes e r) @ ms)
         (those (map (\<lambda>(i, j). AddObject_model (pos i j) rotDeg rotAxis scl)
                   (filter (\<lambda>(i, j). \<not> skip i j) (grid_cells n m))))"
  using fold_AddObject_opt [of r "\<lambda>c. skip (fst c) (snd c)" "\<lambda>c. pos (fst c) (snd c)"
      rotDeg rotAxis scl "grid_cells n m" e]
  by (simp add: for_grid_opt_as_fold split_def)

lemma LoadScene_grid_Bench:
  "map_option (\<lambda>(e', g'). map Some (modelMatrices (meshes e' Bench))) (LoadScene assets st)
     = Some (map (\<lambda>(i, j). AddObject_model (bench_pos i j) 90 (Vec3 0 1 0) (Vec3 1 1 1))
               (filter (\<lambda>(i, j). \<not> bench_skip i j) (grid_cells 5 5)))"
  by (simp add: LoadScene_Some split_def LoadScene_Bench_instances AddObject_model_Some comp_def)

lemma LoadScene_grid_Fan:
  "map_option (\<lambda>(e', g'). map Some (modelMatrices (meshes e' Fan))) (LoadScene assets st)
     = Some (map (\<lambda>(i, j). AddObject_model (fan_pos i j) 0 (Vec3 0 1 0) (Vec3 1 1 1))
               (grid_cells 2 3))"
  by (simp add: LoadScene_Some split_def LoadScene_Fan_instances AddObject_model_Some comp_def)

lemma LoadScene_grid_LightPanel:
  "map_option (\<lambda>(e', g'). map Some (modelMatrices (meshes e' LightPanel))) (LoadScene assets st)
     = Some (map (\<lambda>(i, j). AddObject_model (Vec3 (light_cx i) (f32 37.675) (light_cz j)) 0
                     (Vec3 0 1 0) (Vec3 (f32 6.44) (f32 0.2) (f32 6.44)))
               (grid_cells 3 3))"
  by (simp add: LoadScene_Some split_def LoadScene_LightPanel_instances AddObject_model_Some
      comp_def)

lemma LoadScene_grid_counts:
  "map_option (\<lambda>(e', g'). length (modelMatrices (meshes e' Bench))) (LoadScene assets st) = Some 23"
  "map_option (\<lambda>(e', g'). length (modelMatrices (meshes e' Fan))) (LoadScene assets st) = Some 6"
  "map_option (\<lambda>(e', g'). length (modelMatrices (meshes e' LightPanel))) (LoadScene assets st)
     = Some 9"
proof -
  have "length (modelMatrices (meshes (fst (LoadScene_value assets st)) Bench)) = 23"
    by (simp only: LoadScene_Bench_instances bench_cells length_map) simp
  then show "map_option (\<lambda>(e', g'). length (modelMatrices (meshes e' Bench))) (LoadScene assets st)
               = Some 23"
    by (simp add: LoadScene_Some split_def)
  show "map_option (\<lambda>(e', g'). length (modelMatrices (meshes e' Fan))) (LoadScene assets st)
          = Some 6"
    by (simp add: LoadScene_Some split_def LoadScene_Fan_instances length_grid_cells)
  show "map_option (\<lambda>(e', g'). length (modelMatrices (meshes e' LightPanel))) (LoadScene assets st)
          = Some 9"
    by (simp add: LoadScene_Some split_def LoadScene_LightPanel_instances length_grid_cells)
qed

text \<open>
  Claim C6. A grid of \<open>n\<close> by \<open>m\<close> cells with the exclusion predicate \<open>skip\<close> appends one
  instance transform for each cell that is not excluded, in row-major order (outer index
  \<open>i\<close>, inner index \<open>j\<close>): their number is \<open>n * m\<close> minus the number of excluded cells. So do
  the three grids of \<^verbatim>\<open>LoadScene\<close>: the bench grid of 5 by 5 cells leaves out \<open>(0, 3)\<close> and
  \<open>(0, 4)\<close> and gives the bench exactly 23 instances, the fan grid of 2 by 3 cells gives
  the fan 6 instances, and the light grid of 3 by 3 cells gives the light panel 9
  instances.
\<close>

theorem grid_instances_row_major:
  "map_option (\<lambda>e'. modelMatrices (meshes e' r))
       (for_grid_opt n m skip (\<lambda>i j. AddObject r (pos i j) rotDeg rotAxis scl) e)
     = map_option (\<lambda>ms. modelMatrices (meshes e r) @ ms)
         (those (map (\<lambda>(i, j). AddObject_model (pos i j) rotDeg rotAxis scl)
                   (filter (\<lambda>(i, j). \<not> skip i j) (grid_cells n m)))) \<and>
   length (filter (\<lambda>(i, j). \<not> skip i j) (grid_cells n m))
     = n * m - length (filter (\<lambda>(i, j). skip i j) (grid_cells n m)) \<and>
   map_option (\<lambda>(e', g'). map Some (modelMatrices (meshes e' Bench))) (LoadScene assets (e, g))
     = Some (map (\<lambda>(i, j). AddObject_model (bench_pos i j) 90 (Vec3 0 1 0) (Vec3 1 1 1))
               (filter (\<lambda>(i, j). \<not> bench_skip i j) (grid_cells 5 5))) \<and>
   filter (\<lambda>(i, j). bench_skip i j) (grid_cells 5 5) = [(0, 3), (0, 4)] \<and>
   map_option (\<lambda>(e', g'). length (modelMatrices (meshes e' Bench))) (LoadScene assets (e, g))
     = Some 23 \<and>
   map_option (\<lambda>(e', g'). map Some (modelMatrices (meshes e' Fan))) (LoadScene assets (e, g))
     = Some (map (\<lambda>(i, j). AddObject_model (fan_pos i j) 0 (Vec3 0 1 0) (Vec3 1 1 1))
               (grid_cells 2 3)) \<and>
   map_option (\<lambda>(e', g'). length (modelMatrices (meshes e' Fan))) (LoadScene assets (e, g))
     = Some 6 \<and>
   map_option (\<lambda>(e', g'). map Some (modelMatrices (meshes e' LightPanel))) (LoadScene assets (e, g))
     = Some (map (\<lambda>(i, j). AddObject_model (Vec3 (light_cx i) (f32 37.675) (light_cz j)) 0
                     (Vec3 0 1 0) (Vec3 (f32 6.44) (f32 0.2) (f32 6.44)))
               (grid_cells 3 3)) \<and>
   map_option (\<lambda>(e', g'). length (modelMatrices (meshes e' LightPanel))) (LoadScene assets (e, g))
     = Some 9"
proof -
  have count: "length (filter (\<lambda>(i, j). \<not> skip i j) (grid_cells n m))
                 = n * m - length (filter (\<lambda>(i, j). skip i j) (grid_cells n m))"
    using length_filter_complement [of "\<lambda>(i, j). skip i j" "grid_cells n m"]
    by (simp add: length_grid_cells split_def)
  show ?thesis
    by (intro conjI for_grid_opt_AddObject_instances count LoadScene_grid_Bench bench_cells(2)
        LoadScene_grid_counts LoadScene_grid_Fan LoadScene_grid_LightPanel)
qed

section \<open>The lights\<close>

lemma light_cells:
  "map (\<lambda>(i, j). light_pos i j) (grid_cells 3 3) =
     [light_pos 0 0, light_pos 0 1, light_pos 0 2,
      light_pos 1 0, light_pos 1 1, light_pos 1 2,
      light_pos 2 0, light_pos 2 1, light_pos 2 2]"
  by (simp add: grid_cells_def upt_3)

text \<open>The single-precision numbers of the light grid.\<close>

lemmas f32_eval = f32_def f32_exponent_def round_half_even_def Let_def eval_nat_numeral

lemma light_cx_values:
  "light_cx 0 = - (2954363 / 131072)"
  "light_cx 1 = 1688207 / 524288"
  "light_cx 2 = 7596933 / 262144"
  by (simp_all add: light_cx_def f32_eval)

lemma light_cz_values:
  "light_cz 0 = - (13505659 / 524288)"
  "light_cz 1 = 0"
  "light_cz 2 = 13505659 / 524288"
  by (simp_all add: light_cz_def f32_eval)

lemma light_one: "light_cx (Suc 0) = 1688207 / 524288" "light_cz (Suc 0) = 0"
  using light_cx_values(2) light_cz_values(2) by simp_all

lemma light_height: "f32 38.6 = 5059379 / 131072"
  by (simp add: f32_eval)

lemma f32_3_22: "f32 3.22 = 13505659 / 4194304"
  by (simp add: f32_eval)

lemma light_pos_1_1: "light_pos 1 1 = Vec3 (1688207 / 524288) (5059379 / 131072) 0"
  by (simp only: light_pos_def light_cx_values light_cz_values light_height)

lemma light_grid_tolerance:
  "list_all (\<lambda>(i, j). \<bar>light_cx i - (- 22.54 + real i * 25.76)\<bar> < 1 / 10 ^ 6 \<and>
                       \<bar>light_cz j - (- 25.76 + real j * 25.76)\<bar> < 1 / 10 ^ 6)
            (grid_cells 3 3)"
  by (simp add: grid_cells_def upt_3 light_cx_values light_cz_values light_one)

lemma light_height_tolerance: "\<bar>f32 38.6 - 38.6\<bar> < 2 / 10 ^ 6"
  unfolding light_height by simp

lemma LoadScene_lights_Some:
  assumes "length (classroomLightPositions_worldspace e) = NUM_LIGHTS"
  shows "map_option (\<lambda>(e', g'). classroomLightPositions_worldspace e') (LoadScene assets (e, g))
           = Some [light_pos 0 0, light_pos 0 1, light_pos 0 2,
                   light_pos 1 0, light_pos 1 1, light_pos 1 2,
                   light_pos 2 0, light_pos 2 1, light_pos 2 2]"
  by (simp add: LoadScene_Some split_def LoadScene_lights [OF assms])

lemma LoadScene_light_4:
  assumes "length (classroomLightPositions_worldspace e) = NUM_LIGHTS"
  shows "map_option (\<lambda>(e', g'). classroomLightPositions_worldspace e' ! 4) (LoadScene assets (e, g))
           = Some (Vec3 (1688207 / 524288) (5059379 / 131072) 0)"
proof -
  have "map_option (\<lambda>(e', g'). classroomLightPositions_worldspace e' ! 4) (LoadScene assets (e, g))
          = Some (light_pos 1 1)"
    by (simp add: LoadScene_Some split_def LoadScene_lights [OF assms])
  then show ?thesis
    by (simp only: light_pos_1_1)
qed

text \<open>
  Claim C7. Scene composition places exactly 9 light positions on a 3 by 3 grid, in
  row-major order, computed in single precision: the cell \<open>(i, j)\<close> is at
  \<open>(fl(- fl(22.54) + fl(i * fl(25.76))), fl(38.6), fl(- fl(25.76) + fl(j * fl(25.76))))\<close>,
  where \<open>fl\<close> rounds to single precision; this is within 0.000001 in \<open>x\<close> and \<open>z\<close>, and within
  0.000002 in height, of the grid with spacing 25.76, base offset \<open>(-22.54, 38.6, -25.76)\<close>
  and constant height 38.6. Light 4, the cell \<open>i = 1\<close>, \<open>j = 1\<close>, is at
  \<open>(1688207 / 524288, 5059379 / 131072, 0)\<close>, which is \<open>(3.2199993133544921875,
  38.599998474121094, 0)\<close>, within these bounds of \<open>(3.22, 38.6, 0.0)\<close>.
\<close>

theorem LoadScene_light_positions:
  "(length (classroomLightPositions_worldspace e) = NUM_LIGHTS \<longrightarrow>
      map_option (\<lambda>(e', g'). classroomLightPositions_worldspace e') (LoadScene assets (e, g))
        = Some (map (\<lambda>(i, j). Vec3 (light_cx i) (f32 38.6) (light_cz j)) (grid_cells 3 3)) \<and>
      map_option (\<lambda>(e', g'). length (classroomLightPositions_worldspace e'))
          (LoadScene assets (e, g)) = Some 9 \<and>
      map_option (\<lambda>(e', g'). classroomLightPositions_worldspace e' ! 4) (LoadScene assets (e, g))
        = Some (Vec3 (1688207 / 524288) (5059379 / 131072) 0)) \<and>
   list_all (\<lambda>(i, j). \<bar>light_cx i - (- 22.54 + real i * 25.76)\<bar> < 1 / 10 ^ 6 \<and>
                        \<bar>light_cz j - (- 25.76 + real j * 25.76)\<bar> < 1 / 10 ^ 6)
            (grid_cells 3 3) \<and>
   \<bar>f32 38.6 - 38.6\<bar> < 2 / 10 ^ 6 \<and>
   \<bar>light_cx 1 - 3.22\<bar> < 1 / 10 ^ 6 \<and> light_cz 1 = 0"
proof -
  have formula: "(\<lambda>(i, j). Vec3 (light_cx i) (f32 38.6) (light_cz j)) = (\<lambda>(i, j). light_pos i j)"
    by (simp only: light_pos_def)
  have placed: "map_option (\<lambda>(e', g'). classroomLightPositions_worldspace e') (LoadScene assets (e, g))
        = Some (map (\<lambda>(i, j). Vec3 (light_cx i) (f32 38.6) (light_cz j)) (grid_cells 3 3)) \<and>
      map_option (\<lambda>(e', g'). length (classroomLightPositions_worldspace e'))
          (LoadScene assets (e, g)) = Some 9 \<and>
      map_option (\<lambda>(e', g'). classroomLightPositions_worldspace e' ! 4) (LoadScene assets (e, g))
        = Some (Vec3 (1688207 / 524288) (5059379 / 131072) 0)"
    if len: "length (classroomLightPositions_worldspace e) = NUM_LIGHTS"
  proof -
    have grid: "map_option (\<lambda>(e', g'). classroomLightPositions_worldspace e') (LoadScene assets (e, g))
                  = Some (map (\<lambda>(i, j). Vec3 (light_cx i) (f32 38.6) (light_cz j)) (grid_cells 3 3))"
      by (simp only: formula light_cells LoadScene_lights_Some [OF len])
    have count: "map_option (\<lambda>(e', g'). length (classroomLightPositions_worldspace e'))
                     (LoadScene assets (e, g)) = Some 9"
      by (simp add: LoadScene_Some split_def LoadScene_lights [OF len])
    from grid count LoadScene_light_4 [OF len] show ?thesis
      by (intro conjI)
  qed
  have near: "\<bar>light_cx 1 - 3.22\<bar> < 1 / 10 ^ 6" "light_cz 1 = 0"
    unfolding light_cx_values light_cz_values by simp_all
  from placed light_grid_tolerance light_height_tolerance near show ?thesis
    by blast
qed

theorem LoadScene_light_positions_witness:
  "length (classroomLightPositions_worldspace (ClassroomSimulator_new (\<lambda>i. Vec3 0 0 0))) = NUM_LIGHTS \<and>
   map_option (\<lambda>(e', g'). length (classroomLightPositions_worldspace e'))
       (LoadScene cube_assets (ClassroomSimulator_new (\<lambda>i. Vec3 0 0 0), gl_initial)) = Some 9 \<and>
   map_option (\<lambda>(e', g'). classroomLightPositions_worldspace e' ! 4)
       (LoadScene cube_assets (ClassroomSimulator_new (\<lambda>i. Vec3 0 0 0), gl_initial))
     = Some (Vec3 (1688207 / 524288) (5059379 / 131072) 0)"
proof -
  have h: "length (classroomLightPositions_worldspace (ClassroomSimulator_new (\<lambda>i. Vec3 0 0 0)))
             = NUM_LIGHTS"
    by (simp add: ClassroomSimulator_new_def)
  from h LoadScene_light_positions [of "ClassroomSimulator_new (\<lambda>i. Vec3 0 0 0)" cube_assets
      gl_initial]
  show ?thesis
    by blast
qed

text \<open>
  Light 4 of a loaded scene is not at \<open>(3.22, 38.6, 0.0)\<close>, and not at the single-precision
  numbers nearest to them either: its \<open>x\<close> is three units in the last place below the one
  nearest to 3.22.
\<close>

theorem light_4_counterexample:
  "map_option (\<lambda>(e', g'). classroomLightPositions_worldspace e' ! 4)
       (LoadScene cube_assets (ClassroomSimulator_new (\<lambda>i. Vec3 0 0 0), gl_initial))
     = Some (Vec3 (1688207 / 524288) (5059379 / 131072) 0) \<and>
   map_option (\<lambda>(e', g'). classroomLightPositions_worldspace e' ! 4)
       (LoadScene cube_assets (ClassroomSimulator_new (\<lambda>i. Vec3 0 0 0), gl_initial))
     \<noteq> Some (Vec3 3.22 38.6 0.0) \<and>
   map_option (\<lambda>(e', g'). classroomLightPositions_worldspace e' ! 4)
       (LoadScene cube_assets (ClassroomSimulator_new (\<lambda>i. Vec3 0 0 0), gl_initial))
     \<noteq> Some (Vec3 (f32 3.22) (f32 38.6) (f32 0.0)) \<and>
   f32 3.22 = 13505659 / 4194304 \<and>
   f32 3.22 - 1688207 / 524288 = 3 / 2 ^ 22"
proof -
  have h: "length (classroomLightPositions_worldspace (ClassroomSimulator_new (\<lambda>i. Vec3 0 0 0)))
             = NUM_LIGHTS"
    by (simp add: ClassroomSimulator_new_def)
  note four = LoadScene_light_4 [OF h, of cube_assets gl_initial]
  have "Vec3 (1688207 / 524288) (5059379 / 131072) 0 \<noteq> Vec3 3.22 38.6 0.0"
    by simp
  moreover have "Vec3 (1688207 / 524288) (5059379 / 131072) 0
                   \<noteq> Vec3 (f32 3.22) (f32 38.6) (f32 0.0)"
    unfolding f32_3_22 by simp
  moreover have "f32 3.22 - 1688207 / 524288 = 3 / 2 ^ 22"
    unfolding f32_3_22 by simp
  ultimately show ?thesis
    unfolding four by (simp add: f32_3_22)
qed

section \<open>Render buckets\<close>








section \<open>Releasing the scene\<close>

lemmas handle_rules =
  for_loop_unchanged [where obs = FramebufferName] for_grid_unchanged [where obs = FramebufferName]
  for_loop_unchanged [where obs = depthTextureArray] for_grid_unchanged [where obs = depthTextureArray]
  for_loop_unchanged [where obs = VertexArrayID] for_grid_unchanged [where obs = VertexArrayID]
  for_loop_unchanged [where obs = programID] for_grid_unchanged [where obs = programID]
  for_loop_unchanged [where obs = depthProgramID] for_grid_unchanged [where obs = depthProgramID]
  for_grid_unchanged [where obs = "\<lambda>st. FramebufferName (snd st)"]
  for_grid_unchanged [where obs = "\<lambda>st. depthTextureArray (snd st)"]
  for_grid_unchanged [where obs = "\<lambda>st. VertexArrayID (snd st)"]
  for_grid_unchanged [where obs = "\<lambda>st. programID (snd st)"]
  for_grid_unchanged [where obs = "\<lambda>st. depthProgramID (snd st)"]

lemma compose_scene_handles:
  "FramebufferName (compose_scene_value e) = FramebufferName e"
  "depthTextureArray (compose_scene_value e) = depthTextureArray e"
  "VertexArrayID (compose_scene_value e) = VertexArrayID e"
  "programID (compose_scene_value e) = programID e"
  "depthProgramID (compose_scene_value e) = depthProgramID e"
  by (simp_all add: compose_defs frame_rules handle_rules)

lemma load_meshes_handles:
  "FramebufferName (fst (load_meshes assets st)) = FramebufferName (fst st)"
  "depthTextureArray (fst (load_meshes assets st)) = depthTextureArray (fst st)"
  "VertexArrayID (fst (load_meshes assets st)) = VertexArrayID (fst st)"
  "programID (fst (load_meshes assets st)) = programID (fst st)"
  "depthProgramID (fst (load_meshes assets st)) = depthProgramID (fst st)"
  by (simp_all add: load_defs)

lemma LoadScene_handles:
  "FramebufferName (fst (LoadScene_value assets st)) = FramebufferName (fst st)"
  "depthTextureArray (fst (LoadScene_value assets st)) = depthTextureArray (fst st)"
  "VertexArrayID (fst (LoadScene_value assets st)) = VertexArrayID (fst st)"
  "programID (fst (LoadScene_value assets st)) = programID (fst st)"
  "depthProgramID (fst (LoadScene_value assets st)) = depthProgramID (fst st)"
  by (simp_all add: LoadScene_split compose_scene_handles populate_render_buckets_def
      load_meshes_handles)

lemma LoadScene_Dispose_calls:
  "Dispose_calls (meshes (fst (LoadScene_value assets st)) r)
     = Dispose_calls (meshes (fst (load_meshes assets st)) r)"
  using LoadScene_static [of assets st r] by (metis Dispose_calls_static)

lemma fold_Dispose_trace:
  "gl_trace (fold (\<lambda>m. Dispose (meshes e m)) ms g)
     = gl_trace g @ concat (map (\<lambda>m. Dispose_calls (meshes e m)) ms)"
  by (induction ms arbitrary: g) (simp_all add: Dispose_trace)

lemma Cleanup_trace: "gl_trace (Cleanup e g) = gl_trace g @ Cleanup_calls e"
  by (simp add: Cleanup_def Cleanup_calls_def Let_def gl_emit_def glDeleteTextures_def
      fold_Dispose_trace Dispose_trace)

lemma fold_Dispose_objects:
  "gl_buffers (fold (\<lambda>m. Dispose (meshes e m)) ms g)
     = gl_buffers g - (\<Union>m\<in>set ms. owned_buffers (meshes e m))"
  "gl_textures (fold (\<lambda>m. Dispose (meshes e m)) ms g)
     = gl_textures g - (\<Union>m\<in>set ms. owned_textures (meshes e m))"
  by (induction ms arbitrary: g; auto simp add: Dispose_buffers Dispose_textures)+

lemma gl_emit_objects:
  "gl_buffers (gl_emit c g) = gl_buffers g" "gl_textures (gl_emit c g) = gl_textures g"
  by (simp_all add: gl_emit_def gl_buffers_def gl_textures_def glIsBuffer_def glIsTexture_def)

lemma Cleanup_objects:
  "gl_buffers (Cleanup e g)
     = gl_buffers g - (\<Union>m\<in>set (opaqueMeshes e @ normalMapMeshes e @ transparentMeshes e
                                  @ [LightPanel]). owned_buffers (meshes e m))"
  "gl_textures (Cleanup e g)
     = gl_textures g - (\<Union>m\<in>set (opaqueMeshes e @ normalMapMeshes e @ transparentMeshes e
                                   @ [LightPanel]). owned_textures (meshes e m))
       - {depthTextureArray e}"
proof -
  let ?ms = "opaqueMeshes e @ normalMapMeshes e @ transparentMeshes e @ [LightPanel]"
  define g1 where "g1 = fold (\<lambda>m. Dispose (meshes e m)) ?ms g"
  define g2 where "g2 = (if FramebufferName e \<noteq> 0
               then gl_emit (DeleteFramebuffers (FramebufferName e)) g1 else g1)"
  define g3 where "g3 = (if depthTextureArray e \<noteq> 0
               then glDeleteTextures (depthTextureArray e) g2 else g2)"
  define g4 where "g4 = (if VertexArrayID e \<noteq> 0
               then gl_emit (DeleteVertexArrays (VertexArrayID e)) g3 else g3)"
  define g5 where "g5 = (if programID e \<noteq> 0
               then gl_emit (DeleteProgram (programID e)) g4 else g4)"
  define g6 where "g6 = (if depthProgramID e \<noteq> 0
               then gl_emit (DeleteProgram (depthProgramID e)) g5 else g5)"
  have c: "Cleanup e g = g6"
    unfolding Cleanup_def Let_def g6_def g5_def g4_def g3_def g2_def g1_def ..
  have b3: "gl_buffers g3 = gl_buffers g1" and t2: "gl_textures g2 = gl_textures g1"
    by (simp_all add: g3_def g2_def gl_emit_objects glDelete_objects)
  have t3: "gl_textures g3 = gl_textures g1 - {depthTextureArray e}"
    using no_object_named_0(2) [of g2] by (auto simp add: g3_def glDelete_objects t2)
  have "gl_buffers g6 = gl_buffers g3" "gl_textures g6 = gl_textures g3"
    by (simp_all add: g6_def g5_def g4_def gl_emit_objects)
  then show "gl_buffers (Cleanup e g) = gl_buffers g - (\<Union>m\<in>set ?ms. owned_buffers (meshes e m))"
    and "gl_textures (Cleanup e g)
           = gl_textures g - (\<Union>m\<in>set ?ms. owned_textures (meshes e m)) - {depthTextureArray e}"
    by (simp_all only: c b3 t3 g1_def fold_Dispose_objects)
qed

lemma loaded_Bench_releases:
  "Dispose_calls (meshes (fst (load_meshes assets (e, gl_ready))) Bench)
     = [DeleteBuffers 1, DeleteBuffers 2, DeleteBuffers 3, DeleteBuffers 4, DeleteTextures 2]"
  by (simp add: load_defs gl_ready_def gl_initial_def Dispose_calls_def)

lemma loaded_Bench_owned:
  "owned_buffers (meshes (fst (load_meshes assets (e, gl_ready))) Bench) = {1, 2, 3, 4}"
  "owned_textures (meshes (fst (load_meshes assets (e, gl_ready))) Bench) = {2}"
  by (simp_all add: load_defs gl_ready_def gl_initial_def owned_buffers_def owned_textures_def)

lemma loaded_objects:
  "gl_buffers (snd (load_meshes assets (e, gl_ready))) = {b. 0 < b \<and> b \<le> 84}"
  "gl_textures (snd (load_meshes assets (e, gl_ready))) = {t. 0 < t \<and> t \<le> 25}"
  by (simp_all add: load_defs gl_ready_def gl_initial_def gl_buffers_def gl_textures_def glIsBuffer_def glIsTexture_def)

lemma loaded_owned_exist:
  "list_all (\<lambda>r. owned_buffers (meshes (fst (load_meshes assets (e, gl_ready))) r)
                    \<subseteq> {b. 0 < b \<and> b \<le> 84}) scene_batches"
  "list_all (\<lambda>r. owned_textures (meshes (fst (load_meshes assets (e, gl_ready))) r)
                    \<subseteq> {t. 0 < t \<and> t \<le> 25}) scene_batches"
  by (simp_all add: scene_batches_def load_defs gl_ready_def gl_initial_def owned_buffers_def
      owned_textures_def)

lemma all_batches: "set scene_batches = UNIV"
proof -
  have "r \<in> set scene_batches" for r
    by (cases r) (simp_all add: scene_batches_def)
  then show ?thesis
    by blast
qed

lemma LoadScene_owned:
  "owned_buffers (meshes (fst (LoadScene_value assets st)) r)
     = owned_buffers (meshes (fst (load_meshes assets st)) r)"
  "owned_textures (meshes (fst (LoadScene_value assets st)) r)
     = owned_textures (meshes (fst (load_meshes assets st)) r)"
  using LoadScene_static [of assets st r] by (metis owned_static(1), metis owned_static(2))

lemma started_owned_exist:
  assumes "fst (start_up p assets (world_initial uninit w c)) = Some s"
  shows "owned_buffers (meshes (sim s) r) \<subseteq> gl_buffers (gl s)"
    and "owned_textures (meshes (sim s) r) \<subseteq> gl_textures (gl s)"
proof -
  note scene = start_up_scene [OF assms]
  have g: "gl s = snd (load_meshes assets (engine_ready uninit, gl_ready))"
    by (simp add: scene(2) LoadScene_split)
  have r: "r \<in> set scene_batches"
    by (simp add: all_batches)
  show "owned_buffers (meshes (sim s) r) \<subseteq> gl_buffers (gl s)"
    unfolding g scene(1) LoadScene_owned loaded_objects
    using loaded_owned_exist(1) [of assets "engine_ready uninit"] r
    by (simp only: list_all_iff)
  show "owned_textures (meshes (sim s) r) \<subseteq> gl_textures (gl s)"
    unfolding g scene(1) LoadScene_owned loaded_objects
    using loaded_owned_exist(2) [of assets "engine_ready uninit"] r
    by (simp only: list_all_iff)
qed

text \<open>
  Claim C5. \<^verbatim>\<open>Dispose\<close> deletes the buffer and texture objects the batch owns, and no
  other: after the call the objects that exist are those that existed less the owned
  ones. A second \<^verbatim>\<open>Dispose\<close> in sequence deletes nothing: the handles are not cleared, so it
  makes the calls of the first again, on names of objects that no longer exist, which
  OpenGL ignores. On a batch that owns nothing, \<^verbatim>\<open>Dispose\<close> deletes nothing, whatever its
  \<^verbatim>\<open>hasNormalMap\<close>, and on a batch as the constructor leaves it, it makes no call at all. In
  a run that reached the render loop every buffer and texture a batch owns exists, so
  that the \<^verbatim>\<open>Dispose\<close> of \<^verbatim>\<open>Cleanup\<close> on the batch, one for each batch, is the one call that
  deletes them.
\<close>

theorem Dispose_releases_owned_resources:
  "gl_buffers (Dispose mesh g) = gl_buffers g - owned_buffers mesh \<and>
   gl_textures (Dispose mesh g) = gl_textures g - owned_textures mesh \<and>
   gl_buffers (Dispose mesh (Dispose mesh g)) = gl_buffers (Dispose mesh g) \<and>
   gl_textures (Dispose mesh (Dispose mesh g)) = gl_textures (Dispose mesh g) \<and>
   gl_trace (Dispose mesh (Dispose mesh g)) = gl_trace g @ Dispose_calls mesh @ Dispose_calls mesh \<and>
   (owned_buffers mesh = {} \<and> owned_textures mesh = {} \<longrightarrow>
      gl_buffers (Dispose mesh g) = gl_buffers g \<and>
      gl_textures (Dispose mesh g) = gl_textures g) \<and>
   Dispose Mesh_default g = g \<and>
   (fst (start_up p assets (world_initial uninit w c)) = Some s \<longrightarrow>
      owned_buffers (meshes (sim s) r) \<subseteq> gl_buffers (gl s) \<and>
      owned_textures (meshes (sim s) r) \<subseteq> gl_textures (gl s) \<and>
      gl_buffers (Dispose (meshes (sim s) r) (gl s)) \<inter> owned_buffers (meshes (sim s) r) = {} \<and>
      gl_textures (Dispose (meshes (sim s) r) (gl s)) \<inter> owned_textures (meshes (sim s) r) = {} \<and>
      gl_trace (Cleanup (sim s) g) = gl_trace g @ Cleanup_calls (sim s) \<and>
      distinct (opaqueMeshes (sim s) @ normalMapMeshes (sim s) @ transparentMeshes (sim s)
                @ [LightPanel]) \<and>
      gl_buffers (Cleanup (sim s) g) \<inter> owned_buffers (meshes (sim s) r) = {} \<and>
      gl_textures (Cleanup (sim s) g) \<inter> owned_textures (meshes (sim s) r) = {})"
proof -
  have one: "gl_buffers (Dispose mesh g) = gl_buffers g - owned_buffers mesh"
    "gl_textures (Dispose mesh g) = gl_textures g - owned_textures mesh"
    by (rule Dispose_buffers, rule Dispose_textures)
  have two: "gl_buffers (Dispose mesh (Dispose mesh g)) = gl_buffers (Dispose mesh g)"
    "gl_textures (Dispose mesh (Dispose mesh g)) = gl_textures (Dispose mesh g)"
    by (auto simp add: Dispose_buffers Dispose_textures)
  have again: "gl_trace (Dispose mesh (Dispose mesh g))
                 = gl_trace g @ Dispose_calls mesh @ Dispose_calls mesh"
    by (simp add: Dispose_trace)
  have none: "owned_buffers mesh = {} \<and> owned_textures mesh = {} \<longrightarrow>
            gl_buffers (Dispose mesh g) = gl_buffers g \<and>
            gl_textures (Dispose mesh g) = gl_textures g"
    by (simp add: Dispose_buffers Dispose_textures)
  have noop: "Dispose Mesh_default g = g"
    by (simp add: Dispose_def Mesh_default_def)
  have run: "owned_buffers (meshes (sim s) r) \<subseteq> gl_buffers (gl s) \<and>
      owned_textures (meshes (sim s) r) \<subseteq> gl_textures (gl s) \<and>
      gl_buffers (Dispose (meshes (sim s) r) (gl s)) \<inter> owned_buffers (meshes (sim s) r) = {} \<and>
      gl_textures (Dispose (meshes (sim s) r) (gl s)) \<inter> owned_textures (meshes (sim s) r) = {} \<and>
      gl_trace (Cleanup (sim s) g) = gl_trace g @ Cleanup_calls (sim s) \<and>
      distinct (opaqueMeshes (sim s) @ normalMapMeshes (sim s) @ transparentMeshes (sim s)
                @ [LightPanel]) \<and>
      gl_buffers (Cleanup (sim s) g) \<inter> owned_buffers (meshes (sim s) r) = {} \<and>
      gl_textures (Cleanup (sim s) g) \<inter> owned_textures (meshes (sim s) r) = {}"
    if started: "fst (start_up p assets (world_initial uninit w c)) = Some s"
  proof -
    note exist = started_owned_exist [OF started, of r]
    have gone: "gl_buffers (Dispose (meshes (sim s) r) (gl s)) \<inter> owned_buffers (meshes (sim s) r) = {}"
      "gl_textures (Dispose (meshes (sim s) r) (gl s)) \<inter> owned_textures (meshes (sim s) r) = {}"
      by (auto simp add: Dispose_buffers Dispose_textures)
    have cleanup: "gl_trace (Cleanup (sim s) g) = gl_trace g @ Cleanup_calls (sim s)"
      by (rule Cleanup_trace)
    note scene = start_up_scene(1) [OF started]
    have once: "distinct (opaqueMeshes (sim s) @ normalMapMeshes (sim s) @ transparentMeshes (sim s)
                     @ [LightPanel])"
      by (simp add: scene LoadScene_buckets)
    have listed: "set (opaqueMeshes (sim s) @ normalMapMeshes (sim s) @ transparentMeshes (sim s)
                     @ [LightPanel]) = UNIV"
      unfolding all_batches [symmetric] by (simp add: scene LoadScene_buckets scene_batches_def)
    have all: "gl_buffers (Cleanup (sim s) g) \<inter> owned_buffers (meshes (sim s) r) = {}"
      "gl_textures (Cleanup (sim s) g) \<inter> owned_textures (meshes (sim s) r) = {}"
      unfolding Cleanup_objects listed by blast+
    from exist gone cleanup once all show ?thesis
      by blast
  qed
  from one two again none noop run show ?thesis
    by blast
qed

theorem Dispose_releases_owned_resources_witness:
  "fst (start_up platform_ok cube_assets world_at_launch) = Some world_started \<and>
   owned_buffers (meshes (sim world_started) Bench) = {1, 2, 3, 4} \<and>
   owned_textures (meshes (sim world_started) Bench) = {2} \<and>
   {1, 2, 3, 4} \<subseteq> gl_buffers (gl world_started) \<and>
   gl_buffers (Dispose (meshes (sim world_started) Bench) (gl world_started))
     = gl_buffers (gl world_started) - {1, 2, 3, 4} \<and>
   gl_buffers (Dispose (meshes (sim world_started) Bench)
                (Dispose (meshes (sim world_started) Bench) (gl world_started)))
     = gl_buffers (gl world_started) - {1, 2, 3, 4} \<and>
   gl_trace (Dispose (meshes (sim world_started) Bench)
              (Dispose (meshes (sim world_started) Bench) gl_initial))
     = [DeleteBuffers 1, DeleteBuffers 2, DeleteBuffers 3, DeleteBuffers 4, DeleteTextures 2,
        DeleteBuffers 1, DeleteBuffers 2, DeleteBuffers 3, DeleteBuffers 4, DeleteTextures 2] \<and>
   owned_buffers (Mesh_default\<lparr>hasNormalMap := True\<rparr>) = {} \<and>
   owned_textures (Mesh_default\<lparr>hasNormalMap := True\<rparr>) = {} \<and>
   gl_trace (Dispose (Mesh_default\<lparr>hasNormalMap := True\<rparr>) gl_initial)
     = [DeleteBuffers 0, DeleteBuffers 0, DeleteTextures 0, DeleteTextures 0] \<and>
   gl_buffers (Dispose (Mesh_default\<lparr>hasNormalMap := True\<rparr>) (gl world_started))
     = gl_buffers (gl world_started) \<and>
   gl_textures (Dispose (Mesh_default\<lparr>hasNormalMap := True\<rparr>) (gl world_started))
     = gl_textures (gl world_started)"
proof -
  have h: "fst (start_up platform_ok cube_assets
             (world_initial (\<lambda>i. Vec3 0 0 0) window_idle (controls_initial mat4_zero mat4_zero)))
           = Some world_started"
    using start_up_on_good_platform [of cube_assets world_at_launch]
    by (simp add: world_started_def world_at_launch_def)
  note t = Dispose_releases_owned_resources [where mesh = "meshes (sim world_started) Bench"
      and g = "gl world_started" and r = Bench and s = world_started and p = platform_ok
      and assets = cube_assets and uninit = "\<lambda>i. Vec3 0 0 0" and w = window_idle
      and c = "controls_initial mat4_zero mat4_zero"]
  note t0 = Dispose_releases_owned_resources [where mesh = "Mesh_default\<lparr>hasNormalMap := True\<rparr>"
      and g = "gl world_started"]
  have h': "fst (start_up platform_ok cube_assets world_at_launch) = Some world_started"
    using h by (simp only: world_at_launch_def)
  have ob: "owned_buffers (meshes (sim world_started) Bench) = {1, 2, 3, 4}"
    and ot: "owned_textures (meshes (sim world_started) Bench) = {2}"
    unfolding start_up_scene(1) [OF h] LoadScene_owned by (rule loaded_Bench_owned)+
  from t h have sub: "owned_buffers (meshes (sim world_started) Bench) \<subseteq> gl_buffers (gl world_started)"
    by blast
  from t have d1: "gl_buffers (Dispose (meshes (sim world_started) Bench) (gl world_started))
     = gl_buffers (gl world_started) - owned_buffers (meshes (sim world_started) Bench)"
    by blast
  from t have d2: "gl_buffers (Dispose (meshes (sim world_started) Bench)
                (Dispose (meshes (sim world_started) Bench) (gl world_started)))
     = gl_buffers (Dispose (meshes (sim world_started) Bench) (gl world_started))"
    by blast
  have calls: "Dispose_calls (meshes (sim world_started) Bench)
     = [DeleteBuffers 1, DeleteBuffers 2, DeleteBuffers 3, DeleteBuffers 4, DeleteTextures 2]"
    by (simp only: start_up_scene(1) [OF h] LoadScene_Dispose_calls loaded_Bench_releases)
  have tr: "gl_trace (Dispose (meshes (sim world_started) Bench)
              (Dispose (meshes (sim world_started) Bench) gl_initial))
     = [DeleteBuffers 1, DeleteBuffers 2, DeleteBuffers 3, DeleteBuffers 4, DeleteTextures 2,
        DeleteBuffers 1, DeleteBuffers 2, DeleteBuffers 3, DeleteBuffers 4, DeleteTextures 2]"
    by (simp add: Dispose_trace calls gl_initial_def)
  have e0: "owned_buffers (Mesh_default\<lparr>hasNormalMap := True\<rparr>) = {}"
           "owned_textures (Mesh_default\<lparr>hasNormalMap := True\<rparr>) = {}"
    by (simp_all add: owned_buffers_def owned_textures_def Mesh_default_def)
  have tr0: "gl_trace (Dispose (Mesh_default\<lparr>hasNormalMap := True\<rparr>) gl_initial)
     = [DeleteBuffers 0, DeleteBuffers 0, DeleteTextures 0, DeleteTextures 0]"
    by (simp add: Dispose_trace Dispose_calls_def Mesh_default_def gl_initial_def)
  from t0 e0 have same0:
    "gl_buffers (Dispose (Mesh_default\<lparr>hasNormalMap := True\<rparr>) (gl world_started))
       = gl_buffers (gl world_started)"
    "gl_textures (Dispose (Mesh_default\<lparr>hasNormalMap := True\<rparr>) (gl world_started))
       = gl_textures (gl world_started)"
    by blast+
  from h' ob ot sub [unfolded ob] d1 [unfolded ob] d2 [unfolded d1 ob] tr e0 tr0 same0
  show ?thesis
    by blast
qed

section \<open>The shading-mode key\<close>

lemma for_loop_invariant:
  assumes "\<And>i s. P s \<Longrightarrow> P (body i s)" and "P s"
  shows "P (for_loop n body s)"
  unfolding for_loop_def using assms by (rule fold_invariant)

lemma for_grid_invariant:
  assumes "\<And>i j s. P s \<Longrightarrow> P (body i j s)" and "P s"
  shows "P (for_grid n m skip body s)"
  unfolding for_grid_def
  by (rule for_loop_invariant, rule for_loop_invariant) (simp_all add: assms)

lemma shadow_light_toggle:
  "toggle_state (fst (shadow_light e i j st)) = toggle_state (fst st)"
  by (cases st) (simp add: shadow_light_def Let_def toggle_state_def)

lemma ShadowPass_toggle:
  "toggle_state (fst (ShadowPass e (l, g))) = toggle_state l"
proof -
  let ?P = "\<lambda>st. toggle_state (fst st) = toggle_state l"
  have "?P (for_grid 3 3 (\<lambda>i j. False) (shadow_light e)
              (l\<lparr>allDepthBiasMVPs := [], lightIdx := 0\<rparr>, g\<lparr>gl_program := depthProgramID e\<rparr>))"
  proof (rule for_grid_invariant)
    show "toggle_state (fst (shadow_light e i j st)) = toggle_state l"
      if "toggle_state (fst st) = toggle_state l" for i j st
      using that by (simp add: shadow_light_toggle)
    show "toggle_state (fst (l\<lparr>allDepthBiasMVPs := [], lightIdx := 0\<rparr>, g\<lparr>gl_program := depthProgramID e\<rparr>))
            = toggle_state l"
      by (simp add: toggle_state_def)
  qed
  then show ?thesis
    by (simp add: ShadowPass_def Let_def)
qed

lemma MainLoop_frame_toggle:
  "toggle_state (fst (MainLoop_frame inp (l, s))) = toggle_state (handle_input (win s) l)"
proof -
  obtain l' g' where sp: "ShadowPass (sim s) (handle_input (win s) l, gl s) = (l', g')"
    by (cases "ShadowPass (sim s) (handle_input (win s) l, gl s)")
  have "toggle_state l' = toggle_state (handle_input (win s) l)"
    using ShadowPass_toggle [of "sim s" "handle_input (win s) l" "gl s"] by (simp add: sp)
  then show ?thesis
    by (simp add: MainLoop_frame_def Let_def sp split_def)
qed

lemma MainLoop_frame_window:
  "pressed (win (snd (MainLoop_frame inp (l, s)))) = ev_pressed (events inp) \<and>
   shouldClose (win (snd (MainLoop_frame inp (l, s)))) = ev_close (events inp)"
  by (simp add: MainLoop_frame_def Let_def split_def computeMatricesFromInputs_def
      glfwPollEvents_def glfwSetCursorPos_def)

lemma MainLoop_frame_continues:
  "MainLoop_continues (snd (MainLoop_frame inp (l, s))) = no_exit inp"
  by (simp add: MainLoop_continues_def no_exit_def MainLoop_frame_window)

lemma MainLoop_frames_append:
  "list_all no_exit xs \<Longrightarrow>
   MainLoop_frames (xs @ ys) st = MainLoop_frames ys (MainLoop_frames xs st)"
proof (induction xs arbitrary: st)
  case Nil
  then show ?case by simp
next
  case (Cons x xs)
  obtain l s where st: "st = (l, s)" by (cases st)
  from Cons.prems have "no_exit x" "list_all no_exit xs" by simp_all
  then show ?case
    by (simp add: st Let_def MainLoop_frame_continues Cons.IH)
qed

lemma holds_G_no_exit: "list_all holds_G xs \<Longrightarrow> list_all no_exit xs"
  by (induction xs) (simp_all add: holds_G_def)

text \<open>While the key stays down and the flag is set, nothing of the toggle changes.\<close>

lemma held_frames_keep_toggle:
  "list_all holds_G held \<Longrightarrow> pressed (win s) KEY_G \<Longrightarrow> gKeyPressed l \<Longrightarrow>
   toggle_state (fst (MainLoop_frames held (l, s))) = toggle_state l \<and>
   pressed (win (snd (MainLoop_frames held (l, s)))) KEY_G"
proof (induction held arbitrary: l s)
  case Nil
  then show ?case by simp
next
  case (Cons x xs)
  obtain l' s' where fr: "MainLoop_frame x (l, s) = (l', s')"
    by (cases "MainLoop_frame x (l, s)")
  from Cons.prems have x: "holds_G x" and xs: "list_all holds_G xs" by simp_all
  have t: "toggle_state l' = toggle_state l"
    using MainLoop_frame_toggle [of x l s] Cons.prems(2,3)
    by (simp add: fr handle_input_def)
  have w: "pressed (win s') KEY_G" and c: "MainLoop_continues s'"
    using MainLoop_frame_window [of x l s] MainLoop_frame_continues [of x l s] x
    by (simp_all add: fr holds_G_def no_exit_def)
  from t Cons.prems(3) have g: "gKeyPressed l'"
    by (simp add: toggle_state_def)
  from Cons.IH [OF xs w g] t c show ?case
    by (simp add: fr Let_def)
qed

text \<open>The frames of one press: the first flips, the others leave the toggle alone.\<close>

lemma single_frame:
  "MainLoop_frames [x] (l, s) = MainLoop_frame x (l, s)"
  by (simp add: Let_def)

lemma held_then_one_frame:
  assumes "list_all holds_G held" and "pressed (win s) KEY_G" and "gKeyPressed l"
  shows "toggle_state (fst (MainLoop_frames (held @ [x]) (l, s))) = toggle_state l"
proof -
  obtain l' s' where st: "MainLoop_frames held (l, s) = (l', s')"
    by (cases "MainLoop_frames held (l, s)")
  from held_frames_keep_toggle [OF assms] st
  have t: "toggle_state l' = toggle_state l" and w: "pressed (win s') KEY_G"
    by simp_all
  from t assms(3) have g: "gKeyPressed l'"
    by (simp add: toggle_state_def)
  have "toggle_state (fst (MainLoop_frame x (l', s'))) = toggle_state l'"
    using w g by (simp add: MainLoop_frame_toggle handle_input_def)
  then show ?thesis
    using t by (simp only: MainLoop_frames_append [OF holds_G_no_exit [OF assms(1)]] st single_frame)
qed

lemma press_flips_once:
  assumes "list_all holds_G held" and "pressed (win s) KEY_G" and "\<not> gKeyPressed l"
  shows "toggle_state (fst (MainLoop_frames (held @ [x]) (l, s)))
           = (logical_not (shadingMode l), True,
              printed l @ [shading_line (logical_not (shadingMode l))])"
proof -
  have first: "toggle_state (fst (MainLoop_frame y (l, s)))
           = (logical_not (shadingMode l), True,
              printed l @ [shading_line (logical_not (shadingMode l))])" for y
    unfolding MainLoop_frame_toggle using assms(2,3)
    by (simp add: handle_input_def toggle_state_def Let_def shading_line_def)
  show ?thesis
  proof (cases held)
    case Nil
    then show ?thesis
      by (simp only: append_Nil single_frame first)
  next
    case (Cons y ys)
    obtain l' s' where fr: "MainLoop_frame y (l, s) = (l', s')"
      by (cases "MainLoop_frame y (l, s)")
    from assms(1) Cons have y: "holds_G y" and ys: "list_all holds_G ys"
      by simp_all
    have t: "toggle_state l' = (logical_not (shadingMode l), True,
              printed l @ [shading_line (logical_not (shadingMode l))])"
      using first [of y] by (simp add: fr)
    then have g: "gKeyPressed l'"
      by (simp add: toggle_state_def)
    have w: "pressed (win s') KEY_G" and c: "MainLoop_continues s'"
      using MainLoop_frame_window [of y l s] MainLoop_frame_continues [of y l s] y
      by (simp_all add: fr holds_G_def no_exit_def)
    have "MainLoop_frames (held @ [x]) (l, s) = MainLoop_frames (ys @ [x]) (l', s')"
      using c by (simp add: Cons fr Let_def)
    then show ?thesis
      using held_then_one_frame [OF ys w g, of x] t by simp
  qed
qed

lemma frames_window:
  "no_exit x \<Longrightarrow> list_all no_exit xs \<Longrightarrow>
   pressed (win (snd (MainLoop_frames (xs @ [x]) (l, s)))) = ev_pressed (events x)"
proof -
  assume x: "no_exit x" and xs: "list_all no_exit xs"
  obtain l' s' where st: "MainLoop_frames xs (l, s) = (l', s')"
    by (cases "MainLoop_frames xs (l, s)")
  show ?thesis
    by (simp only: MainLoop_frames_append [OF xs] st single_frame MainLoop_frame_window)
qed

lemma toggle_state_flag: "toggle_state l = (m, f, p) \<Longrightarrow> gKeyPressed l = f"
  by (simp add: toggle_state_def)

lemma toggle_state_fields:
  "toggle_state l = (m, f, p) \<Longrightarrow> shadingMode l = m \<and> gKeyPressed l = f \<and> printed l = p"
  by (simp add: toggle_state_def)

text \<open>
  Claim C8. The key is seen down at the start of a frame when the flag is not set, and the
  polls of the next frames report it down (\<open>held\<close>, of any length) and then up (\<open>rel\<close>); none
  asks to leave the loop. After each of these frames the shading model is the one flipped
  once, the flag is set and one line has been printed. The frame after, which sees the key
  up, resets the flag and changes nothing else; when its poll reports the key down again
  (\<open>press\<close>), the frames of the second press flip the model once more, and once only.
\<close>

theorem shading_key_flips_once_per_press:
  assumes "\<not> gKeyPressed l" and "pressed (win s) KEY_G"
    and "list_all holds_G held" and "releases_G rel" and "holds_G press"
    and "list_all holds_G held'" and "releases_G rel'"
  shows "(\<forall>n\<le>length held.
            toggle_state (fst (MainLoop_frames (take (Suc n) (held @ [rel])) (l, s)))
              = (logical_not (shadingMode l), True,
                 printed l @ [shading_line (logical_not (shadingMode l))])) \<and>
         toggle_state (fst (MainLoop_frames (held @ [rel] @ [press]) (l, s)))
           = (logical_not (shadingMode l), False,
              printed l @ [shading_line (logical_not (shadingMode l))]) \<and>
         (\<forall>n\<le>length held'.
            toggle_state (fst (MainLoop_frames
                (held @ [rel] @ [press] @ take (Suc n) (held' @ [rel'])) (l, s)))
              = (logical_not (logical_not (shadingMode l)), True,
                 printed l @ [shading_line (logical_not (shadingMode l)),
                              shading_line (logical_not (logical_not (shadingMode l)))]))"
proof -
  let ?m = "logical_not (shadingMode l)"
  let ?p = "printed l @ [shading_line ?m]"
  have first: "toggle_state (fst (MainLoop_frames (take (Suc n) (held @ [rel])) (l, s)))
                 = (?m, True, ?p)" if n: "n \<le> length held" for n
  proof -
    have split: "take (Suc n) (held @ [rel]) = take n held @ [(held @ [rel]) ! n]"
      using n take_Suc_conv_app_nth [of n "held @ [rel]"] by simp
    have "list_all holds_G (take n held)"
      using assms(3) by (auto simp add: list_all_iff dest: in_set_takeD)
    from press_flips_once [OF this assms(2,1)] show ?thesis
      by (simp only: split)
  qed
  have rel: "no_exit rel" and nG: "\<not> ev_pressed (events rel) KEY_G"
    using assms(4) by (simp_all add: releases_G_def)
  have held: "list_all no_exit held"
    by (rule holds_G_no_exit [OF assms(3)])
  have run1: "list_all no_exit (held @ [rel])"
    using held rel by simp
  obtain l1 s1 where st1: "MainLoop_frames (held @ [rel]) (l, s) = (l1, s1)"
    by (cases "MainLoop_frames (held @ [rel]) (l, s)")
  have t1: "toggle_state l1 = (?m, True, ?p)"
    using press_flips_once [OF assms(3,2,1), of rel] by (simp add: st1)
  have w1: "\<not> pressed (win s1) KEY_G"
    using frames_window [OF rel held, of l s] nG by (simp add: st1)
  obtain l2 s2 where st2: "MainLoop_frame press (l1, s1) = (l2, s2)"
    by (cases "MainLoop_frame press (l1, s1)")
  have t2: "toggle_state l2 = (?m, False, ?p)"
    using MainLoop_frame_toggle [of press l1 s1] w1 toggle_state_fields [OF t1]
    by (simp add: st2 handle_input_def toggle_state_def)
  have w2: "pressed (win s2) KEY_G" and c2: "no_exit press"
    using MainLoop_frame_window [of press l1 s1] assms(5)
    by (simp_all add: st2 holds_G_def)
  have run2: "MainLoop_frames (held @ [rel] @ [press] @ ys) (l, s) = MainLoop_frames ys (l2, s2)"
    for ys
  proof -
    have "held @ [rel] @ [press] @ ys = (held @ [rel]) @ (press # ys)"
      by simp
    then have "MainLoop_frames (held @ [rel] @ [press] @ ys) (l, s)
                 = MainLoop_frames (press # ys) (l1, s1)"
      by (simp only: MainLoop_frames_append [OF run1] st1)
    also have "\<dots> = MainLoop_frames ys (l2, s2)"
      using c2 MainLoop_frame_continues [of press l1 s1] by (simp add: st2 Let_def)
    finally show ?thesis .
  qed
  have second: "toggle_state (fst (MainLoop_frames (held @ [rel] @ [press]) (l, s)))
                  = (?m, False, ?p)"
    using run2 [of "[]"] t2 by simp
  have f2: "\<not> gKeyPressed l2" and m2: "shadingMode l2 = ?m" and p2: "printed l2 = ?p"
    using toggle_state_fields [OF t2] by simp_all
  have third: "toggle_state (fst (MainLoop_frames
                  (held @ [rel] @ [press] @ take (Suc n) (held' @ [rel'])) (l, s)))
                 = (logical_not ?m, True, printed l @ [shading_line ?m, shading_line (logical_not ?m)])"
    if n: "n \<le> length held'" for n
  proof -
    have split: "take (Suc n) (held' @ [rel']) = take n held' @ [(held' @ [rel']) ! n]"
      using n take_Suc_conv_app_nth [of n "held' @ [rel']"] by simp
    have "list_all holds_G (take n held')"
      using assms(6) by (auto simp add: list_all_iff dest: in_set_takeD)
    from press_flips_once [OF this w2 f2, of "(held' @ [rel']) ! n"]
    have "toggle_state (fst (MainLoop_frames (take (Suc n) (held' @ [rel'])) (l2, s2)))
            = (logical_not (shadingMode l2), True,
               printed l2 @ [shading_line (logical_not (shadingMode l2))])"
      by (simp only: split)
    then show ?thesis
      unfolding run2 m2 p2 by simp
  qed
  from first second third show ?thesis
    by blast
qed

theorem shading_key_flips_once_per_press_witness:
  "\<not> gKeyPressed MainLoop_locals_initial \<and>
   pressed (win (world_started\<lparr>win := window_idle\<lparr>pressed := (\<lambda>k. k = KEY_G)\<rparr>\<rparr>)) KEY_G \<and>
   list_all holds_G [G_down, G_down] \<and> releases_G G_up \<and> holds_G G_down \<and>
   toggle_state (fst (MainLoop_frames [G_down, G_down, G_up]
       (MainLoop_locals_initial, world_started\<lparr>win := window_idle\<lparr>pressed := (\<lambda>k. k = KEY_G)\<rparr>\<rparr>)))
     = (1, True, [''Initialization Complete. Starting Loop...'', ''Shading Mode: Gouraud'']) \<and>
   toggle_state (fst (MainLoop_frames [G_down, G_down, G_up, G_down]
       (MainLoop_locals_initial, world_started\<lparr>win := window_idle\<lparr>pressed := (\<lambda>k. k = KEY_G)\<rparr>\<rparr>)))
     = (1, False, [''Initialization Complete. Starting Loop...'', ''Shading Mode: Gouraud'']) \<and>
   toggle_state (fst (MainLoop_frames [G_down, G_down, G_up, G_down, G_down, G_down, G_up]
       (MainLoop_locals_initial, world_started\<lparr>win := window_idle\<lparr>pressed := (\<lambda>k. k = KEY_G)\<rparr>\<rparr>)))
     = (0, True, [''Initialization Complete. Starting Loop...'', ''Shading Mode: Gouraud'',
        ''Shading Mode: Phong''])"
proof -
  let ?s = "world_started\<lparr>win := window_idle\<lparr>pressed := (\<lambda>k. k = KEY_G)\<rparr>\<rparr>"
  have a1: "\<not> gKeyPressed MainLoop_locals_initial"
    by (simp add: MainLoop_locals_initial_def)
  have a2: "pressed (win ?s) KEY_G"
    by simp
  have a3: "list_all holds_G [G_down, G_down]" and a4: "releases_G G_up" and a5: "holds_G G_down"
    by (simp_all add: holds_G_def releases_G_def no_exit_def G_down_def G_up_def no_events_def)
  have m: "shadingMode MainLoop_locals_initial = 0"
    "printed MainLoop_locals_initial = [''Initialization Complete. Starting Loop...'']"
    by (simp_all add: MainLoop_locals_initial_def)
  note t = shading_key_flips_once_per_press [OF a1 a2 a3 a4 a5 a3 a4]
  note q1 = t [THEN conjunct1, rule_format, of 2]
  note q2 = t [THEN conjunct2, THEN conjunct1]
  note q3 = t [THEN conjunct2, THEN conjunct2, rule_format, of 2]
  have c1: "toggle_state (fst (MainLoop_frames [G_down, G_down, G_up]
       (MainLoop_locals_initial, ?s))) = (1, True, [''Initialization Complete. Starting Loop...'', ''Shading Mode: Gouraud''])"
    using q1 by (simp add: m logical_not_def shading_line_def del: MainLoop_frames.simps)
  have c2: "toggle_state (fst (MainLoop_frames [G_down, G_down, G_up, G_down]
       (MainLoop_locals_initial, ?s))) = (1, False, [''Initialization Complete. Starting Loop...'', ''Shading Mode: Gouraud''])"
    using q2 by (simp add: m logical_not_def shading_line_def del: MainLoop_frames.simps)
  have c3: "toggle_state (fst (MainLoop_frames [G_down, G_down, G_up, G_down, G_down, G_down, G_up]
       (MainLoop_locals_initial, ?s))) = (0, True, [''Initialization Complete. Starting Loop...'', ''Shading Mode: Gouraud'',
        ''Shading Mode: Phong''])"
    using q3 by (simp add: m logical_not_def shading_line_def del: MainLoop_frames.simps)
  from a1 a2 a3 a4 a5 c1 c2 c3 show ?thesis
    by blast
qed

section \<open>The camera controller and the cursor\<close>

lemma computeMatricesFromInputs_cursor:
  "cursorX (snd (computeMatricesFromInputs now (c, w))) = 512"
  "cursorY (snd (computeMatricesFromInputs now (c, w))) = 384"
  "horizontalAngle (fst (computeMatricesFromInputs now (c, w)))
     = horizontalAngle c + mouseSpeed c * (512 - cursorX w)"
  "verticalAngle (fst (computeMatricesFromInputs now (c, w)))
     = verticalAngle c + mouseSpeed c * (384 - cursorY w)"
  by (simp_all add: computeMatricesFromInputs_def Let_def glfwSetCursorPos_def)

lemma MainLoop_frame_controls:
  "ctl (snd (MainLoop_frame inp (l, s))) = fst (computeMatricesFromInputs (time_now inp) (ctl s, win s))"
  "win (snd (MainLoop_frame inp (l, s)))
     = glfwPollEvents (events inp) (snd (computeMatricesFromInputs (time_now inp) (ctl s, win s)))"
  by (simp_all add: MainLoop_frame_def Let_def split_def)

lemma MainLoop_frame_cursor:
  "cursorX (win (snd (MainLoop_frame inp (l, s)))) = 512 + ev_dx (events inp)"
  "cursorY (win (snd (MainLoop_frame inp (l, s)))) = 384 + ev_dy (events inp)"
  by (simp_all add: MainLoop_frame_controls glfwPollEvents_def computeMatricesFromInputs_cursor)

text \<open>
  Claim C10. \<^verbatim>\<open>computeMatricesFromInputs\<close> sets the cursor to (512, 384) and moves the look
  angles by \<open>mouseSpeed * (512 - xpos)\<close> and \<open>mouseSpeed * (384 - ypos)\<close>, in every frame.
  Start-up leaves the cursor at the centre (768, 576) of the 1536 by 1152 window, so the
  first frame moves the angles by \<open>mouseSpeed * (-256)\<close> and \<open>mouseSpeed * (-192)\<close>, whatever
  the mouse does; a later frame before which the mouse has not moved leaves them alone.
\<close>

theorem cursor_reset_and_first_frame_shift:
  assumes "fst (start_up p assets s0) = Some s"
  shows "cursorX (snd (computeMatricesFromInputs now (c, w))) = 512 \<and>
         cursorY (snd (computeMatricesFromInputs now (c, w))) = 384 \<and>
         horizontalAngle (fst (computeMatricesFromInputs now (c, w)))
           = horizontalAngle c + mouseSpeed c * (512 - cursorX w) \<and>
         verticalAngle (fst (computeMatricesFromInputs now (c, w)))
           = verticalAngle c + mouseSpeed c * (384 - cursorY w) \<and>
         ctl (snd (MainLoop_frame inp (l, s')))
           = fst (computeMatricesFromInputs (time_now inp) (ctl s', win s')) \<and>
         real_of_int (WINDOW_WIDTH div 2) = 768 \<and> real_of_int (WINDOW_HEIGHT div 2) = 576 \<and>
         cursorX (win s) = 768 \<and> cursorY (win s) = 576 \<and>
         horizontalAngle (ctl (snd (MainLoop_frame inp (l, s))))
           = horizontalAngle (ctl s0) + mouseSpeed (ctl s0) * (- 256) \<and>
         verticalAngle (ctl (snd (MainLoop_frame inp (l, s))))
           = verticalAngle (ctl s0) + mouseSpeed (ctl s0) * (- 192) \<and>
         horizontalAngle (ctl (snd (MainLoop_frame inp' (MainLoop_frame inp (l, s)))))
           = horizontalAngle (ctl (snd (MainLoop_frame inp (l, s))))
             + mouseSpeed (ctl s0) * (- ev_dx (events inp)) \<and>
         verticalAngle (ctl (snd (MainLoop_frame inp' (MainLoop_frame inp (l, s)))))
           = verticalAngle (ctl (snd (MainLoop_frame inp (l, s))))
             + mouseSpeed (ctl s0) * (- ev_dy (events inp))"
proof -
  note su = start_up_Some [OF assms]
  have cx: "cursorX (win s) = 768" and cy: "cursorY (win s) = 576"
    by (simp_all add: su(1) glfwSetCursorPos_def)
  have centre: "real_of_int (WINDOW_WIDTH div 2) = 768" "real_of_int (WINDOW_HEIGHT div 2) = 576"
    by (simp_all add: WINDOW_WIDTH_def WINDOW_HEIGHT_def)
  have h1: "horizontalAngle (ctl (snd (MainLoop_frame inp (l, s))))
              = horizontalAngle (ctl s0) + mouseSpeed (ctl s0) * (- 256)"
    by (simp add: MainLoop_frame_controls computeMatricesFromInputs_cursor cx su(2))
  have v1: "verticalAngle (ctl (snd (MainLoop_frame inp (l, s))))
              = verticalAngle (ctl s0) + mouseSpeed (ctl s0) * (- 192)"
    by (simp add: MainLoop_frame_controls computeMatricesFromInputs_cursor cy su(2))
  obtain l1 s1 where fr: "MainLoop_frame inp (l, s) = (l1, s1)"
    by (cases "MainLoop_frame inp (l, s)")
  have ms: "mouseSpeed (ctl s1) = mouseSpeed (ctl s0)"
    using MainLoop_frame_controls(1) [of inp l s]
    by (simp add: fr su(2) computeMatricesFromInputs_def Let_def)
  have c1: "cursorX (win s1) = 512 + ev_dx (events inp)" "cursorY (win s1) = 384 + ev_dy (events inp)"
    using MainLoop_frame_cursor [of inp l s] by (simp_all add: fr)
  have h2: "horizontalAngle (ctl (snd (MainLoop_frame inp' (MainLoop_frame inp (l, s)))))
           = horizontalAngle (ctl (snd (MainLoop_frame inp (l, s))))
             + mouseSpeed (ctl s0) * (- ev_dx (events inp))"
    by (simp add: fr MainLoop_frame_controls computeMatricesFromInputs_cursor c1 ms)
  have v2: "verticalAngle (ctl (snd (MainLoop_frame inp' (MainLoop_frame inp (l, s)))))
           = verticalAngle (ctl (snd (MainLoop_frame inp (l, s))))
             + mouseSpeed (ctl s0) * (- ev_dy (events inp))"
    by (simp add: fr MainLoop_frame_controls computeMatricesFromInputs_cursor c1 ms)
  from computeMatricesFromInputs_cursor [of now c w] MainLoop_frame_controls(1) [of inp l s']
    centre cx cy h1 v1 h2 v2
  show ?thesis
    by blast
qed

theorem cursor_reset_and_first_frame_shift_witness:
  "fst (start_up platform_ok cube_assets world_at_launch) = Some world_started \<and>
   cursorX (win world_started) = 768 \<and> cursorY (win world_started) = 576 \<and>
   horizontalAngle (ctl (snd (MainLoop_frame G_up (MainLoop_locals_initial, world_started))))
     = 0.59 - 1.28 \<and>
   verticalAngle (ctl (snd (MainLoop_frame G_up (MainLoop_locals_initial, world_started))))
     = - 0.48 - 0.96"
proof -
  have h: "fst (start_up platform_ok cube_assets world_at_launch) = Some world_started"
    using start_up_on_good_platform [of cube_assets world_at_launch]
    by (simp add: world_started_def)
  note t = cursor_reset_and_first_frame_shift [OF h, of 0 "ctl world_at_launch" window_idle
      G_up MainLoop_locals_initial world_started G_up]
  have c: "horizontalAngle (ctl world_at_launch) = 0.59" "verticalAngle (ctl world_at_launch) = - 0.48"
    "mouseSpeed (ctl world_at_launch) = 0.005"
    by (simp_all add: world_at_launch_def world_initial_def controls_initial_def)
  have cx: "cursorX (win world_started) = 768" and cy: "cursorY (win world_started) = 576"
    using t by blast+
  from t have a0: "horizontalAngle (ctl (snd (MainLoop_frame G_up (MainLoop_locals_initial, world_started))))
     = horizontalAngle (ctl world_at_launch) + mouseSpeed (ctl world_at_launch) * (- 256)"
    by blast
  from t have b0: "verticalAngle (ctl (snd (MainLoop_frame G_up (MainLoop_locals_initial, world_started))))
     = verticalAngle (ctl world_at_launch) + mouseSpeed (ctl world_at_launch) * (- 192)"
    by blast
  have a: "horizontalAngle (ctl (snd (MainLoop_frame G_up (MainLoop_locals_initial, world_started))))
     = 0.59 - 1.28"
    unfolding a0 c by simp
  have b: "verticalAngle (ctl (snd (MainLoop_frame G_up (MainLoop_locals_initial, world_started))))
     = - 0.48 - 0.96"
    unfolding b0 c by simp
  from h cx cy a b show ?thesis
    by blast
qed

section \<open>The shadow pass\<close>

lemma shadow_core_update [simp]:
  "shadow_core (g\<lparr>u_depthMVP := x\<rparr>) = shadow_core g"
  "shadow_core (g\<lparr>gl_trace := t\<rparr>) = shadow_core g"
  by (simp_all add: shadow_core_def)

lemma shadow_draw_core [simp]: "shadow_draw e (shadow_core g) = shadow_draw e g"
  by (intro ext) (simp add: shadow_draw_def draw_snapshot_def shadow_core_def)

lemma mesh_shadow_draws_core [simp]:
  "mesh_shadow_draws e (shadow_core g) = mesh_shadow_draws e g"
  by (intro ext) (simp add: mesh_shadow_draws_def)

lemma light_shadow_draws_core [simp]:
  "light_shadow_draws e (shadow_core g) = light_shadow_draws e g"
  by (intro ext) (simp add: light_shadow_draws_def)

lemma shadow_step:
  "shadow_core (glDrawElements r (meshes e r) (g\<lparr>u_depthMVP := mat4_mul PV m\<rparr>)) = shadow_core g \<and>
   gl_trace (glDrawElements r (meshes e r) (g\<lparr>u_depthMVP := mat4_mul PV m\<rparr>))
     = gl_trace g @ [shadow_draw e (shadow_core g) PV r m]"
  by (simp add: glDrawElements_def gl_emit_def) (simp add: shadow_draw_def)

lemma DrawMeshShadow_effect:
  "shadow_core (DrawMeshShadow e dProj dView r g) = shadow_core g \<and>
   gl_trace (DrawMeshShadow e dProj dView r g)
     = gl_trace g @ mesh_shadow_draws e (shadow_core g) (mat4_mul dProj dView) r"
proof -
  have "shadow_core (fold (\<lambda>m g. glDrawElements r (meshes e r) (g\<lparr>u_depthMVP := mat4_mul (mat4_mul dProj dView) m\<rparr>)) ms g) = shadow_core g \<and>
        gl_trace (fold (\<lambda>m g. glDrawElements r (meshes e r) (g\<lparr>u_depthMVP := mat4_mul (mat4_mul dProj dView) m\<rparr>)) ms g)
          = gl_trace g @ concat (map (\<lambda>m. [shadow_draw e (shadow_core g) (mat4_mul dProj dView) r m]) ms)" for ms
    by (rule fold_writer) (simp_all add: shadow_step)
  then show ?thesis
    by (simp add: DrawMeshShadow_def Let_def mesh_shadow_draws_def concat_map_singleton)
qed

lemma fold_DrawMeshShadow_effect:
  "shadow_core (fold (DrawMeshShadow e dProj dView) rs g) = shadow_core g \<and>
   gl_trace (fold (DrawMeshShadow e dProj dView) rs g)
     = gl_trace g @ concat (map (mesh_shadow_draws e (shadow_core g) (mat4_mul dProj dView)) rs)"
  by (rule fold_writer) (simp_all add: DrawMeshShadow_effect)

lemma shadow_light_effect:
  "shadow_light e i j (l, g) =
     (l\<lparr>allDepthBiasMVPs := allDepthBiasMVPs l @ [depthBiasMVP_of (classroomLightPositions_worldspace e ! lightIdx l)],
        lightIdx := lightIdx l + 1\<rparr>,
      snd (shadow_light e i j (l, g))) \<and>
   shadow_core (snd (shadow_light e i j (l, g))) = shadow_core g \<and>
   gl_trace (snd (shadow_light e i j (l, g)))
     = gl_trace g @ light_shadow_draws e (shadow_core g) (classroomLightPositions_worldspace e ! lightIdx l)"
  by (simp add: shadow_light_def Let_def fold_DrawMeshShadow_effect depthBiasMVP_of_def
      light_shadow_draws_def)

lemma shadow_lights_fold:
  "fst (fold (\<lambda>(i, j). shadow_light e i j) cs (l, g)) =
     l\<lparr>allDepthBiasMVPs := allDepthBiasMVPs l @
          map (\<lambda>k. depthBiasMVP_of (classroomLightPositions_worldspace e ! k))
              [lightIdx l..<lightIdx l + length cs],
       lightIdx := lightIdx l + length cs\<rparr> \<and>
   shadow_core (snd (fold (\<lambda>(i, j). shadow_light e i j) cs (l, g))) = shadow_core g \<and>
   gl_trace (snd (fold (\<lambda>(i, j). shadow_light e i j) cs (l, g)))
     = gl_trace g @ concat (map (\<lambda>k. light_shadow_draws e (shadow_core g) (classroomLightPositions_worldspace e ! k))
                                [lightIdx l..<lightIdx l + length cs])"
proof (induction cs arbitrary: l g)
  case Nil
  then show ?case by simp
next
  case (Cons c cs)
  obtain i j where c: "c = (i, j)" by (cases c)
  obtain l' g' where st: "shadow_light e i j (l, g) = (l', g')"
    by (cases "shadow_light e i j (l, g)")
  from shadow_light_effect [of e i j l g]
  have l': "l' = l\<lparr>allDepthBiasMVPs := allDepthBiasMVPs l @ [depthBiasMVP_of (classroomLightPositions_worldspace e ! lightIdx l)],
        lightIdx := lightIdx l + 1\<rparr>"
    and core: "shadow_core g' = shadow_core g"
    and tr: "gl_trace g' = gl_trace g @ light_shadow_draws e (shadow_core g) (classroomLightPositions_worldspace e ! lightIdx l)"
    by (simp_all add: st)
  have upt: "[lightIdx l..<Suc (lightIdx l + length cs)]
               = lightIdx l # [Suc (lightIdx l)..<Suc (lightIdx l + length cs)]"
    by (rule upt_conv_Cons) simp
  from Cons.IH [of l' g'] show ?case
    by (simp add: c st core tr l' upt del: upt_Suc)
qed

lemma ShadowPass_effect:
  assumes "length (classroomLightPositions_worldspace e) = NUM_LIGHTS"
  shows "fst (ShadowPass e (l, g)) =
           l\<lparr>allDepthBiasMVPs := map depthBiasMVP_of (classroomLightPositions_worldspace e),
             lightIdx := NUM_LIGHTS\<rparr>"
    and "shadow_core (snd (ShadowPass e (l, g))) = shadow_core (g\<lparr>gl_program := depthProgramID e\<rparr>)"
    and "gl_trace (snd (ShadowPass e (l, g))) = gl_trace g @ shadow_pass_draws e g"
proof -
  let ?l = "l\<lparr>allDepthBiasMVPs := [], lightIdx := 0\<rparr>"
  let ?g = "g\<lparr>gl_program := depthProgramID e\<rparr>"
  have sp: "ShadowPass e (l, g) = fold (\<lambda>(i, j). shadow_light e i j) (grid_cells 3 3) (?l, ?g)"
    by (simp add: ShadowPass_def Let_def for_grid_as_fold)
  have n: "length (grid_cells 3 3) = length (classroomLightPositions_worldspace e)"
    by (simp add: length_grid_cells assms NUM_LIGHTS_def)
  have m: "map (\<lambda>k. f (classroomLightPositions_worldspace e ! k)) [0..<NUM_LIGHTS]
             = map f (classroomLightPositions_worldspace e)" for f :: "vec3 \<Rightarrow> 'a"
    using map_nth_upt [of f "classroomLightPositions_worldspace e"] by (simp add: assms)
  note f = shadow_lights_fold [of e "grid_cells 3 3" ?l ?g]
  show "fst (ShadowPass e (l, g)) =
           l\<lparr>allDepthBiasMVPs := map depthBiasMVP_of (classroomLightPositions_worldspace e),
             lightIdx := NUM_LIGHTS\<rparr>"
    using f by (simp add: sp n m assms)
  show "shadow_core (snd (ShadowPass e (l, g))) = shadow_core ?g"
    using f by (simp add: sp)
  show "gl_trace (snd (ShadowPass e (l, g))) = gl_trace g @ shadow_pass_draws e g"
    unfolding shadow_pass_draws_def using f by (simp add: sp n m assms)
qed

text \<open>What the draws of the shadow pass show.\<close>

lemma drawn_meshes_append: "drawn_meshes (xs @ ys) = drawn_meshes xs @ drawn_meshes ys"
  by (induction xs rule: drawn_meshes.induct) simp_all

lemma drawn_meshes_concat: "drawn_meshes (concat xss) = concat (map drawn_meshes xss)"
  by (induction xss) (simp_all add: drawn_meshes_append)

lemma drawn_depthMVPs_append:
  "drawn_depthMVPs (xs @ ys) = drawn_depthMVPs xs @ drawn_depthMVPs ys"
  by (induction xs rule: drawn_depthMVPs.induct) simp_all

lemma drawn_depthMVPs_concat: "drawn_depthMVPs (concat xss) = concat (map drawn_depthMVPs xss)"
  by (induction xss) (simp_all add: drawn_depthMVPs_append)

lemma mesh_shadow_draws_meshes:
  "drawn_meshes (map (shadow_draw e g PV r) ms) = replicate (length ms) r"
  by (induction ms) (simp_all add: shadow_draw_def draw_snapshot_def)

lemma mesh_shadow_draws_depthMVPs:
  "drawn_depthMVPs (map (shadow_draw e g PV r) ms) = map (mat4_mul PV) ms"
  by (induction ms) (simp_all add: shadow_draw_def draw_snapshot_def)

lemma shadow_bucket_meshes:
  "drawn_meshes (concat (map (mesh_shadow_draws e g PV) rs)) = batch_instances e rs"
  by (induction rs)
     (simp_all add: batch_instances_def drawn_meshes_append mesh_shadow_draws_def
        mesh_shadow_draws_meshes)

lemma shadow_bucket_depthMVPs:
  "drawn_depthMVPs (concat (map (mesh_shadow_draws e g PV) rs))
     = concat (map (\<lambda>r. map (mat4_mul PV) (modelMatrices (meshes e r))) rs)"
  by (induction rs)
     (simp_all add: drawn_depthMVPs_append mesh_shadow_draws_def mesh_shadow_draws_depthMVPs)

lemma light_shadow_draws_meshes:
  "drawn_meshes (light_shadow_draws e g lightPos)
     = batch_instances e (opaqueMeshes e @ normalMapMeshes e)"
  unfolding light_shadow_draws_def by (rule shadow_bucket_meshes)

lemma light_shadow_draws_depthMVPs:
  "drawn_depthMVPs (light_shadow_draws e g lightPos)
     = concat (map (\<lambda>r. map (mat4_mul (mat4_mul depthProj (depthView_of lightPos)))
                             (modelMatrices (meshes e r)))
                   (opaqueMeshes e @ normalMapMeshes e))"
  unfolding light_shadow_draws_def by (rule shadow_bucket_depthMVPs)

text \<open>The engine of a run that reached the render loop, and the frames on it.\<close>

lemma started_lights:
  assumes "fst (start_up p assets (world_initial uninit w c)) = Some s"
  shows "classroomLightPositions_worldspace (sim s) =
           [light_pos 0 0, light_pos 0 1, light_pos 0 2,
            light_pos 1 0, light_pos 1 1, light_pos 1 2,
            light_pos 2 0, light_pos 2 1, light_pos 2 2]"
proof -
  have "length (classroomLightPositions_worldspace (engine_ready uninit)) = NUM_LIGHTS"
    by (simp add: engine_ready_def ClassroomSimulator_new_def)
  from LoadScene_lights [OF this] show ?thesis
    by (simp only: start_up_scene(1) [OF assms])
qed

lemma MainLoop_frame_sim: "sim (snd (MainLoop_frame inp st)) = sim (snd st)"
  by (cases st) (simp add: MainLoop_frame_def Let_def split_def)

lemma MainLoop_frames_sim: "sim (snd (MainLoop_frames inps st)) = sim (snd st)"
  by (induction inps arbitrary: st) (simp_all add: Let_def MainLoop_frame_sim)

lemma MainLoop_frame_shadow:
  "allDepthBiasMVPs (fst (MainLoop_frame inp (l, s)))
     = allDepthBiasMVPs (fst (ShadowPass (sim s) (handle_input (win s) l, gl s)))"
  by (simp add: MainLoop_frame_def Let_def split_def)

text \<open>
  Claim C1. In a run that reached the render loop the nine lights are those of the 3 by 3
  grid in row-major order. The shadow pass of a frame, entered with any locals and in any
  context, draws for each light in that order the batches of the opaque list and then
  those of the normal-mapped list, one draw for each instance, with
  \<open>depthMVP = depthProj * depthView * modelMatrix\<close> where \<open>depthView\<close> is
  \<open>lookAt(lightPos, lightPos + (0,-1,0), (0,0,-1))\<close>; neither the glass nor the light
  panel is among them. It leaves the list of depth-bias matrices with the nine entries
  \<open>biasMatrix * depthProj * depthView\<close>, one for each light and in the order of the
  lights, and so does every frame of the loop.
\<close>

theorem shadow_pass_draws_and_bias_list:
  assumes "fst (start_up p assets (world_initial uninit w c)) = Some s"
  shows "classroomLightPositions_worldspace (sim s)
           = map (\<lambda>(i, j). light_pos i j) (grid_cells 3 3) \<and>
         gl_trace (snd (ShadowPass (sim s) (l, g))) =
           gl_trace g @ concat (map (light_shadow_draws (sim s) (g\<lparr>gl_program := depthProgramID (sim s)\<rparr>))
                                    (classroomLightPositions_worldspace (sim s))) \<and>
         drawn_meshes (light_shadow_draws (sim s) g' lightPos)
           = batch_instances (sim s) (opaqueMeshes (sim s) @ normalMapMeshes (sim s)) \<and>
         drawn_depthMVPs (light_shadow_draws (sim s) g' lightPos)
           = concat (map (\<lambda>r. map (mat4_mul (mat4_mul depthProj
                                    (glm_lookAt lightPos (vec3_add lightPos (Vec3 0 (- 1) 0))
                                       (Vec3 0 0 (- 1)))))
                                 (modelMatrices (meshes (sim s) r)))
                         (opaqueMeshes (sim s) @ normalMapMeshes (sim s))) \<and>
         transparentMeshes (sim s) = [Glass] \<and>
         Glass \<notin> set (opaqueMeshes (sim s) @ normalMapMeshes (sim s)) \<and>
         LightPanel \<notin> set (opaqueMeshes (sim s) @ normalMapMeshes (sim s)) \<and>
         allDepthBiasMVPs (fst (ShadowPass (sim s) (l, g)))
           = map (\<lambda>lightPos. mat4_mul (mat4_mul biasMatrix depthProj)
                    (glm_lookAt lightPos (vec3_add lightPos (Vec3 0 (- 1) 0)) (Vec3 0 0 (- 1))))
                 (classroomLightPositions_worldspace (sim s)) \<and>
         length (allDepthBiasMVPs (fst (ShadowPass (sim s) (l, g)))) = 9 \<and>
         sim (snd (MainLoop_frames inps (l, s))) = sim s \<and>
         allDepthBiasMVPs (fst (MainLoop_frame inp (MainLoop_frames inps (l, s))))
           = map (\<lambda>lightPos. mat4_mul (mat4_mul biasMatrix depthProj)
                    (glm_lookAt lightPos (vec3_add lightPos (Vec3 0 (- 1) 0)) (Vec3 0 0 (- 1))))
                 (classroomLightPositions_worldspace (sim s))"
proof -
  note scene = start_up_scene(1) [OF assms]
  note lights = started_lights [OF assms]
  have len: "length (classroomLightPositions_worldspace (sim s)) = NUM_LIGHTS"
    by (simp add: lights NUM_LIGHTS_def)
  have bias: "depthBiasMVP_of = (\<lambda>lightPos. mat4_mul (mat4_mul biasMatrix depthProj)
                (glm_lookAt lightPos (vec3_add lightPos (Vec3 0 (- 1) 0)) (Vec3 0 0 (- 1))))"
    by (intro ext) (simp add: depthBiasMVP_of_def depthView_of_def)
  have order: "classroomLightPositions_worldspace (sim s)
                 = map (\<lambda>(i, j). light_pos i j) (grid_cells 3 3)"
    by (simp add: lights grid_cells_def upt_3)
  have trace: "gl_trace (snd (ShadowPass (sim s) (l, g))) =
           gl_trace g @ concat (map (light_shadow_draws (sim s) (g\<lparr>gl_program := depthProgramID (sim s)\<rparr>))
                                    (classroomLightPositions_worldspace (sim s)))"
    using ShadowPass_effect(3) [OF len] by (simp only: shadow_pass_draws_def)
  have meshes: "drawn_meshes (light_shadow_draws (sim s) g' lightPos)
           = batch_instances (sim s) (opaqueMeshes (sim s) @ normalMapMeshes (sim s))"
    by (rule light_shadow_draws_meshes)
  have mvps: "drawn_depthMVPs (light_shadow_draws (sim s) g' lightPos)
           = concat (map (\<lambda>r. map (mat4_mul (mat4_mul depthProj
                                    (glm_lookAt lightPos (vec3_add lightPos (Vec3 0 (- 1) 0))
                                       (Vec3 0 0 (- 1)))))
                                 (modelMatrices (meshes (sim s) r)))
                         (opaqueMeshes (sim s) @ normalMapMeshes (sim s)))"
    using light_shadow_draws_depthMVPs [of "sim s" g' lightPos] by (simp only: depthView_of_def)
  have glass: "transparentMeshes (sim s) = [Glass]"
    by (simp add: scene LoadScene_buckets)
  have out: "Glass \<notin> set (opaqueMeshes (sim s) @ normalMapMeshes (sim s))"
    "LightPanel \<notin> set (opaqueMeshes (sim s) @ normalMapMeshes (sim s))"
    by (simp_all add: scene LoadScene_buckets)
  have list: "allDepthBiasMVPs (fst (ShadowPass (sim s) (l', g'')))
           = map (\<lambda>lightPos. mat4_mul (mat4_mul biasMatrix depthProj)
                    (glm_lookAt lightPos (vec3_add lightPos (Vec3 0 (- 1) 0)) (Vec3 0 0 (- 1))))
                 (classroomLightPositions_worldspace (sim s))" for l' g''
    unfolding ShadowPass_effect(1) [OF len] bias by simp
  have nine: "length (allDepthBiasMVPs (fst (ShadowPass (sim s) (l, g)))) = 9"
    unfolding list by (simp add: lights)
  have same: "sim (snd (MainLoop_frames inps (l, s))) = sim s"
    by (simp add: MainLoop_frames_sim)
  obtain l1 s1 where st: "MainLoop_frames inps (l, s) = (l1, s1)"
    by (cases "MainLoop_frames inps (l, s)")
  have s1: "sim s1 = sim s"
    using same by (simp add: st)
  have frame: "allDepthBiasMVPs (fst (MainLoop_frame inp (MainLoop_frames inps (l, s))))
           = map (\<lambda>lightPos. mat4_mul (mat4_mul biasMatrix depthProj)
                    (glm_lookAt lightPos (vec3_add lightPos (Vec3 0 (- 1) 0)) (Vec3 0 0 (- 1))))
                 (classroomLightPositions_worldspace (sim s))"
    unfolding st MainLoop_frame_shadow s1 by (rule list)
  from order trace meshes mvps glass out list [of l g] nine same frame show ?thesis
    by blast
qed

theorem shadow_pass_draws_and_bias_list_witness:
  "fst (start_up platform_ok cube_assets world_at_launch) = Some world_started \<and>
   classroomLightPositions_worldspace (sim world_started) ! 4
     = Vec3 (1688207 / 524288) (5059379 / 131072) 0 \<and>
   drawn_meshes (gl_trace (snd (ShadowPass (sim world_started) (MainLoop_locals_initial, gl_initial))))
     = concat (replicate 9 (batch_instances (sim world_started)
         [Bench, Door, SwitchObj, Exhaust, Clock, Pipe, Projector, Screen, FloorMesh, Fan,
          Greenboard, Podium, Table, WindowMesh, WallFan, Wall, Ceiling, Grid])) \<and>
   length (allDepthBiasMVPs (fst (MainLoop_frame G_up
       (MainLoop_frames [G_up, G_up] (MainLoop_locals_initial, world_started))))) = 9"
proof -
  have h: "fst (start_up platform_ok cube_assets
             (world_initial (\<lambda>i. Vec3 0 0 0) window_idle (controls_initial mat4_zero mat4_zero)))
           = Some world_started"
    using start_up_on_good_platform [of cube_assets world_at_launch]
    by (simp add: world_started_def world_at_launch_def)
  have h': "fst (start_up platform_ok cube_assets world_at_launch) = Some world_started"
    using h by (simp only: world_at_launch_def)
  note t = shadow_pass_draws_and_bias_list [OF h, of MainLoop_locals_initial gl_initial _ _
      "[G_up, G_up]" G_up]
  from t have order: "classroomLightPositions_worldspace (sim world_started)
                 = map (\<lambda>(i, j). light_pos i j) (grid_cells 3 3)"
    by blast
  have "classroomLightPositions_worldspace (sim world_started) ! 4 = light_pos 1 1"
    unfolding order light_cells by simp
  then have four: "classroomLightPositions_worldspace (sim world_started) ! 4
                     = Vec3 (1688207 / 524288) (5059379 / 131072) 0"
    by (simp only: light_pos_1_1)
  from t have trace: "gl_trace (snd (ShadowPass (sim world_started) (MainLoop_locals_initial, gl_initial))) =
           gl_trace gl_initial @ concat (map (light_shadow_draws (sim world_started)
               (gl_initial\<lparr>gl_program := depthProgramID (sim world_started)\<rparr>))
             (classroomLightPositions_worldspace (sim world_started)))"
    by blast
  from t have m: "drawn_meshes (light_shadow_draws (sim world_started) g' lightPos)
           = batch_instances (sim world_started)
               (opaqueMeshes (sim world_started) @ normalMapMeshes (sim world_started))" for g' lightPos
    by blast
  have buckets: "opaqueMeshes (sim world_started) @ normalMapMeshes (sim world_started) =
         [Bench, Door, SwitchObj, Exhaust, Clock, Pipe, Projector, Screen, FloorMesh, Fan,
          Greenboard, Podium, Table, WindowMesh, WallFan, Wall, Ceiling, Grid]"
    by (simp add: start_up_scene(1) [OF h] LoadScene_buckets)
  have nine: "length (classroomLightPositions_worldspace (sim world_started)) = 9"
    unfolding order by (simp add: length_grid_cells)
  have draws: "drawn_meshes (gl_trace (snd (ShadowPass (sim world_started) (MainLoop_locals_initial, gl_initial))))
     = concat (replicate 9 (batch_instances (sim world_started)
         [Bench, Door, SwitchObj, Exhaust, Clock, Pipe, Projector, Screen, FloorMesh, Fan,
          Greenboard, Podium, Table, WindowMesh, WallFan, Wall, Ceiling, Grid]))"
    unfolding trace drawn_meshes_append drawn_meshes_concat map_map comp_def m buckets
    using nine by (simp add: gl_initial_def map_replicate_const)
  from t have fr: "allDepthBiasMVPs (fst (MainLoop_frame G_up
       (MainLoop_frames [G_up, G_up] (MainLoop_locals_initial, world_started))))
     = map (\<lambda>lightPos. mat4_mul (mat4_mul biasMatrix depthProj)
              (glm_lookAt lightPos (vec3_add lightPos (Vec3 0 (- 1) 0)) (Vec3 0 0 (- 1))))
           (classroomLightPositions_worldspace (sim world_started))"
    by blast
  have len: "length (allDepthBiasMVPs (fst (MainLoop_frame G_up
       (MainLoop_frames [G_up, G_up] (MainLoop_locals_initial, world_started))))) = 9"
    unfolding fr using nine by simp
  from h' four draws len show ?thesis
    by blast
qed

section \<open>The lighting pass\<close>

lemma lit_core_update [simp]:
  "lit_core (g\<lparr>u_bUseNormalMap := a\<rparr>) = lit_core g"
  "lit_core (g\<lparr>u_bUseSpecularMap := a\<rparr>) = lit_core g"
  "lit_core (g\<lparr>u_fragmentAlpha := b\<rparr>) = lit_core g"
  "lit_core (g\<lparr>u_MVP := c\<rparr>) = lit_core g"
  "lit_core (g\<lparr>u_M := c\<rparr>) = lit_core g"
  "lit_core (g\<lparr>gl_trace := t\<rparr>) = lit_core g"
  "lit_core (g\<lparr>u_DepthBiasMVPs := ms\<rparr>) = lit_core g"
  "lit_core (g\<lparr>u_ClassroomLightPositions_cameraspace := ps\<rparr>) = lit_core g"
  by (simp_all add: lit_core_def)

lemma lit_core_commute:
  "lit_core (g\<lparr>u_bIsUnlit := a\<rparr>) = (lit_core g)\<lparr>u_bIsUnlit := a\<rparr>"
  "lit_core (g\<lparr>u_bIsGlass := a\<rparr>) = (lit_core g)\<lparr>u_bIsGlass := a\<rparr>"
  "lit_core (g\<lparr>gl_blend := b\<rparr>) = (lit_core g)\<lparr>gl_blend := b\<rparr>"
  "lit_core (g\<lparr>gl_depthMask := b\<rparr>) = (lit_core g)\<lparr>gl_depthMask := b\<rparr>"
  by (simp_all add: lit_core_def)

lemma lit_draw_core: "lit_draw e (lit_core g) = lit_draw e g"
  by (intro ext) (simp add: lit_draw_def draw_snapshot_def lit_core_def)

lemma mesh_draws_core: "mesh_draws e (lit_core g) = mesh_draws e g"
  by (intro ext) (simp add: mesh_draws_def lit_draw_core)

lemma bucket_draws_core: "bucket_draws e (lit_core g) = bucket_draws e g"
  by (intro ext) (simp add: bucket_draws_def mesh_draws_core)

lemma DrawMesh_effect:
  "lit_core (DrawMesh e View Projection alpha r g) = lit_core g \<and>
   gl_trace (DrawMesh e View Projection alpha r g)
     = gl_trace g @ mesh_draws e (lit_core g) (mat4_mul Projection View) alpha r"
proof -
  let ?n = "normal_map_flag (meshes e r)"
  let ?g = "g\<lparr>u_bUseNormalMap := ?n, u_bUseSpecularMap := ?n, u_fragmentAlpha := alpha\<rparr>"
  let ?step = "\<lambda>m g. glDrawElements r (meshes e r)
                 (g\<lparr>u_MVP := mat4_mul (mat4_mul Projection View) m, u_M := m\<rparr>)"
  define core :: "gl_context \<Rightarrow> gl_context"
    where "core = (\<lambda>g. g\<lparr>u_MVP := mat4_zero, u_M := mat4_zero, gl_trace := []\<rparr>)"
  have dm: "DrawMesh e View Projection alpha r g = fold ?step (modelMatrices (meshes e r)) ?g"
    by (simp add: DrawMesh_def Let_def normal_map_flag_def)
  have snap: "draw_snapshot (h\<lparr>u_MVP := a, u_M := b\<rparr>) r (meshes e r)
                = draw_snapshot ((core h)\<lparr>u_MVP := a, u_M := b\<rparr>) r (meshes e r)" for h a b
    by (simp add: draw_snapshot_def core_def)
  have f: "core (fold ?step ms h) = core h \<and>
        gl_trace (fold ?step ms h) = gl_trace h @
          concat (map (\<lambda>m. [DrawElements (draw_snapshot
                    ((core h)\<lparr>u_MVP := mat4_mul (mat4_mul Projection View) m, u_M := m\<rparr>) r (meshes e r))]) ms)"
    for ms h
  proof (rule fold_writer)
    show "core (?step m h) = core h" for m h
      by (simp add: core_def glDrawElements_def gl_emit_def)
    show "gl_trace (?step m h) = gl_trace h @
            [DrawElements (draw_snapshot
               ((core h)\<lparr>u_MVP := mat4_mul (mat4_mul Projection View) m, u_M := m\<rparr>) r (meshes e r))]"
      for m h
      by (simp add: glDrawElements_def gl_emit_def snap [symmetric])
  qed
  have c1: "lit_core (fold ?step ms ?g) = lit_core g" for ms
  proof -
    have "lit_core (core (fold ?step ms ?g)) = lit_core (core ?g)"
      using f [of ms ?g] by simp
    then show ?thesis
      by (simp add: core_def lit_core_def)
  qed
  have c2: "gl_trace (fold ?step ms ?g) = gl_trace g @ map (lit_draw e (lit_core g) (mat4_mul Projection View) alpha r) ms"
    for ms
    using f [of ms ?g]
    by (simp add: lit_draw_def core_def draw_snapshot_def lit_core_def)
  from c1 c2 show ?thesis
    by (simp add: dm mesh_draws_def)
qed

lemma fold_DrawMesh_effect:
  "lit_core (fold (DrawMesh e View Projection alpha) rs g) = lit_core g \<and>
   gl_trace (fold (DrawMesh e View Projection alpha) rs g)
     = gl_trace g @ bucket_draws e (lit_core g) (mat4_mul Projection View) alpha rs"
  unfolding bucket_draws_def
  by (rule fold_writer) (simp_all add: DrawMesh_effect)

lemma LightingPass_effect:
  fixes e l View Projection g
  defines "PV \<equiv> mat4_mul Projection View"
      and "g0 \<equiv> g\<lparr>u_bIsUnlit := 0\<rparr>"
  shows "gl_trace (LightingPass e l View Projection g) =
           gl_trace g
           @ bucket_draws e g0 PV 1.0 (opaqueMeshes e)
           @ bucket_draws e g0 PV 1.0 (normalMapMeshes e)
           @ mesh_draws e (g0\<lparr>u_bIsUnlit := 1\<rparr>) PV 1.0 LightPanel
           @ bucket_draws e (g0\<lparr>gl_blend := True, gl_depthMask := False, u_bIsGlass := 1\<rparr>) PV 0.25
               (transparentMeshes e)"
    and "gl_blend (LightingPass e l View Projection g) = False"
    and "gl_depthMask (LightingPass e l View Projection g) = True"
    and "u_bIsGlass (LightingPass e l View Projection g) = 0"
    and "u_bIsUnlit (LightingPass e l View Projection g) = 0"
proof -
  define g1 where "g1 =
    g\<lparr>u_ClassroomLightPositions_cameraspace :=
         map (\<lambda>i. vec3_of_vec4 (mat4_mul_vec4 View
                (vec4_of_vec3 (classroomLightPositions_worldspace e ! i) 1.0)))
             [0..<NUM_LIGHTS],
      u_DepthBiasMVPs := take NUM_LIGHTS (allDepthBiasMVPs l),
      u_bIsUnlit := 0\<rparr>"
  define g2 where "g2 = fold (DrawMesh e View Projection 1.0) (opaqueMeshes e) g1"
  define g3 where "g3 = fold (DrawMesh e View Projection 1.0) (normalMapMeshes e) g2"
  define g5 where "g5 = DrawMesh e View Projection 1.0 LightPanel (g3\<lparr>u_bIsUnlit := 1\<rparr>)"
  define g6 where "g6 = g5\<lparr>u_bIsUnlit := 0, gl_blend := True, gl_depthMask := False, u_bIsGlass := 1\<rparr>"
  define g7 where "g7 = fold (DrawMesh e View Projection 0.25) (transparentMeshes e) g6"
  have lp: "LightingPass e l View Projection g = g7\<lparr>u_bIsGlass := 0, gl_depthMask := True, gl_blend := False\<rparr>"
    by (simp add: LightingPass_def Let_def g1_def g2_def g3_def g5_def g6_def g7_def)
  have c1: "lit_core g1 = lit_core g0" and t1: "gl_trace g1 = gl_trace g"
    by (simp_all add: g1_def g0_def lit_core_def)
  note e2 = fold_DrawMesh_effect [of e View Projection "1.0" "opaqueMeshes e" g1, folded g2_def PV_def]
  have c2: "lit_core g2 = lit_core g0"
    and t2: "gl_trace g2 = gl_trace g @ bucket_draws e g0 PV 1.0 (opaqueMeshes e)"
    using e2 by (simp_all only: c1 t1 bucket_draws_core)
  note e3 = fold_DrawMesh_effect [of e View Projection "1.0" "normalMapMeshes e" g2, folded g3_def PV_def]
  have c3: "lit_core g3 = lit_core g0"
    and t3: "gl_trace g3 = gl_trace g2 @ bucket_draws e g0 PV 1.0 (normalMapMeshes e)"
    using e3 by (simp_all only: c2 bucket_draws_core)
  have c4: "lit_core (g3\<lparr>u_bIsUnlit := 1\<rparr>) = lit_core (g0\<lparr>u_bIsUnlit := 1\<rparr>)"
    by (simp only: lit_core_commute c3)
  note e5 = DrawMesh_effect [of e View Projection "1.0" LightPanel "g3\<lparr>u_bIsUnlit := 1\<rparr>",
      folded g5_def PV_def]
  have c5: "lit_core g5 = lit_core (g0\<lparr>u_bIsUnlit := 1\<rparr>)"
    and t5: "gl_trace g5 = gl_trace g3 @ mesh_draws e (g0\<lparr>u_bIsUnlit := 1\<rparr>) PV 1.0 LightPanel"
    using e5 by (simp_all only: c4 mesh_draws_core) simp_all
  have c6: "lit_core g6 = lit_core (g0\<lparr>gl_blend := True, gl_depthMask := False, u_bIsGlass := 1\<rparr>)"
    unfolding g6_def by (simp add: lit_core_commute c5) (simp add: g0_def lit_core_def)
  have t6: "gl_trace g6 = gl_trace g5"
    by (simp add: g6_def)
  note e7 = fold_DrawMesh_effect [of e View Projection "0.25" "transparentMeshes e" g6, folded g7_def PV_def]
  have c7: "lit_core g7 = lit_core g6"
    and t7: "gl_trace g7 = gl_trace g5 @
              bucket_draws e (g0\<lparr>gl_blend := True, gl_depthMask := False, u_bIsGlass := 1\<rparr>) PV 0.25
                (transparentMeshes e)"
    using e7 by (simp_all only: c6 t6 bucket_draws_core)
  show "gl_trace (LightingPass e l View Projection g) =
           gl_trace g
           @ bucket_draws e g0 PV 1.0 (opaqueMeshes e)
           @ bucket_draws e g0 PV 1.0 (normalMapMeshes e)
           @ mesh_draws e (g0\<lparr>u_bIsUnlit := 1\<rparr>) PV 1.0 LightPanel
           @ bucket_draws e (g0\<lparr>gl_blend := True, gl_depthMask := False, u_bIsGlass := 1\<rparr>) PV 0.25
               (transparentMeshes e)"
    by (simp add: lp t7 t5 t3 t2)
  show "gl_blend (LightingPass e l View Projection g) = False"
    "gl_depthMask (LightingPass e l View Projection g) = True"
    "u_bIsGlass (LightingPass e l View Projection g) = 0"
    by (simp_all add: lp)
  have "u_bIsUnlit (lit_core g7) = 0"
    by (simp add: c7 c6) (simp add: lit_core_def g0_def)
  then show "u_bIsUnlit (LightingPass e l View Projection g) = 0"
    by (simp add: lp lit_core_def)
qed

text \<open>What the draws of the lighting pass show.\<close>

lemma draw_states_append: "draw_states (xs @ ys) = draw_states xs @ draw_states ys"
  by (induction xs rule: draw_states.induct) simp_all

lemma lit_draws_meshes:
  "drawn_meshes (map (lit_draw e g PV alpha r) ms) = replicate (length ms) r"
  by (induction ms) (simp_all add: lit_draw_def draw_snapshot_def)

lemma lit_draws_states:
  "draw_states (map (lit_draw e g PV alpha r) ms)
     = replicate (length ms) (gl_blend g, gl_depthMask g, u_bIsGlass g, u_bIsUnlit g)"
  by (induction ms) (simp_all add: lit_draw_def draw_snapshot_def)

lemma bucket_draws_meshes:
  "drawn_meshes (bucket_draws e g PV alpha rs) = batch_instances e rs"
  by (induction rs)
     (simp_all add: bucket_draws_def batch_instances_def drawn_meshes_append mesh_draws_def
        lit_draws_meshes)

lemma bucket_draws_states:
  "draw_states (bucket_draws e g PV alpha rs)
     = map (\<lambda>r. (gl_blend g, gl_depthMask g, u_bIsGlass g, u_bIsUnlit g)) (batch_instances e rs)"
  by (induction rs)
     (simp_all add: bucket_draws_def batch_instances_def draw_states_append mesh_draws_def
        lit_draws_states map_replicate_const replicate_add)

lemma mesh_draws_as_bucket: "mesh_draws e g PV alpha r = bucket_draws e g PV alpha [r]"
  by (simp add: bucket_draws_def)

text \<open>The frame around the two passes.\<close>

lemma ShadowPass_core:
  "shadow_core (snd (ShadowPass e (l, g))) = shadow_core (g\<lparr>gl_program := depthProgramID e\<rparr>)"
  using shadow_lights_fold [of e "grid_cells 3 3" "l\<lparr>allDepthBiasMVPs := [], lightIdx := 0\<rparr>"
      "g\<lparr>gl_program := depthProgramID e\<rparr>"]
  by (simp add: ShadowPass_def Let_def for_grid_as_fold)

lemma pass_state_shadow_core: "pass_state (shadow_core g) = pass_state g"
  by (simp add: pass_state_def shadow_core_def)

lemma ShadowPass_pass_state: "pass_state (snd (ShadowPass e (l, g))) = pass_state g"
proof -
  have "pass_state (shadow_core (snd (ShadowPass e (l, g))))
          = pass_state (shadow_core (g\<lparr>gl_program := depthProgramID e\<rparr>))"
    by (simp only: ShadowPass_core)
  then show ?thesis
    by (simp add: pass_state_shadow_core) (simp add: pass_state_def)
qed

lemma MainLoop_frame_gl:
  "gl (snd (MainLoop_frame inp (l, s))) =
     gl_emit SwapBuffers
       (LightingPass (sim s) (fst (ShadowPass (sim s) (handle_input (win s) l, gl s)))
          (ViewMatrix (fst (computeMatricesFromInputs (time_now inp) (ctl s, win s))))
          (ProjectionMatrix (fst (computeMatricesFromInputs (time_now inp) (ctl s, win s))))
          ((snd (ShadowPass (sim s) (handle_input (win s) l, gl s)))
             \<lparr>gl_program := programID (sim s),
              u_uShadingModel := shadingMode (fst (ShadowPass (sim s) (handle_input (win s) l, gl s)))\<rparr>))"
  by (simp add: MainLoop_frame_def Let_def split_def)

lemma MainLoop_frame_pass_state:
  "pass_state (gl (snd (MainLoop_frame inp (l, s)))) = (False, True, 0)"
  unfolding MainLoop_frame_gl
  by (simp add: pass_state_def gl_emit_def LightingPass_effect)

lemma MainLoop_frames_pass_state:
  "pass_state (gl (snd st)) = (False, True, 0) \<Longrightarrow>
   pass_state (gl (snd (MainLoop_frames inps st))) = (False, True, 0)"
proof (induction inps arbitrary: st)
  case Nil
  then show ?case by simp
next
  case (Cons inp inps)
  obtain l s where st: "st = (l, s)" by (cases st)
  have "pass_state (gl (snd (MainLoop_frame inp st))) = (False, True, 0)"
    by (simp only: st MainLoop_frame_pass_state)
  then show ?case
    using Cons.IH [of "MainLoop_frame inp st"] by (simp add: Let_def)
qed

lemma started_pass_state:
  assumes "fst (start_up p assets (world_initial uninit w c)) = Some s"
  shows "pass_state (gl s) = (False, True, 0)"
  unfolding start_up_scene(2) [OF assms] LoadScene_split
  by (simp add: pass_state_def load_defs gl_ready_def gl_initial_def)

lemma MainLoop_frame_draws:
  fixes inp l s
  defines "e \<equiv> sim s"
      and "before \<equiv> gl_trace (snd (ShadowPass (sim s) (handle_input (win s) l, gl s)))"
      and "after \<equiv> gl_trace (gl (snd (MainLoop_frame inp (l, s))))"
  shows "drawn_meshes after =
           drawn_meshes before
           @ batch_instances e (opaqueMeshes e) @ batch_instances e (normalMapMeshes e)
           @ batch_instances e [LightPanel] @ batch_instances e (transparentMeshes e)"
    and "draw_states after =
           draw_states before
           @ map (\<lambda>r. (gl_blend (gl s), gl_depthMask (gl s), u_bIsGlass (gl s), 0))
               (batch_instances e (opaqueMeshes e))
           @ map (\<lambda>r. (gl_blend (gl s), gl_depthMask (gl s), u_bIsGlass (gl s), 0))
               (batch_instances e (normalMapMeshes e))
           @ map (\<lambda>r. (gl_blend (gl s), gl_depthMask (gl s), u_bIsGlass (gl s), 1))
               (batch_instances e [LightPanel])
           @ map (\<lambda>r. (True, False, 1, 0)) (batch_instances e (transparentMeshes e))"
proof -
  let ?sp = "ShadowPass (sim s) (handle_input (win s) l, gl s)"
  have ps: "pass_state (snd ?sp) = pass_state (gl s)"
    by (rule ShadowPass_pass_state)
  then have b: "gl_blend (snd ?sp) = gl_blend (gl s)" "gl_depthMask (snd ?sp) = gl_depthMask (gl s)"
    "u_bIsGlass (snd ?sp) = u_bIsGlass (gl s)"
    by (simp_all add: pass_state_def)
  show "drawn_meshes after =
           drawn_meshes before
           @ batch_instances e (opaqueMeshes e) @ batch_instances e (normalMapMeshes e)
           @ batch_instances e [LightPanel] @ batch_instances e (transparentMeshes e)"
    unfolding after_def before_def e_def MainLoop_frame_gl
    by (simp add: gl_emit_def LightingPass_effect(1) drawn_meshes_append bucket_draws_meshes
        mesh_draws_as_bucket)
  show "draw_states after =
           draw_states before
           @ map (\<lambda>r. (gl_blend (gl s), gl_depthMask (gl s), u_bIsGlass (gl s), 0))
               (batch_instances e (opaqueMeshes e))
           @ map (\<lambda>r. (gl_blend (gl s), gl_depthMask (gl s), u_bIsGlass (gl s), 0))
               (batch_instances e (normalMapMeshes e))
           @ map (\<lambda>r. (gl_blend (gl s), gl_depthMask (gl s), u_bIsGlass (gl s), 1))
               (batch_instances e [LightPanel])
           @ map (\<lambda>r. (True, False, 1, 0)) (batch_instances e (transparentMeshes e))"
    unfolding after_def before_def e_def MainLoop_frame_gl
    by (simp add: gl_emit_def LightingPass_effect(1) draw_states_append bucket_draws_states
        mesh_draws_as_bucket b)
qed

text \<open>
  Claim C2. The lighting pass appends to the trace the draws of the opaque list, then those
  of the normal-mapped list, then those of the light panel with the unlit flag set, then
  those of the transparent list. In every frame the draws after the shadow pass are
  these, in this order; the transparent ones run with blending on, depth writes off and
  the glass flag set, the others in the blend and depth state the frame was entered in.
  Every frame ends with blending off, depth writes on and the glass flag reset, which is
  the state the first frame is entered in, and so the state every frame is entered in.
\<close>

theorem lighting_pass_order_and_state:
  assumes "fst (start_up p assets (world_initial uninit w c)) = Some s"
  shows "gl_trace (LightingPass e l View Projection g) =
           gl_trace g
           @ bucket_draws e (g\<lparr>u_bIsUnlit := 0\<rparr>) (mat4_mul Projection View) 1 (opaqueMeshes e)
           @ bucket_draws e (g\<lparr>u_bIsUnlit := 0\<rparr>) (mat4_mul Projection View) 1 (normalMapMeshes e)
           @ mesh_draws e (g\<lparr>u_bIsUnlit := 1\<rparr>) (mat4_mul Projection View) 1 LightPanel
           @ bucket_draws e (g\<lparr>u_bIsUnlit := 0, gl_blend := True, gl_depthMask := False,
                               u_bIsGlass := 1\<rparr>)
               (mat4_mul Projection View) 0.25 (transparentMeshes e) \<and>
         drawn_meshes (gl_trace (gl (snd (MainLoop_frame inp (l, s'))))) =
           drawn_meshes (gl_trace (snd (ShadowPass (sim s') (handle_input (win s') l, gl s'))))
           @ batch_instances (sim s') (opaqueMeshes (sim s'))
           @ batch_instances (sim s') (normalMapMeshes (sim s'))
           @ batch_instances (sim s') [LightPanel]
           @ batch_instances (sim s') (transparentMeshes (sim s')) \<and>
         draw_states (gl_trace (gl (snd (MainLoop_frame inp (l, s'))))) =
           draw_states (gl_trace (snd (ShadowPass (sim s') (handle_input (win s') l, gl s'))))
           @ map (\<lambda>r. (gl_blend (gl s'), gl_depthMask (gl s'), u_bIsGlass (gl s'), 0))
               (batch_instances (sim s') (opaqueMeshes (sim s')))
           @ map (\<lambda>r. (gl_blend (gl s'), gl_depthMask (gl s'), u_bIsGlass (gl s'), 0))
               (batch_instances (sim s') (normalMapMeshes (sim s')))
           @ map (\<lambda>r. (gl_blend (gl s'), gl_depthMask (gl s'), u_bIsGlass (gl s'), 1))
               (batch_instances (sim s') [LightPanel])
           @ map (\<lambda>r. (True, False, 1, 0)) (batch_instances (sim s') (transparentMeshes (sim s'))) \<and>
         pass_state (LightingPass e l View Projection g) = (False, True, 0) \<and>
         pass_state (gl (snd (MainLoop_frame inp (l, s')))) = (False, True, 0) \<and>
         pass_state (gl s) = (False, True, 0) \<and>
         pass_state (gl (snd (MainLoop_frames inps (l, s)))) = (False, True, 0)"
proof -
  have order: "gl_trace (LightingPass e l View Projection g) =
           gl_trace g
           @ bucket_draws e (g\<lparr>u_bIsUnlit := 0\<rparr>) (mat4_mul Projection View) 1 (opaqueMeshes e)
           @ bucket_draws e (g\<lparr>u_bIsUnlit := 0\<rparr>) (mat4_mul Projection View) 1 (normalMapMeshes e)
           @ mesh_draws e (g\<lparr>u_bIsUnlit := 1\<rparr>) (mat4_mul Projection View) 1 LightPanel
           @ bucket_draws e (g\<lparr>u_bIsUnlit := 0, gl_blend := True, gl_depthMask := False,
                               u_bIsGlass := 1\<rparr>)
               (mat4_mul Projection View) 0.25 (transparentMeshes e)"
    using LightingPass_effect(1) [of e l View Projection g] by simp
  have restored: "pass_state (LightingPass e l View Projection g) = (False, True, 0)"
    by (simp add: pass_state_def LightingPass_effect)
  have first: "pass_state (gl s) = (False, True, 0)"
    by (rule started_pass_state [OF assms])
  have every: "pass_state (gl (snd (MainLoop_frames inps (l, s)))) = (False, True, 0)"
    using MainLoop_frames_pass_state [of "(l, s)" inps] first by simp
  from order MainLoop_frame_draws [of inp l s'] restored MainLoop_frame_pass_state [of inp l s']
    first every
  show ?thesis
    by blast
qed

theorem lighting_pass_order_and_state_witness:
  "fst (start_up platform_ok cube_assets world_at_launch) = Some world_started \<and>
   pass_state (gl world_started) = (False, True, 0) \<and>
   pass_state (gl (snd (MainLoop_frames [G_up, G_down, G_up]
       (MainLoop_locals_initial, world_started)))) = (False, True, 0) \<and>
   drawn_meshes (gl_trace (LightingPass (sim world_started) MainLoop_locals_initial
       mat4_identity mat4_identity gl_initial))
     = batch_instances (sim world_started)
         [Bench, Door, SwitchObj, Exhaust, Clock, Pipe, Projector, Screen, FloorMesh, Fan,
          Greenboard, Podium, Table, WindowMesh, WallFan, Wall, Ceiling, Grid, LightPanel, Glass]"
proof -
  have h: "fst (start_up platform_ok cube_assets
             (world_initial (\<lambda>i. Vec3 0 0 0) window_idle (controls_initial mat4_zero mat4_zero)))
           = Some world_started"
    using start_up_on_good_platform [of cube_assets world_at_launch]
    by (simp add: world_started_def world_at_launch_def)
  have h': "fst (start_up platform_ok cube_assets world_at_launch) = Some world_started"
    using h by (simp only: world_at_launch_def)
  note t = lighting_pass_order_and_state [OF h, of "sim world_started" MainLoop_locals_initial
      mat4_identity mat4_identity gl_initial G_up world_started "[G_up, G_down, G_up]"]
  from t have first: "pass_state (gl world_started) = (False, True, 0)"
    by blast
  from t have every: "pass_state (gl (snd (MainLoop_frames [G_up, G_down, G_up]
       (MainLoop_locals_initial, world_started)))) = (False, True, 0)"
    by blast
  note order = t [THEN conjunct1]
  have buckets: "opaqueMeshes (sim world_started) =
         [Bench, Door, SwitchObj, Exhaust, Clock, Pipe, Projector, Screen, FloorMesh, Fan,
          Greenboard, Podium, Table, WindowMesh, WallFan]"
    "normalMapMeshes (sim world_started) = [Wall, Ceiling, Grid]"
    "transparentMeshes (sim world_started) = [Glass]"
    by (simp_all add: start_up_scene(1) [OF h] LoadScene_buckets)
  have app: "batch_instances e (xs @ ys) = batch_instances e xs @ batch_instances e ys" for e xs ys
    by (simp add: batch_instances_def)
  have "drawn_meshes (gl_trace (LightingPass (sim world_started) MainLoop_locals_initial
       mat4_identity mat4_identity gl_initial))
     = batch_instances (sim world_started)
         ((opaqueMeshes (sim world_started) @ normalMapMeshes (sim world_started))
          @ [LightPanel] @ transparentMeshes (sim world_started))"
    unfolding order drawn_meshes_append bucket_draws_meshes mesh_draws_as_bucket app
    by (simp add: gl_initial_def)
  then have draws: "drawn_meshes (gl_trace (LightingPass (sim world_started) MainLoop_locals_initial
       mat4_identity mat4_identity gl_initial))
     = batch_instances (sim world_started)
         [Bench, Door, SwitchObj, Exhaust, Clock, Pipe, Projector, Screen, FloorMesh, Fan,
          Greenboard, Podium, Table, WindowMesh, WallFan, Wall, Ceiling, Grid, LightPanel, Glass]"
    by (simp add: buckets)
  from h' first every draws show ?thesis
    by blast
qed

end
